(* ===== verification/Prelude.thy ===== *)
theory Prelude
  imports Main "HOL-Library.AList" "HOL-Library.Sublist"
begin

text \<open>
  The shared vocabulary of the development: the Python semantics the workers and
  deciders of the repository rely on.  A Python exception is a value of
  \<open>py_error\<close> and a computation that may raise one has type \<open>'a py\<close>
  (\<open>Inl\<close> the exception).  The JSON documents exchanged through the broker
  (\<open>json.loads\<close>/\<open>json.dumps\<close> of \<open>simplejson\<close>) are values of \<open>jval\<close>; a Python
  \<open>dict\<close> is an association list without repeated keys, subscripting it is
  \<open>py_getitem\<close> and \<open>dict.update\<close> is \<open>py_dict_update\<close>.  Strings are
  \<open>string\<close>; \<open>str.startswith\<close>, the substring test \<open>x in s\<close>, \<open>str.lower\<close>,
  \<open>file.readlines\<close> and list indexing with negative indices are written out
  the way CPython evaluates them.
\<close>

named_theorems py_simps \<open>evaluation rules of the Python primitives\<close>

section \<open>Exceptions as values\<close>

datatype py_error =
    KeyError string
  | IndexError
  | TypeError
  | UnboundLocalError string
  | FileNotFoundError string
  | NameError string
  | ClientError string
  | CalledProcessError string
  | OSError string
  | AttributeError

type_synonym 'a py = "py_error + 'a"

fun py_bind :: "'a py \<Rightarrow> ('a \<Rightarrow> 'b py) \<Rightarrow> 'b py" where
  "py_bind (Inl e) f = Inl e"
| "py_bind (Inr x) f = f x"

section \<open>JSON documents\<close>

text \<open>
  \<open>simplejson\<close> with \<open>use_decimal\<close> reads numbers as decimals; the orchestration
  code never computes with them, so integers stand for them.
\<close>

datatype jval =
    JNull
  | JBool bool
  | JNum int
  | JStr string
  | JArr "jval list"
  | JObj "(string \<times> jval) list"

type_synonym jdict = "(string \<times> jval) list"

text \<open>\<open>d[k]\<close>: a missing key raises \<open>KeyError\<close>; a value that is not a dict raises
  \<open>TypeError\<close>.\<close>

fun py_getitem :: "jval \<Rightarrow> string \<Rightarrow> jval py" where
  "py_getitem (JObj kvs) k = (case map_of kvs k of None \<Rightarrow> Inl (KeyError k) | Some v \<Rightarrow> Inr v)"
| "py_getitem _ k = Inl TypeError"

text \<open>\<open>d.update(other)\<close>: every item of \<open>other\<close> is stored in turn, overwriting.\<close>

definition py_dict_update :: "jdict \<Rightarrow> jdict \<Rightarrow> jdict" where
  "py_dict_update d other = foldl (\<lambda>acc (k, v). AList.update k v acc) d other"

text \<open>The value of a key in a dict, as a partial map (no exception).\<close>

definition jget :: "jval \<Rightarrow> string \<Rightarrow> jval option" where
  "jget j k = (case j of JObj kvs \<Rightarrow> map_of kvs k | _ \<Rightarrow> None)"

text \<open>The keys a document must hold for a run of dictionary reads not to raise.\<close>

definition has_keys :: "jval \<Rightarrow> string list \<Rightarrow> bool" where
  "has_keys j ks = list_all (\<lambda>k. jget j k \<noteq> None) ks"

section \<open>Lists and strings\<close>

text \<open>\<open>xs[i]\<close>: negative indices count from the end; out of range raises.\<close>

definition py_index :: "'a list \<Rightarrow> int \<Rightarrow> 'a py" where
  "py_index xs i =
     (let pos = (if 0 \<le> i then i else i + int (length xs))
      in if pos < 0 \<or> int (length xs) \<le> pos then Inl IndexError else Inr (xs ! nat pos))"

definition py_last :: "'a list \<Rightarrow> 'a py" where
  "py_last xs = py_index xs (-1)"

definition py_startswith :: "string \<Rightarrow> string \<Rightarrow> bool" where
  "py_startswith s p = (take (length p) s = p)"

text \<open>\<open>needle in hay\<close> for two strings: a substring test, true for the empty needle.\<close>

fun py_in_str :: "string \<Rightarrow> string \<Rightarrow> bool" where
  "py_in_str n [] = (n = [])"
| "py_in_str n (c # cs) = (take (length n) (c # cs) = n \<or> py_in_str n cs)"

text \<open>\<open>x in s\<close> when \<open>x\<close> comes out of a JSON document: a non-string left
  operand raises \<open>TypeError\<close>.\<close>

fun py_jin_str :: "jval \<Rightarrow> string \<Rightarrow> bool py" where
  "py_jin_str (JStr n) s = Inr (py_in_str n s)"
| "py_jin_str _ s = Inl TypeError"

text \<open>\<open>str.lower\<close> on ASCII letters; other characters are kept.\<close>

definition upper_letters :: string where
  "upper_letters = ''ABCDEFGHIJKLMNOPQRSTUVWXYZ''"

definition lower_letters :: string where
  "lower_letters = ''abcdefghijklmnopqrstuvwxyz''"

definition ascii_lower_table :: "(char \<times> char) list" where
  "ascii_lower_table = zip upper_letters lower_letters"

definition lower_char :: "char \<Rightarrow> char" where
  "lower_char c = (case map_of ascii_lower_table c of Some l \<Rightarrow> l | None \<Rightarrow> c)"

definition py_lower :: "string \<Rightarrow> string" where
  "py_lower s = map lower_char s"

text \<open>\<open>f.readlines()\<close>: the lines of a file, each with its terminating newline,
  the last one without it when the file does not end in a newline.\<close>

fun py_readlines_acc :: "string \<Rightarrow> string \<Rightarrow> string list" where
  "py_readlines_acc cur [] = (if cur = [] then [] else [cur])"
| "py_readlines_acc cur (c # cs) =
     (if c = CHR ''\<newline>'' then (cur @ [c]) # py_readlines_acc [] cs
      else py_readlines_acc (cur @ [c]) cs)"

definition py_readlines :: "string \<Rightarrow> string list" where
  "py_readlines s = py_readlines_acc [] s"

text \<open>\<open>str(n)\<close> and \<open>'%d' % n\<close> for a natural number, and \<open>'%02d'\<close>.\<close>

definition digit_chars :: string where
  "digit_chars = ''0123456789''"

fun py_str_nat :: "nat \<Rightarrow> string" where
  "py_str_nat n = (if n < 10 then [digit_chars ! n] else py_str_nat (n div 10) @ [digit_chars ! (n mod 10)])"

declare py_str_nat.simps [simp del]

definition py_pad2 :: "nat \<Rightarrow> string" where
  "py_pad2 n = (let s = py_str_nat n in replicate (2 - length s) (CHR ''0'') @ s)"

text \<open>\<open>int(s)\<close> for a string of decimal digits (no sign), and
  \<open>s.split(sep)\<close> for a one-character separator.\<close>

definition digit_val :: "char \<Rightarrow> nat option" where
  "digit_val c = (let i = length (takeWhile (\<lambda>d. d \<noteq> c) digit_chars) in if i < 10 then Some i else None)"

fun digits_acc :: "nat \<Rightarrow> string \<Rightarrow> nat option" where
  "digits_acc acc [] = Some acc"
| "digits_acc acc (c # cs) = (case digit_val c of None \<Rightarrow> None | Some d \<Rightarrow> digits_acc (10 * acc + d) cs)"

definition py_int_str :: "string \<Rightarrow> nat option" where
  "py_int_str s = (if s = [] then None else digits_acc 0 s)"

fun py_split :: "char \<Rightarrow> string \<Rightarrow> string list" where
  "py_split sep [] = [[]]"
| "py_split sep (c # cs) =
     (if c = sep then [] # py_split sep cs
      else (case py_split sep cs of [] \<Rightarrow> [[c]] | w # ws \<Rightarrow> (c # w) # ws))"

text \<open>\<open>json.dumps\<close> of a string: quoted, with quote, backslash and newline
  escaped.\<close>

definition dquote :: char where "dquote = CHR 0x22"

definition bslash :: char where "bslash = CHR 0x5C"

fun json_escape :: "char \<Rightarrow> string" where
  "json_escape c =
     (if c = dquote then [bslash, dquote] else if c = bslash then [bslash, bslash]
      else if c = CHR ''\<newline>'' then [bslash, CHR ''n''] else [c])"

definition json_dumps_str :: "string \<Rightarrow> string" where
  "json_dumps_str s = dquote # concat (map json_escape s) @ [dquote]"

text \<open>\<open>str(i)\<close> of an integer, and \<open>'%s' % v\<close> of a document value:
  strings as they are, numbers in decimal, \<open>None\<close>, \<open>True\<close>, \<open>False\<close>;
  lists and dicts, which never reach a format string in this code, are
  rendered as JSON.\<close>

definition py_str_int :: "int \<Rightarrow> string" where
  "py_str_int i = (if i < 0 then CHR ''-'' # py_str_nat (nat (- i)) else py_str_nat (nat i))"

text \<open>\<open>sep.join(xs)\<close>.\<close>

fun py_join :: "string \<Rightarrow> string list \<Rightarrow> string" where
  "py_join sep [] = []"
| "py_join sep [x] = x"
| "py_join sep (x # y # zs) = x @ sep @ py_join sep (y # zs)"

fun json_dumps :: "jval \<Rightarrow> string" where
  "json_dumps JNull = ''null''"
| "json_dumps (JBool b) = (if b then ''true'' else ''false'')"
| "json_dumps (JNum i) = py_str_int i"
| "json_dumps (JStr s) = json_dumps_str s"
| "json_dumps (JArr vs) = CHR ''['' # py_join '', '' (map json_dumps vs) @ '']''"
| "json_dumps (JObj kvs) =
     CHR ''{'' # py_join '', '' (map (\<lambda>(k, v). json_dumps_str k @ '': '' @ json_dumps v) kvs) @ ''}''"

fun py_str :: "jval \<Rightarrow> string" where
  "py_str (JStr s) = s"
| "py_str (JNum i) = py_str_int i"
| "py_str JNull = ''None''"
| "py_str (JBool b) = (if b then ''True'' else ''False'')"
| "py_str v = json_dumps v"

section \<open>Dict access, iteration and handlers\<close>

text \<open>\<open>d[k] = v\<close> on a value read from a document: only a dict takes a string
  key.\<close>

fun py_setitem :: "jval \<Rightarrow> string \<Rightarrow> jval \<Rightarrow> jval py" where
  "py_setitem (JObj kvs) k v = Inr (JObj (AList.update k v kvs))"
| "py_setitem _ k v = Inl TypeError"

text \<open>\<open>x[0]\<close> on a value read from a document or a service reply: a list or a
  string is indexed, a dict has no key \<open>0\<close>, anything else is not
  subscriptable.\<close>

fun py_getidx :: "jval \<Rightarrow> int \<Rightarrow> jval py" where
  "py_getidx (JArr xs) i = py_index xs i"
| "py_getidx (JStr s) i = py_index (map (\<lambda>c. JStr [c]) s) i"
| "py_getidx (JObj kvs) i = Inl (KeyError (py_str_int i))"
| "py_getidx _ i = Inl TypeError"

text \<open>\<open>for m in M: ... M[m]\<close>: the items of a dict.  An empty list or string
  runs no iteration; a non-empty one raises at the first \<open>M[m]\<close> (its
  elements index neither a list nor a string with a string key); a number,
  a boolean or \<open>None\<close> is not iterable.\<close>

fun py_items :: "jval \<Rightarrow> jdict py" where
  "py_items (JObj kvs) = Inr kvs"
| "py_items (JArr []) = Inr []"
| "py_items (JStr []) = Inr []"
| "py_items _ = Inl TypeError"

text \<open>\<open>try: ... except KeyError: pass\<close>: a \<open>KeyError\<close> leaves the value it was
  given; every other exception escapes.\<close>

definition py_catch_key :: "'a py \<Rightarrow> 'a \<Rightarrow> 'a py" where
  "py_catch_key r d = (case r of Inl (KeyError _) \<Rightarrow> Inr d | _ \<Rightarrow> r)"

text \<open>A \<open>for\<close> loop whose body may raise: the first exception ends it.\<close>

fun py_foldl :: "('s \<Rightarrow> 'a \<Rightarrow> 's py) \<Rightarrow> 's \<Rightarrow> 'a list \<Rightarrow> 's py" where
  "py_foldl f s [] = Inr s"
| "py_foldl f s (x # xs) = py_bind (f s x) (\<lambda>s'. py_foldl f s' xs)"

section \<open>Shared lemmas\<close>

lemma py_bind_assoc: "py_bind (py_bind m f) g = py_bind m (\<lambda>x. py_bind (f x) g)"
  by (cases m) simp_all

lemma py_bind_Inr_iff [py_simps]:
  "py_bind m f = Inr y \<longleftrightarrow> (\<exists>x. m = Inr x \<and> f x = Inr y)"
  by (cases m) auto

lemma py_getitem_JObj [py_simps]:
  "py_getitem (JObj kvs) k = Inr v \<longleftrightarrow> map_of kvs k = Some v"
  by (auto split: option.splits)

lemma py_getitem_Inr_jget:
  "py_getitem j k = Inr v \<longleftrightarrow> jget j k = Some v"
  by (cases j) (auto simp: jget_def split: option.splits)

lemma jget_JObj [simp]: "jget (JObj kvs) k = map_of kvs k"
  by (simp add: jget_def)

lemma py_getitem_defined [py_simps]:
  "jget j k \<noteq> None \<Longrightarrow> py_getitem j k = Inr (the (jget j k))"
  by (cases j) (auto simp: jget_def)

lemma py_getitem_jget_None:
  "jget j k = None \<Longrightarrow> \<exists>e. py_getitem j k = Inl e"
  by (cases j) (auto simp: jget_def)

lemma map_of_py_dict_update [py_simps]:
  "map_of (py_dict_update d other) = map_of d ++ map_of (rev other)"
proof (induction other arbitrary: d rule: rev_induct)
  case Nil
  then show ?case by (simp add: py_dict_update_def)
next
  case (snoc kv other)
  obtain k v where kv: "kv = (k, v)" by fastforce
  have "py_dict_update d (other @ [kv]) = AList.update k v (py_dict_update d other)"
    by (simp add: py_dict_update_def kv)
  with snoc.IH show ?case
    by (simp add: update_conv' kv map_add_def fun_eq_iff split: option.splits)
qed

lemma map_of_rev_distinct:
  "distinct (map fst xs) \<Longrightarrow> map_of (rev xs) = map_of xs"
proof (induction xs)
  case (Cons p xs)
  obtain k v where p: "p = (k, v)" by fastforce
  with Cons have IH: "map_of (rev xs) = map_of xs" and k: "k \<notin> fst ` set xs" by auto
  from k have "map_of xs k = None" by (simp add: map_of_eq_None_iff)
  with IH p show ?case by (auto simp: fun_eq_iff map_add_def split: option.splits)
qed simp

lemma jget_py_dict_update [py_simps]:
  "distinct (map fst other) \<Longrightarrow> jget (JObj (py_dict_update d other)) k =
     (case map_of other k of Some v \<Rightarrow> Some v | None \<Rightarrow> map_of d k)"
  by (simp add: jget_def map_of_py_dict_update map_add_def map_of_rev_distinct split: option.splits)

lemma distinct_py_dict_update:
  "distinct (map fst d) \<Longrightarrow> distinct (map fst (py_dict_update d other))"
proof (induction other arbitrary: d)
  case (Cons kv other)
  then show ?case by (cases kv) (simp add: py_dict_update_def distinct_update)
qed (simp add: py_dict_update_def)

lemma py_getitem_dict_update:
  "distinct (map fst other) \<Longrightarrow> py_getitem (JObj (py_dict_update d other)) k =
     (case map_of other k of Some v \<Rightarrow> Inr v | None \<Rightarrow> py_getitem (JObj d) k)"
  by (simp add: map_of_py_dict_update map_add_def map_of_rev_distinct split: option.split)

lemma py_index_nonneg [py_simps]:
  "0 \<le> i \<Longrightarrow> py_index xs i = (if i < int (length xs) then Inr (xs ! nat i) else Inl IndexError)"
  by (simp add: py_index_def Let_def)

lemma py_last_eq:
  "py_last xs = (if xs = [] then Inl IndexError else Inr (last xs))"
proof (cases xs rule: rev_cases)
  case Nil
  then show ?thesis by (simp add: py_last_def py_index_def)
next
  case (snoc ys y)
  then show ?thesis by (auto simp: py_last_def py_index_def nth_append)
qed

lemma py_last_Inr_iff [py_simps]:
  "py_last xs = Inr x \<longleftrightarrow> xs \<noteq> [] \<and> x = last xs"
  by (auto simp: py_last_eq)

lemma py_last_Nil [py_simps]: "py_last [] = Inl IndexError"
  by (simp add: py_last_eq)

lemma py_last_Cons [py_simps]: "py_last (x # xs) = (if xs = [] then Inr x else py_last xs)"
  by (simp add: py_last_eq)

lemma py_last_snoc [py_simps]: "py_last (xs @ [x]) = Inr x"
  by (simp add: py_last_eq)

lemma take_length_eq_prefix: "take (length p) s = p \<longleftrightarrow> prefix p s"
proof
  assume "take (length p) s = p"
  then have "s = p @ drop (length p) s" by (metis append_take_drop_id)
  then show "prefix p s" by (rule prefixI)
next
  assume "prefix p s"
  then show "take (length p) s = p" by (auto simp: prefix_def)
qed

lemma py_in_str_sublist: "py_in_str n h \<longleftrightarrow> sublist n h"
  by (induction h) (simp_all add: sublist_Cons_right take_length_eq_prefix)

lemma py_startswith_prefix: "py_startswith s p \<longleftrightarrow> prefix p s"
  by (simp add: py_startswith_def take_length_eq_prefix)

lemma py_readlines_acc_concat:
  "concat (py_readlines_acc cur s) = cur @ s"
  by (induction cur s rule: py_readlines_acc.induct) auto

lemma py_readlines_concat [simp]: "concat (py_readlines s) = s"
  by (simp add: py_readlines_def py_readlines_acc_concat)

lemma readlines_acc_no_newline:
  "CHR ''\<newline>'' \<notin> set w \<Longrightarrow> py_readlines_acc cur w = (if cur @ w = [] then [] else [cur @ w])"
  by (induction w arbitrary: cur) auto

lemma readlines_acc_append:
  "s \<noteq> [] \<Longrightarrow> last s = CHR ''\<newline>'' \<Longrightarrow>
   py_readlines_acc cur (s @ t) = py_readlines_acc cur s @ py_readlines_acc [] t"
proof (induction s arbitrary: cur)
  case Nil
  then show ?case by simp
next
  case (Cons c s)
  show ?case
  proof (cases "s = []")
    case True
    with Cons.prems show ?thesis by simp
  next
    case False
    with Cons.prems have "last s = CHR ''\<newline>''" by simp
    with False Cons.IH show ?thesis by simp
  qed
qed

lemma readlines_acc_line:
  "CHR ''\<newline>'' \<notin> set w \<Longrightarrow> py_readlines_acc cur (w @ ''\<newline>'') = [cur @ w @ ''\<newline>'']"
  by (induction w arbitrary: cur) auto

lemma readlines_after_lines:
  assumes "s = [] \<or> last s = CHR ''\<newline>''"
  shows "py_readlines (s @ t) = py_readlines s @ py_readlines t"
proof (cases "s = []")
  case True
  then show ?thesis by (simp add: py_readlines_def)
next
  case False
  with assms show ?thesis by (simp add: py_readlines_def readlines_acc_append)
qed

lemma readlines_snoc_line:
  assumes "CHR ''\<newline>'' \<notin> set w" "w \<noteq> []" "s = [] \<or> last s = CHR ''\<newline>''"
  shows "py_readlines (s @ w) = py_readlines s @ [w]"
  using assms by (simp add: readlines_after_lines) (simp add: py_readlines_def readlines_acc_no_newline)

lemma map_of_lower_table:
  "map_of ascii_lower_table c = Some l \<Longrightarrow>
     c \<in> set upper_letters \<and> l \<in> set lower_letters"
  unfolding ascii_lower_table_def by (blast dest: map_of_SomeD set_zip_leftD set_zip_rightD)

lemma lower_char_cases:
  "lower_char c = c \<or> (c \<in> set upper_letters \<and> lower_char c \<in> set lower_letters)"
  by (auto simp: lower_char_def dest: map_of_lower_table split: option.split)

lemma lower_table_lowers:
  "\<forall>l \<in> set lower_letters. map_of ascii_lower_table l = None"
  by (simp add: ascii_lower_table_def upper_letters_def lower_letters_def)

lemma lower_char_idem [simp]: "lower_char (lower_char c) = lower_char c"
proof (cases "map_of ascii_lower_table c")
  case None
  then show ?thesis by (simp add: lower_char_def)
next
  case (Some l)
  with map_of_lower_table lower_table_lowers have "map_of ascii_lower_table l = None" by blast
  with Some show ?thesis by (simp add: lower_char_def)
qed

lemma lower_char_fixed:
  "c \<notin> set upper_letters \<Longrightarrow> lower_char c = c"
  using lower_char_cases [of c] by auto

lemma lower_char_eq_fixed:
  assumes "d \<notin> set upper_letters" "d \<notin> set lower_letters"
  shows "lower_char c = d \<longleftrightarrow> c = d"
  using lower_char_cases [of c] assms lower_char_fixed [OF assms(1)] by auto

lemma py_lower_idem [simp]: "py_lower (py_lower s) = py_lower s"
  by (simp add: py_lower_def comp_def)

lemma takeWhile_map_same:
  "(\<And>c. P (f c) = P c) \<Longrightarrow> takeWhile P (map f xs) = map f (takeWhile P xs)"
  by (induction xs) auto

lemma digit_chars_nth:
  assumes "d < 10"
  shows "digit_val (digit_chars ! d) = Some d"
proof -
  from assms have "d \<in> set [0..<10]" by simp
  then show ?thesis by (auto simp: digit_val_def digit_chars_def upt_rec)
qed

lemma py_str_nat_small: "n < 10 \<Longrightarrow> py_str_nat n = [digit_chars ! n]"
  by (simp add: py_str_nat.simps)

lemma py_str_nat_large: "\<not> n < 10 \<Longrightarrow> py_str_nat n = py_str_nat (n div 10) @ [digit_chars ! (n mod 10)]"
  by (subst py_str_nat.simps) simp

lemma py_str_nat_nonempty [simp]: "py_str_nat n \<noteq> []"
  by (cases "n < 10") (simp_all add: py_str_nat_small py_str_nat_large)

lemma digits_acc_append:
  "digits_acc acc (xs @ ys) = (case digits_acc acc xs of None \<Rightarrow> None | Some a \<Rightarrow> digits_acc a ys)"
  by (induction xs arbitrary: acc) (auto split: option.split)

lemma digits_acc_py_str_nat:
  "digits_acc acc (py_str_nat n) = Some (acc * 10 ^ length (py_str_nat n) + n)"
proof (induction n arbitrary: acc rule: py_str_nat.induct)
  case (1 n)
  show ?case
  proof (cases "n < 10")
    case True
    then show ?thesis by (simp add: py_str_nat_small digit_chars_nth)
  next
    case False
    have "n mod 10 < 10" by simp
    with False "1.IH" show ?thesis
      by (simp add: py_str_nat_large digits_acc_append digit_chars_nth algebra_simps)
  qed
qed

lemma py_int_str_py_str_nat [simp]: "py_int_str (py_str_nat n) = Some n"
  by (simp add: py_int_str_def digits_acc_py_str_nat)

lemma py_str_nat_inj: "py_str_nat m = py_str_nat n \<longleftrightarrow> m = n"
  by (metis option.inject py_int_str_py_str_nat)

lemma digits_acc_zeros: "digits_acc 0 (replicate k (CHR ''0'') @ s) = digits_acc 0 s"
proof -
  have "digits_acc 0 (replicate k (CHR ''0'')) = Some 0"
    by (induction k) (simp_all add: digit_val_def digit_chars_def)
  then show ?thesis by (simp add: digits_acc_append)
qed

lemma py_int_str_pad2 [simp]: "py_int_str (py_pad2 n) = Some n"
  by (simp add: py_int_str_def py_pad2_def Let_def digits_acc_zeros digits_acc_py_str_nat)

lemma length_digit_chars [simp]: "length digit_chars = 10"
  by (simp add: digit_chars_def)

lemma set_py_str_nat: "set (py_str_nat n) \<subseteq> set digit_chars"
proof (induction n rule: py_str_nat.induct)
  case (1 n)
  then show ?case
    by (cases "n < 10") (simp_all add: py_str_nat_small py_str_nat_large nth_mem)
qed

lemma set_py_pad2: "set (py_pad2 n) \<subseteq> set digit_chars"
  using set_py_str_nat [of n] by (auto simp: py_pad2_def Let_def digit_chars_def)

lemma py_split_none: "sep \<notin> set a \<Longrightarrow> py_split sep a = [a]"
  by (induction a) auto

lemma py_split_at: "sep \<notin> set a \<Longrightarrow> py_split sep (a @ sep # b) = a # py_split sep b"
proof (induction a)
  case (Cons c a)
  then show ?case by (cases "py_split sep (a @ sep # b)") auto
qed simp

lemma py_split_nonempty [simp]: "py_split sep s \<noteq> []"
  by (induction s) (auto split: list.split)

lemma hd_py_split: "hd (py_split sep s) = takeWhile (\<lambda>c. c \<noteq> sep) s"
  by (induction s) (auto split: list.split)

lemma py_foldl_append:
  "py_foldl f s (xs @ ys) = py_bind (py_foldl f s xs) (\<lambda>s'. py_foldl f s' ys)"
  by (induction xs arbitrary: s) (simp_all add: py_bind_assoc)

lemma py_catch_key_simps [simp]:
  "py_catch_key (Inr x) d = Inr x"
  "py_catch_key (Inl (KeyError k)) d = Inr d"
  "\<forall>k. e \<noteq> KeyError k \<Longrightarrow> py_catch_key (Inl e) d = Inl e"
  by (simp_all add: py_catch_key_def split: py_error.split)

lemma py_bind_Inl_iff [py_simps]:
  "py_bind m f = Inl e \<longleftrightarrow> m = Inl e \<or> (\<exists>x. m = Inr x \<and> f x = Inl e)"
  by (cases m) auto

lemma keys_py_dict_update:
  "fst ` set (py_dict_update d other) = fst ` set d \<union> fst ` set other"
proof -
  have "fst ` set (py_dict_update d other) = dom (map_of (py_dict_update d other))"
    by (simp add: dom_map_of_conv_image_fst)
  then show ?thesis by (simp add: map_of_py_dict_update dom_map_of_conv_image_fst Un_commute)
qed

lemma map_of_py_dict_update_distinct:
  "distinct (map fst other) \<Longrightarrow> map_of (py_dict_update d other) = map_of d ++ map_of other"
  by (simp add: map_of_py_dict_update map_of_rev_distinct)

lemma length_py_str_nat_le: "0 < k \<Longrightarrow> length (py_str_nat n) \<le> k \<longleftrightarrow> n < 10 ^ k"
proof (induction n arbitrary: k rule: py_str_nat.induct)
  case (1 n)
  show ?case
  proof (cases "n < 10")
    case True
    moreover have "(10::nat) \<le> 10 ^ k" using "1.prems" by (cases k) simp_all
    ultimately show ?thesis using "1.prems" by (simp add: py_str_nat_small)
  next
    case False
    show ?thesis
    proof (cases k)
      case (Suc k')
      show ?thesis
      proof (cases k')
        case 0
        with Suc False show ?thesis by (simp add: py_str_nat_large)
      next
        case (Suc k'')
        then have "length (py_str_nat (n div 10)) \<le> k' \<longleftrightarrow> n div 10 < 10 ^ k'"
          using "1.IH" [OF False, of k'] by simp
        with \<open>k = Suc k'\<close> False show ?thesis
          by (simp add: py_str_nat_large div_less_iff_less_mult mult.commute)
      qed
    qed (use "1.prems" in simp)
  qed
qed

lemma length_py_pad2: "length (py_pad2 n) = max 2 (length (py_str_nat n))"
  by (simp add: py_pad2_def Let_def)

lemma length_py_pad2_eq_2: "length (py_pad2 n) = 2 \<longleftrightarrow> n < 100"
  using length_py_str_nat_le [of 2 n] by (auto simp: length_py_pad2 max_def)

end
