(* ===== verification/Pipeline.thy ===== *)
theory Pipeline
  imports Prelude
begin

text \<open>
  The abstract specification the deciders implement: a pipeline definition is a
  table from the name of the stage that completed and the branch key of its
  result to the next stage or to the end of the execution (spec, sections 3,
  4.2 and 9).  The table is a function, so at most one entry matches; the
  theorems below show that along every run of the two shipped tables an entry
  exists, and which stages each run visits.
\<close>

section \<open>Asset classes\<close>

datatype asset_class = Image | Video | Audio | Other

instantiation asset_class :: enum
begin

definition enum_asset_class :: "asset_class list" where
  "enum_asset_class = [Image, Video, Audio, Other]"

definition enum_all_asset_class :: "(asset_class \<Rightarrow> bool) \<Rightarrow> bool" where
  "enum_all_asset_class P = (P Image \<and> P Video \<and> P Audio \<and> P Other)"

definition enum_ex_asset_class :: "(asset_class \<Rightarrow> bool) \<Rightarrow> bool" where
  "enum_ex_asset_class P = (P Image \<or> P Video \<or> P Audio \<or> P Other)"

instance
proof
  show "(UNIV :: asset_class set) = set enum_class.enum"
    by (auto simp: enum_asset_class_def intro: asset_class.exhaust)
  show "distinct (enum_class.enum :: asset_class list)"
    by (simp add: enum_asset_class_def)
  fix P :: "asset_class \<Rightarrow> bool"
  show "enum_class.enum_all P = Ball UNIV P"
    by (simp add: enum_all_asset_class_def) (metis asset_class.exhaust)
  show "enum_class.enum_ex P = Bex UNIV P"
    by (simp add: enum_ex_asset_class_def) (metis asset_class.exhaust)
qed

end

text \<open>The names the classes have in the documents, and the class a document's
  value stands for: the deciders compare it with \<open>'Image'\<close>, \<open>'Video'\<close> and
  \<open>'Audio'\<close>, and anything else takes the branch of the remaining class.\<close>

fun class_name :: "asset_class \<Rightarrow> string" where
  "class_name Image = ''Image''"
| "class_name Video = ''Video''"
| "class_name Audio = ''Audio''"
| "class_name Other = ''Other''"

definition class_of_jval :: "jval \<Rightarrow> asset_class" where
  "class_of_jval v =
     (if v = JStr ''Image'' then Image
      else if v = JStr ''Video'' then Video
      else if v = JStr ''Audio'' then Audio
      else Other)"

section \<open>Pipeline tables\<close>

datatype route = Next string | Terminal

type_synonym 'k pipeline = "string \<Rightarrow> 'k \<Rightarrow> route option"

text \<open>The ingestion pipeline: classify, extract metadata (EXIF for images,
  container metadata otherwise), register, derive (thumbnail and/or transcode by
  class), distribute, clean up.\<close>

definition ingest_table :: "asset_class pipeline" where
  "ingest_table stage c =
     (if stage = ''identifyAssetClass'' then
        Some (Next (if c = Image then ''extractExifMetadata'' else ''extractMediainfoMetadata''))
      else if stage \<in> {''extractExifMetadata'', ''extractMediainfoMetadata''} then
        Some (Next ''registerAsset'')
      else if stage = ''registerAsset'' then
        Some (Next (case c of Image \<Rightarrow> ''createThumbnailFromImage''
                            | Video \<Rightarrow> ''createThumbnailFromVideo''
                            | Audio \<Rightarrow> ''transcodeAudioDefault''
                            | Other \<Rightarrow> ''distributeToS3''))
      else if stage \<in> {''createThumbnailFromImage'', ''createThumbnailFromVideo''} then
        (case c of Image \<Rightarrow> Some (Next ''distributeToS3'')
                 | Video \<Rightarrow> Some (Next ''transcodeVideoDefault'')
                 | _ \<Rightarrow> None)
      else if stage \<in> {''transcodeVideoDefault'', ''transcodeAudioDefault''} then
        Some (Next ''distributeToS3'')
      else if stage = ''distributeToS3'' then Some (Next ''cleanUpLandingPad'')
      else if stage = ''cleanUpLandingPad'' then Some Terminal
      else None)"

definition ingest_entry :: string where
  "ingest_entry = ''identifyAssetClass''"

text \<open>The lifecycle pipeline.  Its branch key is the pair of source and
  destination tier; a move that involves the archive tier needs a clean-up of
  the local copy and a delete at the source before it completes.\<close>

definition archive_involved :: "string \<times> string \<Rightarrow> bool" where
  "archive_involved k = (fst k = ''archive'' \<or> snd k = ''archive'')"

definition lifecycle_table :: "(string \<times> string) pipeline" where
  "lifecycle_table stage k =
     (if stage = ''moveFiles'' then
        Some (if archive_involved k then Next ''cleanUpLandingPad'' else Terminal)
      else if stage = ''cleanUpLandingPad'' then Some (Next ''deleteFiles'')
      else if stage = ''deleteFiles'' then Some Terminal
      else None)"

definition lifecycle_entry :: "string \<Rightarrow> string" where
  "lifecycle_entry dest = (if dest = ''delete'' then ''deleteFiles'' else ''moveFiles'')"

section \<open>Runs of a table\<close>

text \<open>The stages an execution visits from \<open>stage\<close> on when every stage
  succeeds and the branch key stays \<open>k\<close>; \<open>None\<close> when the table has no entry
  on the way or the fuel runs out.\<close>

fun pipeline_path :: "'k pipeline \<Rightarrow> nat \<Rightarrow> string \<Rightarrow> 'k \<Rightarrow> string list option" where
  "pipeline_path tbl 0 stage k = None"
| "pipeline_path tbl (Suc n) stage k =
     (case tbl stage k of
        None \<Rightarrow> None
      | Some Terminal \<Rightarrow> Some [stage]
      | Some (Next s) \<Rightarrow> map_option (Cons stage) (pipeline_path tbl n s k))"

lemma pipeline_path_mono:
  "pipeline_path tbl n s k = Some p \<Longrightarrow> n \<le> m \<Longrightarrow> pipeline_path tbl m s k = Some p"
proof (induction n arbitrary: m s p)
  case 0
  then show ?case by simp
next
  case (Suc n)
  from Suc.prems obtain m' where m: "m = Suc m'" and le: "n \<le> m'" by (cases m) auto
  show ?case
  proof (cases "tbl s k")
    case None
    with Suc.prems show ?thesis by simp
  next
    case (Some r)
    show ?thesis
    proof (cases r)
      case Terminal
      with Some Suc.prems m show ?thesis by simp
    next
      case (Next s')
      with Some Suc.prems obtain p' where p': "pipeline_path tbl n s' k = Some p'" and "p = s # p'"
        by auto
      from Suc.IH [OF p' le] Some Next m \<open>p = s # p'\<close> show ?thesis by simp
    qed
  qed
qed

text \<open>Every run of the ingestion table ends, within eight stages, and visits
  the stages of its class (spec, end-to-end scenarios 1 and 2).\<close>

lemma ingest_runs:
  "pipeline_path ingest_table 8 ingest_entry c = Some
     (case c of
        Image \<Rightarrow> [''identifyAssetClass'', ''extractExifMetadata'', ''registerAsset'', ''createThumbnailFromImage'',
                  ''distributeToS3'', ''cleanUpLandingPad'']
      | Video \<Rightarrow> [''identifyAssetClass'', ''extractMediainfoMetadata'', ''registerAsset'', ''createThumbnailFromVideo'',
                  ''transcodeVideoDefault'', ''distributeToS3'', ''cleanUpLandingPad'']
      | Audio \<Rightarrow> [''identifyAssetClass'', ''extractMediainfoMetadata'', ''registerAsset'', ''transcodeAudioDefault'',
                  ''distributeToS3'', ''cleanUpLandingPad'']
      | Other \<Rightarrow> [''identifyAssetClass'', ''extractMediainfoMetadata'', ''registerAsset'', ''distributeToS3'',
                  ''cleanUpLandingPad''])"
  by (cases c) (simp_all add: ingest_table_def ingest_entry_def eval_nat_numeral)

text \<open>Every run of the lifecycle table ends within three stages: a delete is
  one stage, a move that involves the archive is followed by the clean-up and
  the delete at the source, any other move is one stage.\<close>

lemma lifecycle_runs:
  "pipeline_path lifecycle_table 3 (lifecycle_entry (snd k)) k = Some
     (if snd k = ''delete'' then [''deleteFiles'']
      else if archive_involved k then [''moveFiles'', ''cleanUpLandingPad'', ''deleteFiles'']
      else [''moveFiles''])"
  by (simp add: lifecycle_table_def lifecycle_entry_def eval_nat_numeral)

end
