(* ===== verification/History.thy ===== *)
theory History
  imports Prelude Pipeline
begin

text \<open>
  The execution history as the deciders read it from a decision task of the SWF
  broker (\<open>poll_for_decision_task\<close>), and the decisions they answer with.  Both
  deciders, \<open>src/workflowcode/decider.py\<close> and \<open>src/SFNcode/fileManager.py\<close>,
  share this part of their code: they drop the events whose type starts with
  \<open>Decision\<close>, take the last remaining event, and for a completed activity look
  up the event that scheduled it at index \<open>scheduledEventId - 1\<close> of the full
  event list, then load its JSON result.  Every dictionary access of that code
  is a possible \<open>KeyError\<close>, kept as such here.
\<close>

section \<open>Events and decision tasks\<close>

text \<open>
  An event carries its type and the attributes the deciders read.  The four
  event types the deciders dispatch on get their own constructor; every other
  type of the broker (\<open>DecisionTaskScheduled\<close>, \<open>ActivityTaskStarted\<close>, \<open>\<dots>\<close>) is
  an \<open>OtherEvent\<close> with its type name.
\<close>

datatype event =
    WorkflowExecutionStarted "jval option"
  | ActivityTaskScheduled string "jval option"
  | ActivityTaskCompleted int "jval option"
  | ActivityTaskFailed int "string option" "string option"
  | OtherEvent string

fun event_type :: "event \<Rightarrow> string" where
  "event_type (WorkflowExecutionStarted _) = ''WorkflowExecutionStarted''"
| "event_type (ActivityTaskScheduled _ _) = ''ActivityTaskScheduled''"
| "event_type (ActivityTaskCompleted _ _) = ''ActivityTaskCompleted''"
| "event_type (ActivityTaskFailed _ _ _) = ''ActivityTaskFailed''"
| "event_type (OtherEvent t) = t"

record decision_task =
  taskToken :: "string option"
  events :: "event list option"

section \<open>Reading the history\<close>

text \<open>\<open>workflow_events = [e for e in events if not e['eventType'].startswith('Decision')]\<close>
  and \<open>last_event = workflow_events[-1]\<close>.\<close>

definition workflow_events :: "event list \<Rightarrow> event list" where
  "workflow_events evs = filter (\<lambda>e. \<not> py_startswith (event_type e) ''Decision'') evs"

definition last_workflow_event :: "event list \<Rightarrow> event py" where
  "last_workflow_event evs = py_last (workflow_events evs)"

text \<open>\<open>json.loads(last_event['workflowExecutionStartedEventAttributes']['input'])\<close>.\<close>

fun started_input :: "event \<Rightarrow> jval py" where
  "started_input (WorkflowExecutionStarted (Some j)) = Inr j"
| "started_input (WorkflowExecutionStarted None) = Inl (KeyError ''input'')"
| "started_input _ = Inl (KeyError ''workflowExecutionStartedEventAttributes'')"

text \<open>\<open>last_event['activityTaskCompletedEventAttributes']['scheduledEventId']\<close>.\<close>

fun completed_scheduled_id :: "event \<Rightarrow> int py" where
  "completed_scheduled_id (ActivityTaskCompleted sid _) = Inr sid"
| "completed_scheduled_id _ = Inl (KeyError ''activityTaskCompletedEventAttributes'')"

text \<open>\<open>json.loads(attrs.get('result'))\<close>: a completion without a result gives
  \<open>json.loads(None)\<close>, a \<open>TypeError\<close>.\<close>

fun completed_result :: "event \<Rightarrow> jval py" where
  "completed_result (ActivityTaskCompleted _ (Some r)) = Inr r"
| "completed_result (ActivityTaskCompleted _ None) = Inl TypeError"
| "completed_result _ = Inl (KeyError ''activityTaskCompletedEventAttributes'')"

text \<open>\<open>activity_data['activityTaskScheduledEventAttributes']['activityType']['name']\<close>.\<close>

fun scheduled_name :: "event \<Rightarrow> string py" where
  "scheduled_name (ActivityTaskScheduled n _) = Inr n"
| "scheduled_name _ = Inl (KeyError ''activityTaskScheduledEventAttributes'')"

text \<open>Steps 1) to 3) of both deciders: the name of the activity that completed,
  found through the scheduling event, and its loaded result.\<close>

definition completed_activity :: "event list \<Rightarrow> event \<Rightarrow> (string \<times> jval) py" where
  "completed_activity evs ev =
     py_bind (completed_scheduled_id ev) (\<lambda>sid.
     py_bind (py_index evs (sid - 1)) (\<lambda>data.
     py_bind (scheduled_name data) (\<lambda>name.
     py_bind (completed_result ev) (\<lambda>result. Inr (name, result)))))"

section \<open>Decisions\<close>

datatype decision =
    ScheduleActivityTask string string string jval string
      \<comment> \<open>activity id, activity name, version, input document, task list\<close>
  | CompleteWorkflowExecution string

text \<open>What one pass of a decider's \<open>while True\<close> loop does with one poll:
  nothing was polled, a decision was sent with the task's token, a task was taken
  and left unanswered, or an exception ended the process.\<close>

datatype outcome =
    Repoll
  | Respond string decision
  | NoDecision
  | Crash py_error

text \<open>\<open>executeNextTask\<close> of \<open>decider.py\<close>: one \<open>ScheduleActivityTask\<close> decision, its
  activity id made from a fresh \<open>uuid4\<close> (here the argument \<open>uuid\<close>).\<close>

definition executeNextTask ::
  "string \<Rightarrow> string \<Rightarrow> string \<Rightarrow> string \<Rightarrow> jval \<Rightarrow> string \<Rightarrow> outcome" where
  "executeNextTask uuid token taskName taskVersion taskInput taskList =
     Respond token (ScheduleActivityTask (''activityid-'' @ uuid) taskName taskVersion taskInput taskList)"

text \<open>What a decider's answer means for the execution, in the terms of a
  pipeline table: the next stage (scheduled on the task list of its own name,
  where its workers poll) or the end.\<close>

fun route_of_outcome :: "outcome \<Rightarrow> route option" where
  "route_of_outcome (Respond _ (ScheduleActivityTask _ n _ _ l)) = (if l = n then Some (Next n) else None)"
| "route_of_outcome (Respond _ (CompleteWorkflowExecution _)) = Some Terminal"
| "route_of_outcome _ = None"

definition outcome_of :: "('s \<times> outcome) py \<Rightarrow> outcome" where
  "outcome_of r = (case r of Inl e \<Rightarrow> Crash e | Inr (_, out) \<Rightarrow> out)"

text \<open>The bookkeeping events of the broker that the deciders skip.\<close>

definition decision_event :: "event \<Rightarrow> bool" where
  "decision_event e = py_startswith (event_type e) ''Decision''"

section \<open>Lemmas\<close>

lemma workflow_events_append [simp]:
  "workflow_events (xs @ ys) = workflow_events xs @ workflow_events ys"
  by (simp add: workflow_events_def)

lemma workflow_events_Cons_Decision [simp]:
  "workflow_events (OtherEvent t # evs) =
     (if py_startswith t ''Decision'' then workflow_events evs else OtherEvent t # workflow_events evs)"
  by (simp add: workflow_events_def)

lemma workflow_events_Cons_activity [simp]:
  "workflow_events (WorkflowExecutionStarted j # evs) = WorkflowExecutionStarted j # workflow_events evs"
  "workflow_events (ActivityTaskScheduled n i # evs) = ActivityTaskScheduled n i # workflow_events evs"
  "workflow_events (ActivityTaskCompleted s r # evs) = ActivityTaskCompleted s r # workflow_events evs"
  "workflow_events (ActivityTaskFailed s a b # evs) = ActivityTaskFailed s a b # workflow_events evs"
  by (simp_all add: workflow_events_def py_startswith_def)

lemma workflow_events_Nil [simp]: "workflow_events [] = []"
  by (simp add: workflow_events_def)

lemma completed_activity_Inr [py_simps]:
  assumes "0 < sid" "nat sid \<le> length evs" "evs ! nat (sid - 1) = ActivityTaskScheduled n i"
  shows "completed_activity evs (ActivityTaskCompleted sid (Some r)) = Inr (n, r)"
proof -
  have "py_index evs (sid - 1) = Inr (ActivityTaskScheduled n i)"
    using assms by (simp add: py_index_nonneg)
  then show ?thesis by (simp add: completed_activity_def)
qed

lemma workflow_events_decisions:
  "list_all decision_event ds \<Longrightarrow> workflow_events ds = []"
  by (induction ds) (auto simp: workflow_events_def decision_event_def)

lemma last_workflow_event_suffix [py_simps]:
  assumes "\<not> decision_event e" "list_all decision_event ds"
  shows "last_workflow_event (pre @ e # ds) = Inr e"
proof -
  have "workflow_events (pre @ e # ds) = workflow_events pre @ [e]"
    using assms workflow_events_decisions [OF assms(2)]
    by (simp add: workflow_events_def decision_event_def)
  then show ?thesis by (simp add: last_workflow_event_def py_last_snoc)
qed

lemma not_decision_event [simp]:
  "\<not> decision_event (WorkflowExecutionStarted j)"
  "\<not> decision_event (ActivityTaskScheduled n i)"
  "\<not> decision_event (ActivityTaskCompleted sid r)"
  "\<not> decision_event (ActivityTaskFailed sid a b)"
  by (simp_all add: decision_event_def py_startswith_def)

lemma completed_activity_append [py_simps]:
  assumes "0 < sid" "nat sid \<le> length pre" "pre ! nat (sid - 1) = ActivityTaskScheduled n i"
  shows "completed_activity (pre @ ev # ds) (ActivityTaskCompleted sid (Some r)) = Inr (n, r)"
  using assms by (intro completed_activity_Inr) (auto simp: nth_append)

lemma outcome_of_py_bind [simp]:
  "outcome_of (py_bind m f) = (case m of Inl e \<Rightarrow> Crash e | Inr x \<Rightarrow> outcome_of (f x))"
  by (cases m) (simp_all add: outcome_of_def)

lemma outcome_of_Inr [simp]: "outcome_of (Inr (s, out)) = out"
  by (simp add: outcome_of_def)

end
