(* ===== verification/Ingestion.thy ===== *)
theory Ingestion
  imports History Pipeline
begin

text \<open>
  The decider of the ingestion workflow, \<open>src/workflowcode/decider.py\<close>.  Its
  \<open>main\<close> loop polls a decision task, reads the last non-decision event of the
  history and answers with one decision.  The branch on the name of the
  completed activity is a chain of \<open>if\<close>/\<open>elif\<close> over the constants
  \<open>ACTIVITY1\<close> to \<open>ACTIVITY7\<close>; it is translated here branch by branch, in the
  source's order, each branch with the dictionary reads it makes.

  The loop keeps Python locals from one poll to the next.  Of them only
  \<open>taskName\<close> can reach a decision: in the branch after a thumbnail activity an
  asset class other than \<open>Image\<close> and \<open>Video\<close> assigns no task name, and the
  decision uses the name left by the previous poll, or raises
  \<open>UnboundLocalError\<close> on the first poll of the process.  So the locals are
  the state \<open>ingest_locals\<close> of the decider.
\<close>

section \<open>Activity names\<close>

definition ACTIVITY1 :: string where "ACTIVITY1 = ''identifyAssetClass''"
definition ACTIVITY2a :: string where "ACTIVITY2a = ''extractExifMetadata''"
definition ACTIVITY2b :: string where "ACTIVITY2b = ''extractMediainfoMetadata''"
definition ACTIVITY3 :: string where "ACTIVITY3 = ''registerAsset''"
definition ACTIVITY4a :: string where "ACTIVITY4a = ''createThumbnailFromImage''"
definition ACTIVITY4b :: string where "ACTIVITY4b = ''createThumbnailFromVideo''"
definition ACTIVITY5b :: string where "ACTIVITY5b = ''transcodeVideoDefault''"
definition ACTIVITY5c :: string where "ACTIVITY5c = ''transcodeAudioDefault''"
definition ACTIVITY6 :: string where "ACTIVITY6 = ''distributeToS3''"
definition ACTIVITY7 :: string where "ACTIVITY7 = ''cleanUpLandingPad''"

lemmas ingest_names = ACTIVITY1_def ACTIVITY2a_def ACTIVITY2b_def ACTIVITY3_def
  ACTIVITY4a_def ACTIVITY4b_def ACTIVITY5b_def ACTIVITY5c_def ACTIVITY6_def ACTIVITY7_def

section \<open>The decider's state\<close>

record ingest_locals =
  taskName :: "string option"   \<comment> \<open>\<open>None\<close>: not yet bound in this process\<close>
  assetClass :: jval

definition ingest_init :: ingest_locals where
  "ingest_init = \<lparr>taskName = None, assetClass = JStr []\<rparr>"

section \<open>One decision\<close>

text \<open>The input document of the stages after registration.\<close>

definition keyed_input :: "jval \<Rightarrow> jval \<Rightarrow> jval \<Rightarrow> jval" where
  "keyed_input asset cls key = JObj [(''asset'', asset), (''assetClass'', cls), (''dbPrimaryKey'', key)]"

text \<open>\<open>taskName\<close> as read at \<open>taskList = taskName\<close>.\<close>

definition read_taskName :: "ingest_locals \<Rightarrow> string py" where
  "read_taskName st =
     (case taskName st of None \<Rightarrow> Inl (UnboundLocalError ''taskName'') | Some n \<Rightarrow> Inr n)"

text \<open>The branch \<open>activity_name == ACTIVITY1\<close>: the asset class picks the
  metadata extractor.\<close>

definition after_identify ::
  "ingest_locals \<Rightarrow> string \<Rightarrow> string \<Rightarrow> jval \<Rightarrow> (ingest_locals \<times> outcome) py" where
  "after_identify st uuid tok result =
     py_bind (py_getitem result ''assetClass'') (\<lambda>cls.
     (let tn = (if cls = JStr ''Image'' then ACTIVITY2a else ACTIVITY2b) in
     py_bind (py_getitem result ''asset'') (\<lambda>asset.
     py_bind (py_getitem result ''metadata'') (\<lambda>md.
     Inr (st\<lparr>taskName := Some tn, assetClass := cls\<rparr>,
          executeNextTask uuid tok tn ''1''
            (JObj [(''asset'', asset), (''METADATA'', md), (''assetClass'', cls)]) tn)))))"

text \<open>The branch \<open>activity_name in (ACTIVITY2a, ACTIVITY2b)\<close>: registration.\<close>

definition after_extract ::
  "ingest_locals \<Rightarrow> string \<Rightarrow> string \<Rightarrow> jval \<Rightarrow> (ingest_locals \<times> outcome) py" where
  "after_extract st uuid tok result =
     py_bind (py_getitem result ''DOC'') (\<lambda>doc.
     py_bind (py_getitem result ''asset'') (\<lambda>asset.
     py_bind (py_getitem result ''assetClass'') (\<lambda>cls.
     Inr (st\<lparr>taskName := Some ACTIVITY3\<rparr>,
          executeNextTask uuid tok ACTIVITY3 ''1''
            (JObj [(''DOC'', doc), (''asset'', asset), (''assetClass'', cls)]) ACTIVITY3))))"

text \<open>The branch \<open>activity_name == ACTIVITY3\<close>: the asset class picks the first
  derivative stage, or distribution for \<open>Other\<close>.\<close>

definition after_register ::
  "ingest_locals \<Rightarrow> string \<Rightarrow> string \<Rightarrow> jval \<Rightarrow> (ingest_locals \<times> outcome) py" where
  "after_register st uuid tok result =
     py_bind (py_getitem result ''assetClass'') (\<lambda>cls.
     (let tn = (if cls = JStr ''Image'' then ACTIVITY4a
                else if cls = JStr ''Video'' then ACTIVITY4b
                else if cls = JStr ''Audio'' then ACTIVITY5c
                else ACTIVITY6) in
     py_bind (py_getitem result ''asset'') (\<lambda>asset.
     py_bind (py_getitem result ''dbPrimaryKey'') (\<lambda>key.
     Inr (st\<lparr>taskName := Some tn, assetClass := cls\<rparr>,
          executeNextTask uuid tok tn ''1'' (keyed_input asset cls key) tn)))))"

text \<open>The branch \<open>activity_name in (ACTIVITY4a, ACTIVITY4b)\<close>.  Only \<open>Image\<close> and
  \<open>Video\<close> assign \<open>taskName\<close> (``Other cases SHOULD NOT happen''); otherwise
  the name of the previous poll is used.\<close>

definition after_thumbnail ::
  "ingest_locals \<Rightarrow> string \<Rightarrow> string \<Rightarrow> jval \<Rightarrow> (ingest_locals \<times> outcome) py" where
  "after_thumbnail st uuid tok result =
     py_bind (py_getitem result ''assetClass'') (\<lambda>cls.
     (let st1 = (if cls = JStr ''Image'' then st\<lparr>taskName := Some ACTIVITY6\<rparr>
                 else if cls = JStr ''Video'' then st\<lparr>taskName := Some ACTIVITY5b\<rparr>
                 else st)\<lparr>assetClass := cls\<rparr> in
     py_bind (read_taskName st1) (\<lambda>tn.
     py_bind (py_getitem result ''asset'') (\<lambda>asset.
     py_bind (py_getitem result ''dbPrimaryKey'') (\<lambda>key.
     Inr (st1, executeNextTask uuid tok tn ''1'' (keyed_input asset cls key) tn))))))"

text \<open>The branches \<open>activity_name in (ACTIVITY5b, ACTIVITY5c)\<close> (next:
  \<open>ACTIVITY6\<close>) and \<open>activity_name == ACTIVITY6\<close> (next: \<open>ACTIVITY7\<close>) build the
  same input from the result.\<close>

definition forward_to ::
  "string \<Rightarrow> ingest_locals \<Rightarrow> string \<Rightarrow> string \<Rightarrow> jval \<Rightarrow> (ingest_locals \<times> outcome) py" where
  "forward_to tn st uuid tok result =
     py_bind (py_getitem result ''asset'') (\<lambda>asset.
     py_bind (py_getitem result ''assetClass'') (\<lambda>cls.
     py_bind (py_getitem result ''dbPrimaryKey'') (\<lambda>key.
     Inr (st\<lparr>taskName := Some tn\<rparr>,
          executeNextTask uuid tok tn ''1'' (keyed_input asset cls key) tn))))"

text \<open>The whole \<open>if\<close>/\<open>elif\<close> chain on the completed activity's name; no
  branch matches an unknown name, and no decision is made.\<close>

definition ingest_on_completed ::
  "ingest_locals \<Rightarrow> string \<Rightarrow> string \<Rightarrow> string \<Rightarrow> jval \<Rightarrow> (ingest_locals \<times> outcome) py" where
  "ingest_on_completed st uuid tok name result =
     (if name = ACTIVITY1 then after_identify st uuid tok result
      else if name \<in> {ACTIVITY2a, ACTIVITY2b} then after_extract st uuid tok result
      else if name = ACTIVITY3 then after_register st uuid tok result
      else if name \<in> {ACTIVITY4a, ACTIVITY4b} then after_thumbnail st uuid tok result
      else if name \<in> {ACTIVITY5b, ACTIVITY5c} then forward_to ACTIVITY6 st uuid tok result
      else if name = ACTIVITY6 then forward_to ACTIVITY7 st uuid tok result
      else if name = ACTIVITY7 then Inr (st, Respond tok (CompleteWorkflowExecution ''success''))
      else Inr (st, NoDecision))"

text \<open>The start of an execution: classify the uploaded file.\<close>

definition ingest_on_started ::
  "ingest_locals \<Rightarrow> string \<Rightarrow> string \<Rightarrow> event \<Rightarrow> (ingest_locals \<times> outcome) py" where
  "ingest_on_started st uuid tok ev =
     py_bind (started_input ev) (\<lambda>params.
     py_bind (py_getitem params ''fileName'') (\<lambda>fileName.
     py_bind (py_getitem params ''metadata'') (\<lambda>md.
     Inr (st\<lparr>taskName := Some ACTIVITY1\<rparr>,
          executeNextTask uuid tok ACTIVITY1 ''1''
            (JObj [(''asset'', fileName), (''metadata'', md)]) ACTIVITY1))))"

text \<open>The body of the \<open>elif 'events' in newTask\<close> branch.  Only the two event
  types below are handled; after any other last event (\<open>ActivityTaskFailed\<close>
  among them) the task is left without a decision.\<close>

definition ingest_decide ::
  "ingest_locals \<Rightarrow> string \<Rightarrow> string \<Rightarrow> event list \<Rightarrow> (ingest_locals \<times> outcome) py" where
  "ingest_decide st uuid tok evs =
     py_bind (last_workflow_event evs) (\<lambda>ev.
       if event_type ev = ''WorkflowExecutionStarted'' then ingest_on_started st uuid tok ev
       else if event_type ev = ''ActivityTaskCompleted'' then
         py_bind (completed_activity evs ev) (\<lambda>(name, result).
           ingest_on_completed st uuid tok name result)
       else Inr (st, NoDecision))"

text \<open>One pass of the \<open>while True\<close> loop; an exception ends the process.\<close>

definition ingest_step ::
  "ingest_locals \<Rightarrow> string \<Rightarrow> decision_task \<Rightarrow> ingest_locals \<times> outcome" where
  "ingest_step st uuid t =
     (case taskToken t of
        None \<Rightarrow> (st, Repoll)
      | Some tok \<Rightarrow>
          (case events t of
             None \<Rightarrow> (st, NoDecision)
           | Some evs \<Rightarrow>
               (case ingest_decide st uuid tok evs of
                  Inl e \<Rightarrow> (st, Crash e)
                | Inr r \<Rightarrow> r)))"

text \<open>The loop over a sequence of polls, each with the \<open>uuid4\<close> it would draw.\<close>

fun ingest_run :: "ingest_locals \<Rightarrow> (string \<times> decision_task) list \<Rightarrow> outcome list" where
  "ingest_run st [] = []"
| "ingest_run st ((u, t) # ps) =
     (let (st', out) = ingest_step st u t in
      out # (case out of Crash e \<Rightarrow> [] | _ \<Rightarrow> ingest_run st' ps))"

section \<open>Abstraction to the pipeline table\<close>

text \<open>The branch key of a completed stage: the class its result names.\<close>

definition branch_key :: "jval \<Rightarrow> asset_class" where
  "branch_key result = class_of_jval (case jget result ''assetClass'' of Some v \<Rightarrow> v | None \<Rightarrow> JNull)"

text \<open>The keys of the result each branch of the decider reads.\<close>

definition ingest_reads :: "string \<Rightarrow> string list" where
  "ingest_reads name =
     (if name = ACTIVITY1 then [''assetClass'', ''asset'', ''metadata'']
      else if name \<in> {ACTIVITY2a, ACTIVITY2b} then [''DOC'', ''asset'', ''assetClass'']
      else if name = ACTIVITY7 then []
      else [''asset'', ''assetClass'', ''dbPrimaryKey''])"


text \<open>The one situation in which the decider reads its own state: a thumbnail
  stage completed with a class other than \<open>Image\<close> and \<open>Video\<close>.\<close>

definition thumbnail_fallthrough :: "string \<Rightarrow> jval \<Rightarrow> bool" where
  "thumbnail_fallthrough n r =
     (n \<in> {ACTIVITY4a, ACTIVITY4b} \<and>
      (\<exists>c. jget r ''assetClass'' = Some c \<and> c \<noteq> JStr ''Image'' \<and> c \<noteq> JStr ''Video''))"

definition stale_read :: "event list \<Rightarrow> bool" where
  "stale_read evs =
     (case py_bind (last_workflow_event evs) (completed_activity evs) of
        Inr (n, r) \<Rightarrow> thumbnail_fallthrough n r
      | Inl _ \<Rightarrow> False)"

section \<open>Lemmas\<close>

lemma branch_key_Some: "jget r ''assetClass'' = Some c \<Longrightarrow> branch_key r = class_of_jval c"
  by (simp add: branch_key_def)

lemma route_after_identify:
  assumes "has_keys r [''assetClass'', ''asset'', ''metadata'']"
  shows "route_of_outcome (outcome_of (after_identify st u tok r)) = ingest_table ACTIVITY1 (branch_key r)"
proof -
  from assms obtain c where c: "jget r ''assetClass'' = Some c" by (auto simp: has_keys_def)
  with assms show ?thesis
    by (simp add: after_identify_def executeNextTask_def outcome_of_def has_keys_def py_getitem_defined
        branch_key_Some ingest_table_def ingest_names class_of_jval_def Let_def)
qed

lemma route_after_extract:
  assumes "has_keys r [''DOC'', ''asset'', ''assetClass'']"
  shows "route_of_outcome (outcome_of (after_extract st u tok r)) = Some (Next ACTIVITY3)"
  using assms
  by (simp add: after_extract_def executeNextTask_def outcome_of_def has_keys_def py_getitem_defined)

lemma route_after_register:
  assumes "has_keys r [''asset'', ''assetClass'', ''dbPrimaryKey'']"
  shows "route_of_outcome (outcome_of (after_register st u tok r)) = ingest_table ACTIVITY3 (branch_key r)"
proof -
  from assms obtain c where c: "jget r ''assetClass'' = Some c" by (auto simp: has_keys_def)
  with assms show ?thesis
    by (simp add: after_register_def executeNextTask_def outcome_of_def has_keys_def py_getitem_defined
        branch_key_Some ingest_table_def ingest_names class_of_jval_def Let_def)
qed

lemma route_after_thumbnail:
  assumes "has_keys r [''asset'', ''assetClass'', ''dbPrimaryKey'']" "branch_key r \<in> {Image, Video}"
  shows "route_of_outcome (outcome_of (after_thumbnail st u tok r)) = ingest_table ACTIVITY4a (branch_key r)"
    and "route_of_outcome (outcome_of (after_thumbnail st u tok r)) = ingest_table ACTIVITY4b (branch_key r)"
proof -
  from assms obtain c where c: "jget r ''assetClass'' = Some c" by (auto simp: has_keys_def)
  with assms have "c = JStr ''Image'' \<or> c = JStr ''Video''"
    by (auto simp: branch_key_Some class_of_jval_def split: if_splits)
  with c assms show "route_of_outcome (outcome_of (after_thumbnail st u tok r)) = ingest_table ACTIVITY4a (branch_key r)"
      and "route_of_outcome (outcome_of (after_thumbnail st u tok r)) = ingest_table ACTIVITY4b (branch_key r)"
    by (auto simp: after_thumbnail_def executeNextTask_def outcome_of_def has_keys_def py_getitem_defined
        read_taskName_def branch_key_Some ingest_table_def ingest_names class_of_jval_def)
qed

lemma route_forward_to:
  assumes "has_keys r [''asset'', ''assetClass'', ''dbPrimaryKey'']"
  shows "route_of_outcome (outcome_of (forward_to tn st u tok r)) = Some (Next tn)"
  using assms
  by (simp add: forward_to_def executeNextTask_def outcome_of_def has_keys_def py_getitem_defined)

lemma ingest_table_stage:
  "ingest_table n c = Some rt \<Longrightarrow> n \<in> set [ACTIVITY1, ACTIVITY2a, ACTIVITY2b, ACTIVITY3, ACTIVITY4a,
     ACTIVITY4b, ACTIVITY5b, ACTIVITY5c, ACTIVITY6, ACTIVITY7]"
  by (auto simp: ingest_table_def ingest_names split: if_splits)

lemma ingest_on_completed_route:
  assumes "has_keys r (ingest_reads n)" "ingest_table n (branch_key r) = Some rt"
  shows "route_of_outcome (outcome_of (ingest_on_completed st u tok n r)) = Some rt"
proof -
  from ingest_table_stage [OF assms(2)] consider
      "n = ACTIVITY1" | "n = ACTIVITY2a" | "n = ACTIVITY2b" | "n = ACTIVITY3" | "n = ACTIVITY4a"
    | "n = ACTIVITY4b" | "n = ACTIVITY5b" | "n = ACTIVITY5c" | "n = ACTIVITY6" | "n = ACTIVITY7"
    by auto
  then show ?thesis
  proof cases
    case 1 with assms show ?thesis
      by (simp add: ingest_on_completed_def ingest_reads_def ingest_names route_after_identify)
  next
    case 2 with assms show ?thesis
      by (simp add: ingest_on_completed_def ingest_reads_def route_after_extract ingest_table_def ingest_names)
  next
    case 3 with assms show ?thesis
      by (simp add: ingest_on_completed_def ingest_reads_def route_after_extract ingest_table_def ingest_names)
  next
    case 4 with assms show ?thesis
      by (simp add: ingest_on_completed_def ingest_reads_def ingest_names route_after_register)
  next
    case 5
    with assms(2) have "branch_key r \<in> {Image, Video}"
      by (cases "branch_key r") (simp_all add: ingest_table_def ingest_names)
    with 5 assms show ?thesis
      by (simp add: ingest_on_completed_def ingest_reads_def ingest_names route_after_thumbnail(1))
  next
    case 6
    with assms(2) have "branch_key r \<in> {Image, Video}"
      by (cases "branch_key r") (simp_all add: ingest_table_def ingest_names)
    with 6 assms show ?thesis
      by (simp add: ingest_on_completed_def ingest_reads_def ingest_names route_after_thumbnail(2))
  next
    case 7 with assms show ?thesis
      by (simp add: ingest_on_completed_def ingest_reads_def route_forward_to ingest_table_def ingest_names)
  next
    case 8 with assms show ?thesis
      by (simp add: ingest_on_completed_def ingest_reads_def route_forward_to ingest_table_def ingest_names)
  next
    case 9 with assms show ?thesis
      by (simp add: ingest_on_completed_def ingest_reads_def route_forward_to ingest_table_def ingest_names)
  next
    case 10 with assms show ?thesis
      by (simp add: ingest_on_completed_def outcome_of_def ingest_table_def ingest_names)
  qed
qed

lemma after_thumbnail_fresh:
  assumes "\<not> (\<exists>c. jget r ''assetClass'' = Some c \<and> c \<noteq> JStr ''Image'' \<and> c \<noteq> JStr ''Video'')"
  shows "outcome_of (after_thumbnail st u tok r) = outcome_of (after_thumbnail ingest_init u tok r)"
proof (cases "jget r ''assetClass''")
  case None
  then obtain e where "py_getitem r ''assetClass'' = Inl e" using py_getitem_jget_None by blast
  then show ?thesis by (simp add: after_thumbnail_def)
next
  case (Some c)
  with assms have "c = JStr ''Image'' \<or> c = JStr ''Video''" by blast
  with Some show ?thesis
    by (auto simp: after_thumbnail_def py_getitem_defined read_taskName_def cong: sum.case_cong)
qed

lemma ingest_on_completed_fresh:
  assumes "\<not> thumbnail_fallthrough n r"
  shows "outcome_of (ingest_on_completed st u tok n r) = outcome_of (ingest_on_completed ingest_init u tok n r)"
proof (cases "n \<in> {ACTIVITY4a, ACTIVITY4b}")
  case True
  with assms have "outcome_of (after_thumbnail st u tok r) = outcome_of (after_thumbnail ingest_init u tok r)"
    by (intro after_thumbnail_fresh) (auto simp: thumbnail_fallthrough_def)
  with True show ?thesis
    by (auto simp: ingest_on_completed_def ingest_names)
next
  case False
  then show ?thesis
    by (simp add: ingest_on_completed_def after_identify_def after_extract_def after_register_def
        forward_to_def Let_def cong: sum.case_cong)
qed

lemma snd_ingest_step:
  "snd (ingest_step st u t) =
     (case taskToken t of
        None \<Rightarrow> Repoll
      | Some tok \<Rightarrow> (case events t of None \<Rightarrow> NoDecision | Some evs \<Rightarrow> outcome_of (ingest_decide st u tok evs)))"
  by (simp add: ingest_step_def outcome_of_def split: option.splits sum.splits prod.splits)

lemma ingest_decide_fresh:
  assumes "\<not> stale_read evs"
  shows "outcome_of (ingest_decide st u tok evs) = outcome_of (ingest_decide ingest_init u tok evs)"
proof (cases "last_workflow_event evs")
  case (Inl e)
  then show ?thesis by (simp add: ingest_decide_def)
next
  case (Inr ev)
  note last = this
  show ?thesis
  proof (cases "completed_activity evs ev")
    case (Inl e)
    with last show ?thesis
      by (simp add: ingest_decide_def ingest_on_started_def cong: sum.case_cong)
  next
    case (Inr nr)
    obtain n r where nr: "nr = (n, r)" by fastforce
    with last Inr assms have "\<not> thumbnail_fallthrough n r" by (simp add: stale_read_def)
    then have "outcome_of (ingest_on_completed st u tok n r) = outcome_of (ingest_on_completed ingest_init u tok n r)"
      by (rule ingest_on_completed_fresh)
    with last Inr nr show ?thesis
      by (simp add: ingest_decide_def ingest_on_started_def cong: sum.case_cong)
  qed
qed

lemma ingest_decide_completed:
  assumes "list_all decision_event ds" "0 < sid" "nat sid \<le> length pre"
    "pre ! nat (sid - 1) = ActivityTaskScheduled n i"
  shows "ingest_decide st u tok (pre @ ActivityTaskCompleted sid (Some r) # ds) = ingest_on_completed st u tok n r"
  using assms by (simp add: ingest_decide_def last_workflow_event_suffix completed_activity_append)








text \<open>
  C1.  The decider implements the ingestion pipeline table.  When the last
  non-decision event of a history is the completion of a stage whose result
  holds the keys the decider reads for that stage, and the pipeline table has
  an entry for the stage and the result's asset class, the decider's answer is
  that entry: the next stage, scheduled on the task list of its name, or the
  completion of the execution.
\<close>
theorem ingest_refines_pipeline:
  assumes "list_all decision_event ds" "0 < sid" "nat sid \<le> length pre"
    "pre ! nat (sid - 1) = ActivityTaskScheduled n i"
    "has_keys r (ingest_reads n)" "ingest_table n (branch_key r) = Some rt"
  shows "route_of_outcome (snd (ingest_step st u
           \<lparr>taskToken = Some tok, events = Some (pre @ ActivityTaskCompleted sid (Some r) # ds)\<rparr>)) = Some rt"
  using assms by (simp add: snd_ingest_step ingest_decide_completed ingest_on_completed_route)

theorem ingest_refines_pipeline_witness:
  "route_of_outcome (snd (ingest_step ingest_init ''u''
     \<lparr>taskToken = Some ''tk'', events = Some ([WorkflowExecutionStarted (Some (JObj [(''fileName'', JStr ''/a.jpg''), (''metadata'', JObj [])])),
        OtherEvent ''DecisionTaskCompleted'', ActivityTaskScheduled ''registerAsset'' None,
        OtherEvent ''ActivityTaskStarted''] @
        ActivityTaskCompleted 3 (Some (JObj [(''asset'', JStr ''/a.jpg''), (''assetClass'', JStr ''Image''),
          (''dbPrimaryKey'', JObj [(''Checksum'', JStr ''c0ffee'')])])) #
        [OtherEvent ''DecisionTaskScheduled''])\<rparr>)) = Some (Next ''createThumbnailFromImage'')"
  using ingest_refines_pipeline [where ds = "[OtherEvent ''DecisionTaskScheduled'']" and sid = 3
      and pre = "[WorkflowExecutionStarted (Some (JObj [(''fileName'', JStr ''/a.jpg''), (''metadata'', JObj [])])),
        OtherEvent ''DecisionTaskCompleted'', ActivityTaskScheduled ''registerAsset'' None,
        OtherEvent ''ActivityTaskStarted'']" and n = "''registerAsset''" and i = None and r = "JObj [(''asset'', JStr ''/a.jpg''), (''assetClass'', JStr ''Image''),
          (''dbPrimaryKey'', JObj [(''Checksum'', JStr ''c0ffee'')])]"
      and rt = "Next ''createThumbnailFromImage''" and st = ingest_init and u = "''u''" and tok = "''tk''"]
  by (simp add: decision_event_def py_startswith_def has_keys_def ingest_reads_def ingest_names
      ingest_table_def branch_key_def class_of_jval_def)

text \<open>
  C2.  For every history whose last non-decision event is the start of the
  execution with a file name and metadata, the decider schedules
  \<open>identifyAssetClass\<close> on its own task list, with the file as \<open>asset\<close> and
  the metadata passed on (spec, section 8, first property).
\<close>
theorem ingest_started_schedules_identify:
  assumes "list_all decision_event ds" "jget params ''fileName'' = Some f" "jget params ''metadata'' = Some md"
  shows "ingest_step st u \<lparr>taskToken = Some tok, events = Some (pre @ WorkflowExecutionStarted (Some params) # ds)\<rparr> =
    (st\<lparr>taskName := Some ''identifyAssetClass''\<rparr>,
     Respond tok (ScheduleActivityTask (''activityid-'' @ u) ''identifyAssetClass'' ''1''
       (JObj [(''asset'', f), (''metadata'', md)]) ''identifyAssetClass''))"
  using assms
  by (simp add: ingest_step_def ingest_decide_def last_workflow_event_suffix ingest_on_started_def
      py_getitem_Inr_jget [symmetric] executeNextTask_def ingest_names)

theorem ingest_started_schedules_identify_witness:
  "ingest_step ingest_init ''u'' \<lparr>taskToken = Some ''tk'', events = Some
     ([] @ WorkflowExecutionStarted (Some (JObj [(''fileName'', JStr ''/a.jpg''), (''metadata'', JObj [])])) #
      [OtherEvent ''DecisionTaskScheduled'', OtherEvent ''DecisionTaskStarted''])\<rparr> =
   (ingest_init\<lparr>taskName := Some ''identifyAssetClass''\<rparr>,
    Respond ''tk'' (ScheduleActivityTask ''activityid-u'' ''identifyAssetClass'' ''1''
      (JObj [(''asset'', JStr ''/a.jpg''), (''metadata'', JObj [])]) ''identifyAssetClass''))"
  using ingest_started_schedules_identify [where ds = "[OtherEvent ''DecisionTaskScheduled'', OtherEvent ''DecisionTaskStarted'']"
      and params = "JObj [(''fileName'', JStr ''/a.jpg''), (''metadata'', JObj [])]"
      and f = "JStr ''/a.jpg''" and md = "JObj []" and st = ingest_init and u = "''u''" and tok = "''tk''"
      and pre = "[]"]
  by (simp add: decision_event_def py_startswith_def)

text \<open>
  C3.  The decision is a function of the polled history alone (spec, section
  4.2, idempotence): two decider processes in any states answer a decision
  task alike, unless its last event is a thumbnail stage that completed with a
  class other than \<open>Image\<close> and \<open>Video\<close>, the one branch where the code falls
  back on the task name of the previous poll.
\<close>
theorem ingest_step_stateless:
  assumes "\<forall>evs. events t = Some evs \<longrightarrow> \<not> stale_read evs"
  shows "snd (ingest_step st u t) = snd (ingest_step st' u t)"
  using assms by (simp add: snd_ingest_step ingest_decide_fresh [of _ st] ingest_decide_fresh [of _ st'] split: option.splits)

theorem ingest_step_stateless_witness:
  "snd (ingest_step ingest_init ''u'' \<lparr>taskToken = Some ''tk'', events = Some
      [WorkflowExecutionStarted (Some (JObj [(''fileName'', JStr ''/a.jpg''), (''metadata'', JObj [])]))]\<rparr>) =
   snd (ingest_step (ingest_init\<lparr>taskName := Some ''registerAsset''\<rparr>) ''u'' \<lparr>taskToken = Some ''tk'', events = Some
      [WorkflowExecutionStarted (Some (JObj [(''fileName'', JStr ''/a.jpg''), (''metadata'', JObj [])]))]\<rparr>)"
  using ingest_step_stateless [where st = ingest_init and st' = "ingest_init\<lparr>taskName := Some ''registerAsset''\<rparr>"
      and u = "''u''" and t = "\<lparr>taskToken = Some ''tk'', events = Some
      [WorkflowExecutionStarted (Some (JObj [(''fileName'', JStr ''/a.jpg''), (''metadata'', JObj [])]))]\<rparr>"]
  by (simp add: stale_read_def last_workflow_event_def workflow_events_def py_startswith_def
       completed_activity_def py_simps)



text \<open>
  C5.  For every history whose last non-decision event is the completion of
  \<open>cleanUpLandingPad\<close>, the final stage, the decider completes the execution
  with result \<open>success\<close> (spec, section 8, third property).
\<close>
theorem ingest_cleanup_completes:
  assumes "list_all decision_event ds" "0 < sid" "nat sid \<le> length pre"
    "pre ! nat (sid - 1) = ActivityTaskScheduled ''cleanUpLandingPad'' i"
  shows "snd (ingest_step st u \<lparr>taskToken = Some tok, events = Some (pre @ ActivityTaskCompleted sid (Some r) # ds)\<rparr>) =
    Respond tok (CompleteWorkflowExecution ''success'')"
  using assms by (simp add: snd_ingest_step ingest_decide_completed ingest_on_completed_def ingest_names)

theorem ingest_cleanup_completes_witness:
  "snd (ingest_step ingest_init ''u'' \<lparr>taskToken = Some ''tk'', events = Some
      ([OtherEvent ''DecisionTaskCompleted'', ActivityTaskScheduled ''cleanUpLandingPad'' None] @
       ActivityTaskCompleted 2 (Some (JObj [(''result'', JStr ''success'')])) # [])\<rparr>) =
   Respond ''tk'' (CompleteWorkflowExecution ''success'')"
  using ingest_cleanup_completes [where ds = "[]" and sid = 2
      and pre = "[OtherEvent ''DecisionTaskCompleted'', ActivityTaskScheduled ''cleanUpLandingPad'' None]"
      and i = None and r = "JObj [(''result'', JStr ''success'')]" and st = ingest_init and u = "''u''"
      and tok = "''tk''"]
  by simp

text \<open>
  C6.  A failed stage ends nothing: when the last non-decision event is an
  \<open>ActivityTaskFailed\<close>, the decider takes the task and sends no decision at
  all, neither a further \<open>ScheduleActivityTask\<close> nor the
  \<open>CompleteExecution\<close> with the failure that the spec (sections 4.2 and 8)
  asks for.
\<close>
theorem ingest_failed_no_decision:
  assumes "list_all decision_event ds"
  shows "ingest_step st u \<lparr>taskToken = Some tok, events = Some (pre @ ActivityTaskFailed sid rsn det # ds)\<rparr> =
    (st, NoDecision)"
  using assms by (simp add: ingest_step_def ingest_decide_def last_workflow_event_suffix)

theorem ingest_failed_no_decision_witness:
  "ingest_step ingest_init ''u'' \<lparr>taskToken = Some ''tk'', events = Some
      ([ActivityTaskScheduled ''registerAsset'' None] @
       ActivityTaskFailed 1 (Some ''REG-0001_Duplicate file entry'') (Some ''conflict'') #
       [OtherEvent ''DecisionTaskScheduled'', OtherEvent ''DecisionTaskStarted''])\<rparr> =
   (ingest_init, NoDecision)"
  using ingest_failed_no_decision [where ds = "[OtherEvent ''DecisionTaskScheduled'', OtherEvent ''DecisionTaskStarted'']"
      and pre = "[ActivityTaskScheduled ''registerAsset'' None]" and sid = 1
      and rsn = "Some ''REG-0001_Duplicate file entry''" and det = "Some ''conflict''"
      and st = ingest_init and u = "''u''" and tok = "''tk''"]
  by (simp add: decision_event_def py_startswith_def)

text \<open>
  C7.  After a thumbnail stage that completed with a class other than
  \<open>Image\<close> and \<open>Video\<close>, the decider schedules the stage named by the previous
  poll of the process, whichever execution that poll belonged to, and raises
  \<open>UnboundLocalError\<close> (ending the decider process) when it is the first
  poll.  The routing gap is not detected as the spec (section 7) requires.
\<close>
theorem ingest_thumbnail_stale_name:
  assumes "list_all decision_event ds" "0 < sid" "nat sid \<le> length pre"
    "pre ! nat (sid - 1) = ActivityTaskScheduled n i"
    "n \<in> {''createThumbnailFromImage'', ''createThumbnailFromVideo''}"
    "jget r ''assetClass'' = Some c" "c \<notin> {JStr ''Image'', JStr ''Video''}"
    "jget r ''asset'' = Some a" "jget r ''dbPrimaryKey'' = Some key"
  shows "snd (ingest_step st u \<lparr>taskToken = Some tok, events = Some (pre @ ActivityTaskCompleted sid (Some r) # ds)\<rparr>) =
    (case taskName st of
       None \<Rightarrow> Crash (UnboundLocalError ''taskName'')
     | Some tn \<Rightarrow> Respond tok (ScheduleActivityTask (''activityid-'' @ u) tn ''1'' (keyed_input a c key) tn))"
proof -
  have "outcome_of (ingest_on_completed st u tok n r) = outcome_of (after_thumbnail st u tok r)"
    using assms(5) by (auto simp: ingest_on_completed_def ingest_names)
  with assms show ?thesis
    by (simp add: snd_ingest_step ingest_decide_completed after_thumbnail_def read_taskName_def
        py_getitem_Inr_jget [symmetric] executeNextTask_def split: option.splits)
qed

theorem ingest_thumbnail_stale_name_witness:
  "snd (ingest_step (ingest_init\<lparr>taskName := Some ''moveFiles''\<rparr>) ''u'' \<lparr>taskToken = Some ''tk'', events = Some
      ([ActivityTaskScheduled ''createThumbnailFromImage'' None] @
       ActivityTaskCompleted 1 (Some (JObj [(''asset'', JStr ''/a.mp3''), (''assetClass'', JStr ''Audio''),
          (''dbPrimaryKey'', JNull)])) # [])\<rparr>) =
   Respond ''tk'' (ScheduleActivityTask ''activityid-u'' ''moveFiles'' ''1''
     (keyed_input (JStr ''/a.mp3'') (JStr ''Audio'') JNull) ''moveFiles'')"
  using ingest_thumbnail_stale_name [where ds = "[]" and sid = 1
      and pre = "[ActivityTaskScheduled ''createThumbnailFromImage'' None]" and n = "''createThumbnailFromImage''"
      and i = None and c = "JStr ''Audio''" and a = "JStr ''/a.mp3''" and key = JNull
      and r = "JObj [(''asset'', JStr ''/a.mp3''), (''assetClass'', JStr ''Audio''), (''dbPrimaryKey'', JNull)]"
      and st = "ingest_init\<lparr>taskName := Some ''moveFiles''\<rparr>" and u = "''u''" and tok = "''tk''"]
  by simp

end
