(* ===== verification/Lifecycle.thy ===== *)
theory Lifecycle
  imports History
begin

text \<open>
  The decider of the lifecycle workflow, \<open>src/SFNcode/fileManager.py\<close>: moving
  an asset between the storage tiers \<open>CDN\<close>, \<open>near_line\<close> and \<open>archive\<close>, or
  deleting it.  It shares the history reading of \<open>History\<close> with the ingestion
  decider.  Every local it reads is assigned in the same pass of its loop, so
  unlike \<open>decider.py\<close> it keeps no state between polls.

  Its conditions are translated with Python's evaluation order:
  \<open>A and (B or C)\<close> evaluates \<open>B\<close> only when \<open>A\<close> holds and \<open>C\<close> only when \<open>B\<close>
  fails, each dictionary read may raise, and \<open>x in 'archive'\<close> with a string
  \<open>x\<close> is a substring test (\<open>py_jin_str\<close>), not a comparison.
\<close>

section \<open>Activity names\<close>

definition fm_ACTIVITY1 :: string where "fm_ACTIVITY1 = ''moveFiles''"
definition fm_ACTIVITY2 :: string where "fm_ACTIVITY2 = ''cleanUpLandingPad''"
definition fm_ACTIVITY3 :: string where "fm_ACTIVITY3 = ''deleteFiles''"

lemmas fm_names = fm_ACTIVITY1_def fm_ACTIVITY2_def fm_ACTIVITY3_def

section \<open>One decision\<close>

text \<open>\<open>executeNextTask\<close> of \<open>fileManager.py\<close>, a copy of the one of \<open>decider.py\<close>.\<close>

definition fm_executeNextTask ::
  "string \<Rightarrow> string \<Rightarrow> string \<Rightarrow> string \<Rightarrow> jval \<Rightarrow> string \<Rightarrow> outcome" where
  "fm_executeNextTask uuid token taskName taskVersion taskInput taskList =
     Respond token (ScheduleActivityTask (''activityid-'' @ uuid) taskName taskVersion taskInput taskList)"

text \<open>\<open>result['locationDestination'] in 'archive' or result['locationSource'] in 'archive'\<close>.\<close>

definition fm_archive_test :: "jval \<Rightarrow> bool py" where
  "fm_archive_test result =
     py_bind (py_getitem result ''locationDestination'') (\<lambda>d.
     py_bind (py_jin_str d ''archive'') (\<lambda>b.
       if b then Inr True
       else py_bind (py_getitem result ''locationSource'') (\<lambda>s. py_jin_str s ''archive'')))"

text \<open>The three conditions of the \<open>if\<close>/\<open>elif\<close>/\<open>elif\<close> chain on the completed
  activity; the third evaluates the archive test a second time.\<close>

definition fm_cond_move_archive :: "string \<Rightarrow> jval \<Rightarrow> bool py" where
  "fm_cond_move_archive name result =
     (if name = fm_ACTIVITY1 then fm_archive_test result else Inr False)"

definition fm_cond_finished :: "string \<Rightarrow> jval \<Rightarrow> bool py" where
  "fm_cond_finished name result =
     (if name = fm_ACTIVITY3 then Inr True
      else if name = fm_ACTIVITY1 then py_bind (fm_archive_test result) (\<lambda>b. Inr (\<not> b))
      else Inr False)"

definition fm_on_completed :: "string \<Rightarrow> string \<Rightarrow> string \<Rightarrow> jval \<Rightarrow> outcome py" where
  "fm_on_completed uuid tok name result =
     py_bind (fm_cond_move_archive name result) (\<lambda>c1.
       if c1 then Inr (fm_executeNextTask uuid tok fm_ACTIVITY2 ''1'' result fm_ACTIVITY2)
       else if name = fm_ACTIVITY2 then Inr (fm_executeNextTask uuid tok fm_ACTIVITY3 ''1'' result fm_ACTIVITY3)
       else py_bind (fm_cond_finished name result) (\<lambda>c3.
         if c3 then Inr (Respond tok (CompleteWorkflowExecution ''success''))
         else Inr NoDecision))"

text \<open>The start: delete goes straight to \<open>deleteFiles\<close>, anything else to
  \<open>moveFiles\<close>; the start parameters are passed on as they are.\<close>

definition fm_on_started :: "string \<Rightarrow> string \<Rightarrow> event \<Rightarrow> outcome py" where
  "fm_on_started uuid tok ev =
     py_bind (started_input ev) (\<lambda>params.
     py_bind (py_getitem params ''locationDestination'') (\<lambda>dest.
       (let tn = (if dest = JStr ''delete'' then fm_ACTIVITY3 else fm_ACTIVITY1)
        in Inr (fm_executeNextTask uuid tok tn ''1'' params tn))))"

definition fm_decide :: "string \<Rightarrow> string \<Rightarrow> event list \<Rightarrow> outcome py" where
  "fm_decide uuid tok evs =
     py_bind (last_workflow_event evs) (\<lambda>ev.
       if event_type ev = ''WorkflowExecutionStarted'' then fm_on_started uuid tok ev
       else if event_type ev = ''ActivityTaskCompleted'' then
         py_bind (completed_activity evs ev) (\<lambda>(name, result). fm_on_completed uuid tok name result)
       else Inr NoDecision)"

definition fm_step :: "string \<Rightarrow> decision_task \<Rightarrow> outcome" where
  "fm_step uuid t =
     (case taskToken t of
        None \<Rightarrow> Repoll
      | Some tok \<Rightarrow>
          (case events t of
             None \<Rightarrow> NoDecision
           | Some evs \<Rightarrow> (case fm_decide uuid tok evs of Inl e \<Rightarrow> Crash e | Inr out \<Rightarrow> out)))"

section \<open>Abstraction to the pipeline table\<close>

text \<open>The tier names of the lifecycle input documents.\<close>

definition tier_names :: "string set" where
  "tier_names = {''CDN'', ''near_line'', ''archive'', ''delete''}"

text \<open>The branch key of a result: its source and destination tier.\<close>

definition tier_key :: "jval \<Rightarrow> string \<times> string" where
  "tier_key result =
     ((case jget result ''locationSource'' of Some (JStr s) \<Rightarrow> s | _ \<Rightarrow> []),
      (case jget result ''locationDestination'' of Some (JStr d) \<Rightarrow> d | _ \<Rightarrow> []))"

text \<open>A result that names its source and destination by tier names.\<close>

definition valid_tiers :: "jval \<Rightarrow> bool" where
  "valid_tiers r =
     (\<exists>s d. jget r ''locationSource'' = Some (JStr s) \<and> s \<in> tier_names \<and>
            jget r ''locationDestination'' = Some (JStr d) \<and> d \<in> tier_names)"

section \<open>Lemmas\<close>

lemma sublist_archive_tiers:
  "t \<in> tier_names \<Longrightarrow> sublist t ''archive'' \<longleftrightarrow> t = ''archive''"
  by (auto simp: tier_names_def py_in_str_sublist [symmetric])

lemma fm_archive_test_Inr:
  assumes "jget result ''locationDestination'' = Some (JStr d)" "jget result ''locationSource'' = Some (JStr s)"
  shows "fm_archive_test result = Inr (sublist d ''archive'' \<or> sublist s ''archive'')"
  using assms by (simp add: fm_archive_test_def py_getitem_Inr_jget [symmetric] py_in_str_sublist)

lemma fm_step_events:
  "fm_step u \<lparr>taskToken = Some tok, events = Some evs\<rparr> =
     (case fm_decide u tok evs of Inl e \<Rightarrow> Crash e | Inr out \<Rightarrow> out)"
  by (simp add: fm_step_def)

lemma fm_decide_completed:
  assumes "list_all decision_event ds" "0 < sid" "nat sid \<le> length pre"
    "pre ! nat (sid - 1) = ActivityTaskScheduled n i"
  shows "fm_decide u tok (pre @ ActivityTaskCompleted sid (Some r) # ds) = fm_on_completed u tok n r"
  using assms by (simp add: fm_decide_def last_workflow_event_suffix completed_activity_append)

lemma fm_decide_started:
  assumes "list_all decision_event ds"
  shows "fm_decide u tok (pre @ WorkflowExecutionStarted (Some p) # ds) = fm_on_started u tok (WorkflowExecutionStarted (Some p))"
  using assms by (simp add: fm_decide_def last_workflow_event_suffix)

lemma fm_on_completed_move:
  assumes "jget r ''locationDestination'' = Some (JStr d)" "jget r ''locationSource'' = Some (JStr s)"
  shows "fm_on_completed u tok ''moveFiles'' r =
    Inr (if sublist d ''archive'' \<or> sublist s ''archive''
         then fm_executeNextTask u tok ''cleanUpLandingPad'' ''1'' r ''cleanUpLandingPad''
         else Respond tok (CompleteWorkflowExecution ''success''))"
  using assms
  by (simp add: fm_on_completed_def fm_cond_move_archive_def fm_cond_finished_def fm_archive_test_Inr fm_names)

lemma fm_on_completed_cleanup:
  "fm_on_completed u tok ''cleanUpLandingPad'' r = Inr (fm_executeNextTask u tok ''deleteFiles'' ''1'' r ''deleteFiles'')"
  by (simp add: fm_on_completed_def fm_cond_move_archive_def fm_names)

lemma fm_on_completed_delete:
  "fm_on_completed u tok ''deleteFiles'' r = Inr (Respond tok (CompleteWorkflowExecution ''success''))"
  by (simp add: fm_on_completed_def fm_cond_move_archive_def fm_cond_finished_def fm_names)

lemma fm_on_completed_route:
  assumes "lifecycle_table n (tier_key r) = Some rt" "n = ''moveFiles'' \<longrightarrow> valid_tiers r"
  shows "map_sum id route_of_outcome (fm_on_completed u tok n r) = Inr (Some rt)"
proof -
  from assms(1) consider "n = ''moveFiles''" | "n = ''cleanUpLandingPad''" | "n = ''deleteFiles''"
    by (auto simp: lifecycle_table_def split: if_splits)
  then show ?thesis
  proof cases
    case 1
    with assms obtain s d where sd: "jget r ''locationSource'' = Some (JStr s)" "s \<in> tier_names"
      "jget r ''locationDestination'' = Some (JStr d)" "d \<in> tier_names"
      by (auto simp: valid_tiers_def)
    with 1 assms(1) show ?thesis
      by (auto simp: fm_on_completed_move sublist_archive_tiers fm_executeNextTask_def lifecycle_table_def
          archive_involved_def tier_key_def)
  next
    case 2
    with assms(1) show ?thesis
      by (simp add: fm_on_completed_cleanup fm_executeNextTask_def lifecycle_table_def)
  next
    case 3
    with assms(1) show ?thesis
      by (simp add: fm_on_completed_delete lifecycle_table_def)
  qed
qed

text \<open>
  C8.  The lifecycle decider implements the lifecycle pipeline table: after the
  completion of \<open>moveFiles\<close> (with a result naming its tiers by tier names),
  of \<open>cleanUpLandingPad\<close> or of \<open>deleteFiles\<close>, it schedules or completes
  exactly what the table prescribes, so a move between two non-archive tiers
  completes after the move alone and a move to or from the archive schedules
  the clean-up (spec, section 8, scenario 4).
\<close>

theorem lifecycle_refines_pipeline:
  assumes "list_all decision_event ds" "0 < sid" "nat sid \<le> length pre"
    "pre ! nat (sid - 1) = ActivityTaskScheduled n i"
    "lifecycle_table n (tier_key r) = Some rt" "n = ''moveFiles'' \<longrightarrow> valid_tiers r"
  shows "route_of_outcome (fm_step u \<lparr>taskToken = Some tok, events = Some (pre @ ActivityTaskCompleted sid (Some r) # ds)\<rparr>) =
    Some rt"
proof -
  from assms(5,6) have "map_sum id route_of_outcome (fm_on_completed u tok n r) = Inr (Some rt)"
    by (rule fm_on_completed_route)
  with assms(1-4) show ?thesis
    by (auto simp: fm_step_events fm_decide_completed split: sum.splits)
qed

theorem lifecycle_refines_pipeline_witness:
  "route_of_outcome (fm_step ''u'' \<lparr>taskToken = Some ''tk'', events = Some ([WorkflowExecutionStarted (Some (JObj [(''locationSource'', JStr ''CDN''), (''locationDestination'', JStr ''archive'')])),
        OtherEvent ''DecisionTaskCompleted'', ActivityTaskScheduled ''moveFiles'' None] @
     ActivityTaskCompleted 3 (Some (JObj [(''result'', JStr ''success''), (''locationSource'', JStr ''CDN''), (''locationDestination'', JStr ''archive'')])) # [OtherEvent ''DecisionTaskScheduled''])\<rparr>) =
   Some (Next ''cleanUpLandingPad'')"
  using lifecycle_refines_pipeline [where ds = "[OtherEvent ''DecisionTaskScheduled'']" and sid = 3
      and pre = "[WorkflowExecutionStarted (Some (JObj [(''locationSource'', JStr ''CDN''), (''locationDestination'', JStr ''archive'')])),
        OtherEvent ''DecisionTaskCompleted'', ActivityTaskScheduled ''moveFiles'' None]" and n = "''moveFiles''" and i = None and r = "JObj [(''result'', JStr ''success''), (''locationSource'', JStr ''CDN''), (''locationDestination'', JStr ''archive'')]"
      and rt = "Next ''cleanUpLandingPad''" and u = "''u''" and tok = "''tk''"]
  by (simp add: decision_event_def py_startswith_def lifecycle_table_def tier_key_def archive_involved_def
      valid_tiers_def tier_names_def)

text \<open>
  C9.  The start of a lifecycle execution: a destination \<open>delete\<close> schedules
  \<open>deleteFiles\<close> directly, bypassing the move (spec, section 8, scenario 3);
  any other destination schedules \<open>moveFiles\<close>.  The start parameters are the
  stage's input unchanged.
\<close>

theorem lifecycle_start_routes:
  assumes "list_all decision_event ds" "jget p ''locationDestination'' = Some (JStr d)"
  shows "fm_step u \<lparr>taskToken = Some tok, events = Some (pre @ WorkflowExecutionStarted (Some p) # ds)\<rparr> =
    Respond tok (ScheduleActivityTask (''activityid-'' @ u) (lifecycle_entry d) ''1'' p (lifecycle_entry d))"
  using assms
  by (simp add: fm_step_events fm_decide_started fm_on_started_def py_getitem_Inr_jget [symmetric]
      fm_executeNextTask_def lifecycle_entry_def fm_names Let_def)

theorem lifecycle_start_routes_witness:
  "fm_step ''u'' \<lparr>taskToken = Some ''tk'', events = Some ([] @ WorkflowExecutionStarted (Some
      (JObj [(''dbPrimaryKey'', JObj [(''Checksum'', JStr ''c0ffee'')]), (''fileKey'', JStr ''trim''),
             (''locationSource'', JStr ''CDN''), (''locationDestination'', JStr ''delete'')])) #
      [OtherEvent ''DecisionTaskScheduled''])\<rparr> =
   Respond ''tk'' (ScheduleActivityTask ''activityid-u'' ''deleteFiles'' ''1''
      (JObj [(''dbPrimaryKey'', JObj [(''Checksum'', JStr ''c0ffee'')]), (''fileKey'', JStr ''trim''),
             (''locationSource'', JStr ''CDN''), (''locationDestination'', JStr ''delete'')]) ''deleteFiles'')"
  using lifecycle_start_routes [where ds = "[OtherEvent ''DecisionTaskScheduled'']" and pre = "[]"
      and p = "JObj [(''dbPrimaryKey'', JObj [(''Checksum'', JStr ''c0ffee'')]), (''fileKey'', JStr ''trim''),
             (''locationSource'', JStr ''CDN''), (''locationDestination'', JStr ''delete'')]"
      and d = "''delete''" and u = "''u''" and tok = "''tk''"]
  by (simp add: decision_event_def py_startswith_def lifecycle_entry_def)

text \<open>
  C10.  What the archive test of the lifecycle decider really checks: after
  \<open>moveFiles\<close>, the decider schedules the clean-up exactly when the
  destination or the source is a substring of \<open>archive\<close>, since
  \<open>x in 'archive'\<close> is a substring test.  A destination such as \<open>arch\<close>, or
  the empty string, counts as the archive tier.
\<close>

theorem lifecycle_archive_is_substring_test:
  assumes "list_all decision_event ds" "0 < sid" "nat sid \<le> length pre"
    "pre ! nat (sid - 1) = ActivityTaskScheduled ''moveFiles'' i"
    "jget r ''locationDestination'' = Some (JStr d)" "jget r ''locationSource'' = Some (JStr s)"
  shows "fm_step u \<lparr>taskToken = Some tok, events = Some (pre @ ActivityTaskCompleted sid (Some r) # ds)\<rparr> =
    (if sublist d ''archive'' \<or> sublist s ''archive''
     then Respond tok (ScheduleActivityTask (''activityid-'' @ u) ''cleanUpLandingPad'' ''1'' r ''cleanUpLandingPad'')
     else Respond tok (CompleteWorkflowExecution ''success''))"
  using assms
  by (simp add: fm_step_events fm_decide_completed fm_on_completed_move fm_executeNextTask_def)

theorem lifecycle_archive_is_substring_test_witness:
  "fm_step ''u'' \<lparr>taskToken = Some ''tk'', events = Some ([ActivityTaskScheduled ''moveFiles'' None] @
     ActivityTaskCompleted 1 (Some (JObj [(''locationSource'', JStr ''CDN''), (''locationDestination'', JStr ''arch'')])) #
     [])\<rparr> =
   Respond ''tk'' (ScheduleActivityTask ''activityid-u'' ''cleanUpLandingPad'' ''1''
     (JObj [(''locationSource'', JStr ''CDN''), (''locationDestination'', JStr ''arch'')]) ''cleanUpLandingPad'')"
proof -
  have "sublist ''arch'' ''archive''" by (simp add: py_in_str_sublist [symmetric])
  then show ?thesis
    using lifecycle_archive_is_substring_test [where ds = "[]" and sid = 1
      and pre = "[ActivityTaskScheduled ''moveFiles'' None]" and i = None
      and r = "JObj [(''locationSource'', JStr ''CDN''), (''locationDestination'', JStr ''arch'')]"
      and d = "''arch''" and s = "''CDN''" and u = "''u''" and tok = "''tk''"]
    by simp
qed

end
