(* ===== verification/Worker.thy ===== *)
theory Worker
  imports Prelude
begin

text \<open>
  The activity-worker protocol shared by every worker of the repository
  (\<open>src/workflowcode/*.py\<close> against SWF, \<open>src/SFNcode/*.py\<close> against Step
  Functions).  Each worker's \<open>main\<close> is one \<open>while True\<close> loop: poll a task of its
  own type; without a \<open>taskToken\<close> poll again; otherwise load the JSON input, run
  the domain action, and report with the token either completion with an
  output document or failure with a reason and a detail.  An exception that
  escapes the handler ends the worker process.  The handler of each worker is a
  function from the input document to what it reports; the domain actions it
  calls (tools, object store, catalog) enter as arguments.
\<close>

record activity_task =
  atoken :: "string option"
  ainput :: "jval option"

text \<open>What a handler does with one claimed task: report completion with an
  output, report failure with a reason code and a detail, or leave the task
  without a report (\<open>continue\<close>).\<close>

datatype handled =
    Done jval
  | Fail string string
  | Skip

datatype worker_outcome =
    Idle
  | Completed string jval
  | Failed string string string
  | Unreported string
  | WorkerCrash py_error

text \<open>\<open>json.loads(task['input'])\<close>.\<close>

definition task_input :: "activity_task \<Rightarrow> jval py" where
  "task_input t = (case ainput t of None \<Rightarrow> Inl (KeyError ''input'') | Some j \<Rightarrow> Inr j)"

text \<open>One pass of a worker's loop with handler \<open>h\<close>.\<close>

definition worker_step :: "(jval \<Rightarrow> handled py) \<Rightarrow> activity_task \<Rightarrow> worker_outcome" where
  "worker_step h t =
     (case atoken t of
        None \<Rightarrow> Idle
      | Some tok \<Rightarrow>
          (case py_bind (task_input t) h of
             Inl e \<Rightarrow> WorkerCrash e
           | Inr (Done out) \<Rightarrow> Completed tok out
           | Inr (Fail reason detail) \<Rightarrow> Failed tok reason detail
           | Inr Skip \<Rightarrow> Unreported tok))"

text \<open>The loop over a sequence of polls; an exception ends it.\<close>

fun worker_run :: "(jval \<Rightarrow> handled py) \<Rightarrow> activity_task list \<Rightarrow> worker_outcome list" where
  "worker_run h [] = []"
| "worker_run h (t # ts) =
     (let out = worker_step h t in
      out # (case out of WorkerCrash e \<Rightarrow> [] | _ \<Rightarrow> worker_run h ts))"


text \<open>A worker whose handler also changes the world it acts on (the catalog,
  the object store, the local disk): the handler returns the new world with
  its report, and an exception leaves the changes made before it.\<close>

definition worker_step_st ::
  "('s \<Rightarrow> jval \<Rightarrow> 's \<times> handled py) \<Rightarrow> 's \<Rightarrow> activity_task \<Rightarrow> 's \<times> worker_outcome" where
  "worker_step_st h s t =
     (case atoken t of
        None \<Rightarrow> (s, Idle)
      | Some tok \<Rightarrow>
          (case task_input t of
             Inl e \<Rightarrow> (s, WorkerCrash e)
           | Inr j \<Rightarrow>
               (let (s', r) = h s j in
                (s', case r of
                       Inl e \<Rightarrow> WorkerCrash e
                     | Inr (Done out) \<Rightarrow> Completed tok out
                     | Inr (Fail reason detail) \<Rightarrow> Failed tok reason detail
                     | Inr Skip \<Rightarrow> Unreported tok))))"

fun worker_run_st ::
  "('s \<Rightarrow> jval \<Rightarrow> 's \<times> handled py) \<Rightarrow> 's \<Rightarrow> activity_task list \<Rightarrow> 's \<times> worker_outcome list" where
  "worker_run_st h s [] = (s, [])"
| "worker_run_st h s (t # ts) =
     (let (s', out) = worker_step_st h s t in
      case out of
        WorkerCrash e \<Rightarrow> (s', [out])
      | _ \<Rightarrow> (let (s'', outs) = worker_run_st h s' ts in (s'', out # outs)))"

text \<open>Sequencing inside a stateful handler: an exception ends the handler
  with the state reached so far.\<close>

definition hbind :: "'s \<Rightarrow> 'a py \<Rightarrow> ('a \<Rightarrow> 's \<times> 'b py) \<Rightarrow> 's \<times> 'b py" where
  "hbind s m f = (case m of Inl e \<Rightarrow> (s, Inl e) | Inr x \<Rightarrow> f x)"

text \<open>The token a worker outcome retires, if any.\<close>

fun reported_token :: "worker_outcome \<Rightarrow> string option" where
  "reported_token (Completed tok _) = Some tok"
| "reported_token (Failed tok _ _) = Some tok"
| "reported_token _ = None"

section \<open>Lemmas\<close>

lemma worker_step_claimed:
  "worker_step h \<lparr>atoken = Some tok, ainput = Some j\<rparr> =
     (case h j of
        Inl e \<Rightarrow> WorkerCrash e
      | Inr (Done out) \<Rightarrow> Completed tok out
      | Inr (Fail reason detail) \<Rightarrow> Failed tok reason detail
      | Inr Skip \<Rightarrow> Unreported tok)"
  by (simp add: worker_step_def task_input_def)

lemma worker_step_reports_own_token:
  "reported_token (worker_step h t) = Some tok' \<Longrightarrow> atoken t = Some tok'"
  by (auto simp: worker_step_def split: option.splits sum.splits handled.splits)

lemma hbind_Inl [simp]: "hbind s (Inl e) f = (s, Inl e)"
  by (simp add: hbind_def)

lemma hbind_Inr [simp]: "hbind s (Inr x) f = f x"
  by (simp add: hbind_def)

lemma worker_step_st_claimed:
  "worker_step_st h s \<lparr>atoken = Some tok, ainput = Some j\<rparr> =
     (fst (h s j), case snd (h s j) of
        Inl e \<Rightarrow> WorkerCrash e
      | Inr (Done out) \<Rightarrow> Completed tok out
      | Inr (Fail reason detail) \<Rightarrow> Failed tok reason detail
      | Inr Skip \<Rightarrow> Unreported tok)"
  by (simp add: worker_step_st_def task_input_def split: prod.split)

lemma worker_step_st_pure:
  "worker_step_st (\<lambda>s j. (s, h j)) s t = (s, worker_step h t)"
  by (simp add: worker_step_st_def worker_step_def split: option.split sum.split)

lemma worker_run_st_pure:
  "worker_run_st (\<lambda>s j. (s, h j)) s ts = (s, worker_run h ts)"
  by (induction ts) (simp_all add: worker_step_st_pure Let_def split: worker_outcome.split)

lemma worker_step_st_inv:
  "(\<And>s j. P s \<Longrightarrow> P (fst (h s j))) \<Longrightarrow> P s \<Longrightarrow> P (fst (worker_step_st h s t))"
  by (simp add: worker_step_st_def case_prod_unfold Let_def split: option.split sum.split)

lemma worker_run_st_inv:
  assumes "\<And>s j. P s \<Longrightarrow> P (fst (h s j))"
  shows "P s \<Longrightarrow> P (fst (worker_run_st h s ts))"
proof (induction ts arbitrary: s)
  case (Cons t ts)
  obtain s' out where st: "worker_step_st h s t = (s', out)" by fastforce
  have "P s'" using worker_step_st_inv [of P h s t, OF assms Cons.prems] st by simp
  then show ?case
    using Cons.IH st by (simp add: case_prod_unfold Let_def split: worker_outcome.split)
qed simp

lemma length_worker_run: "length (worker_run h ts) \<le> length ts"
  by (induction ts) (auto simp: Let_def split: worker_outcome.splits)






end
