(* ===== verification/Paths.thy ===== *)
theory Paths
  imports Prelude
begin

text \<open>
  Path handling.  The workers split an asset path with
  \<open>parseHelper.splitFilename\<close> into directory, file name and extension and
  create output directories with \<open>parseHelper.createDir\<close>; \<open>parseHelper\<close> is a
  shared library installed beside the workers (\<open>/Assets/sharedLibraries\<close>) and
  not part of the repository.  Its functions are modelled after the
  \<open>os.path\<close> functions they are named for: \<open>os.path.split\<close> for the directory
  and the last component, \<open>os.path.splitext\<close> on that component, and
  \<open>os.path.join\<close> for a new directory.  A path is a string; POSIX separators.
\<close>

text \<open>\<open>os.path.splitext\<close> on the last path component: the extension starts at
  the last dot, unless only dots precede it in the component.\<close>

definition basename :: "string \<Rightarrow> string" where
  "basename p = rev (takeWhile (\<lambda>c. c \<noteq> CHR ''/'') (rev p))"

definition split_ext :: "string \<Rightarrow> string" where
  "split_ext p =
     (let b = basename p;
          ext = rev (takeWhile (\<lambda>c. c \<noteq> CHR ''.'') (rev b));
          stem = take (length b - length ext - 1) b
      in if CHR ''.'' \<in> set b \<and> (\<exists>c \<in> set stem. c \<noteq> CHR ''.'') then CHR ''.'' # ext else [])"

text \<open>\<open>os.path.split\<close>: the head up to the last separator, with trailing
  separators removed unless it consists of separators only, and the tail.\<close>

definition path_head :: "string \<Rightarrow> string" where
  "path_head p =
     (let h = take (length p - length (basename p)) p;
          stripped = rev (dropWhile (\<lambda>c. c = CHR ''/'') (rev h))
      in if stripped = [] then h else stripped)"

text \<open>\<open>parseHelper.splitFilename(asset)\<close>: directory, file name without the
  extension, extension with its dot.\<close>

definition split_filename :: "string \<Rightarrow> string \<times> string \<times> string" where
  "split_filename p =
     (let b = basename p; e = split_ext p in (path_head p, take (length b - length e) b, e))"

text \<open>\<open>os.path.join(a, b)\<close> for two components.\<close>

definition path_join :: "string \<Rightarrow> string \<Rightarrow> string" where
  "path_join a b =
     (if b \<noteq> [] \<and> hd b = CHR ''/'' then b
      else if a = [] \<or> last a = CHR ''/'' then a @ b else a @ ''/'' @ b)"

end
