(* ===== verification/Classifier.thy ===== *)
theory Classifier
  imports Worker Paths
begin

text \<open>
  The extension classifier, the worker \<open>identifyAssetClass\<close>
  (\<open>src/workflowcode/identifyAssetClass.py\<close>, and its Step Functions copy
  \<open>src/SFNcode/identifyAssetClass.py\<close>).  At process start \<open>loadExts\<close> reads the
  files \<open>TypeAudio\<close>, \<open>TypeImage\<close> and \<open>TypeVideo\<close> line by line and maps each
  line, with its last character cut off (\<open>e[:-1]\<close>, meant to drop the
  newline), to the type; a later file overrides an earlier one.  A task is
  then classified by the extension of its \<open>asset\<close> path, without the dot and
  lowered, looked up in that table, \<open>Other\<close> when absent.

  The file contents are the argument \<open>files\<close> (\<open>None\<close>: the file does not
  exist).  The path is split by \<open>parseHelper.splitFilename\<close>
  (\<open>split_ext\<close> of theory \<open>Paths\<close>).
\<close>

section \<open>Loading the table\<close>

definition ext_types :: "string list" where
  "ext_types = [''Audio'', ''Image'', ''Video'']"

text \<open>\<open>for e in exts: EXTENSIONS[e[:-1]] = t\<close> for the lines of one file.\<close>

definition load_type :: "string \<Rightarrow> string \<Rightarrow> jdict \<Rightarrow> jdict" where
  "load_type t contents d = foldl (\<lambda>acc e. AList.update (butlast e) (JStr t) acc) d (py_readlines contents)"

fun load_types :: "(string \<Rightarrow> string option) \<Rightarrow> string list \<Rightarrow> jdict \<Rightarrow> jdict py" where
  "load_types files [] d = Inr d"
| "load_types files (t # ts) d =
     (case files (''Type'' @ t) of
        None \<Rightarrow> Inl (FileNotFoundError (''Type'' @ t))
      | Some c \<Rightarrow> load_types files ts (load_type t c d))"

definition loadExts :: "(string \<Rightarrow> string option) \<Rightarrow> jdict py" where
  "loadExts files = load_types files ext_types []"

section \<open>Classifying a path\<close>

text \<open>\<open>EXT[fileExt[1:].lower()]\<close>, \<open>Other\<close> on \<open>KeyError\<close>.\<close>

definition classify :: "jdict \<Rightarrow> string \<Rightarrow> jval" where
  "classify EXT asset =
     (case map_of EXT (py_lower (drop 1 (split_ext asset))) of Some t \<Rightarrow> t | None \<Rightarrow> JStr ''Other'')"

section \<open>The worker\<close>

text \<open>The handler: asset class, metadata and asset are the result; the
  metadata and the asset pass through.\<close>

definition identify_handle :: "jdict \<Rightarrow> jval \<Rightarrow> handled py" where
  "identify_handle EXT params =
     py_bind (py_getitem params ''asset'') (\<lambda>asset.
       case asset of
         JStr a \<Rightarrow>
           py_bind (py_getitem params ''metadata'') (\<lambda>md.
             Inr (Done (JObj [(''assetClass'', classify EXT a), (''metadata'', md), (''asset'', asset)])))
       | _ \<Rightarrow> Inl TypeError)"

text \<open>\<open>main\<close>: the table is loaded once, before the loop.\<close>

definition identify_main :: "(string \<Rightarrow> string option) \<Rightarrow> activity_task list \<Rightarrow> worker_outcome list" where
  "identify_main files tasks =
     (case loadExts files of
        Inl e \<Rightarrow> [WorkerCrash e]
      | Inr EXT \<Rightarrow> worker_run (identify_handle EXT) tasks)"

text \<open>The Step Functions worker runs the same handler through
  \<open>get_activity_task\<close> and \<open>send_task_success\<close>.\<close>

text \<open>\<open>loadExts()\<close> of \<open>src/SFNcode/identifyAssetClass.py\<close>, a copy of the one
  above.\<close>

definition sfn_loadExts :: "(string \<Rightarrow> string option) \<Rightarrow> jdict py" where
  "sfn_loadExts files = load_types files [''Audio'', ''Image'', ''Video''] []"

definition sfn_identify_main :: "(string \<Rightarrow> string option) \<Rightarrow> activity_task list \<Rightarrow> worker_outcome list" where
  "sfn_identify_main files tasks =
     (case sfn_loadExts files of
        Inl e \<Rightarrow> [WorkerCrash e]
      | Inr EXT \<Rightarrow> worker_run (identify_handle EXT) tasks)"

section \<open>Abstraction\<close>

text \<open>The keys one extension file contributes to the table: its lines, each
  with the last character cut.\<close>

definition ext_keys :: "string \<Rightarrow> string set" where
  "ext_keys contents = set (map butlast (py_readlines contents))"

text \<open>Extension files in the shape of the repository's configuration; the
  image file has no newline after its last line.\<close>

definition example_ext_files :: "string \<Rightarrow> string option" where
  "example_ext_files =
     [''TypeAudio'' \<mapsto> ''mp3\<newline>wav\<newline>'', ''TypeImage'' \<mapsto> ''jpg\<newline>jpeg\<newline>png'',
      ''TypeVideo'' \<mapsto> ''mov\<newline>mp4\<newline>'']"

section \<open>Lemmas\<close>

lemma sfn_loadExts_eq: "sfn_loadExts = loadExts"
  by (simp add: fun_eq_iff sfn_loadExts_def loadExts_def ext_types_def)

lemma map_of_foldl_update:
  "map_of (foldl (\<lambda>acc e. AList.update (butlast e) v acc) d ls) k =
     (if k \<in> set (map butlast ls) then Some v else map_of d k)"
  by (induction ls arbitrary: d) (auto simp: update_conv')

lemma map_of_load_type:
  "map_of (load_type t c d) k = (if k \<in> ext_keys c then Some (JStr t) else map_of d k)"
  by (simp add: load_type_def ext_keys_def map_of_foldl_update)

lemma loadExts_files:
  assumes "files ''TypeAudio'' = Some ca" "files ''TypeImage'' = Some ci" "files ''TypeVideo'' = Some cv"
  shows "loadExts files = Inr (load_type ''Video'' cv (load_type ''Image'' ci (load_type ''Audio'' ca [])))"
  using assms by (simp add: loadExts_def ext_types_def)

lemma split_ext_py_lower: "split_ext (py_lower p) = py_lower (split_ext p)"
proof -
  have slash: "lower_char c = CHR ''/'' \<longleftrightarrow> c = CHR ''/''"
    and dot: "lower_char c = CHR ''.'' \<longleftrightarrow> c = CHR ''.''" for c
  proof -
    have "CHR ''/'' \<notin> set upper_letters" "CHR ''/'' \<notin> set lower_letters"
      "CHR ''.'' \<notin> set upper_letters" "CHR ''.'' \<notin> set lower_letters"
      by (simp_all add: upper_letters_def lower_letters_def)
    then show "lower_char c = CHR ''/'' \<longleftrightarrow> c = CHR ''/''" "lower_char c = CHR ''.'' \<longleftrightarrow> c = CHR ''.''"
      by (simp_all add: lower_char_eq_fixed)
  qed
  define b where "b = basename p"
  define ext where "ext = rev (takeWhile (\<lambda>c. c \<noteq> CHR ''.'') (rev b))"
  define stem where "stem = take (length b - length ext - 1) b"
  have b': "basename (py_lower p) = map lower_char b"
    unfolding b_def basename_def py_lower_def rev_map by (simp add: takeWhile_map_same slash rev_map)
  have ext': "rev (takeWhile (\<lambda>c. c \<noteq> CHR ''.'') (rev (map lower_char b))) = map lower_char ext"
    unfolding ext_def rev_map by (simp add: takeWhile_map_same dot rev_map)
  have stem': "take (length (map lower_char b) - length (map lower_char ext) - 1) (map lower_char b) =
      map lower_char stem"
    unfolding stem_def by (simp add: take_map)
  have dot_sym: "CHR ''.'' = lower_char c \<longleftrightarrow> c = CHR ''.''" for c
    by (metis dot)
  have in_dot: "CHR ''.'' \<in> set (map lower_char xs) \<longleftrightarrow> CHR ''.'' \<in> set xs" for xs
    by (induction xs) (auto simp: dot dot_sym)
  have ex_dot: "(\<exists>c \<in> set (map lower_char xs). c \<noteq> CHR ''.'') \<longleftrightarrow> (\<exists>c \<in> set xs. c \<noteq> CHR ''.'')" for xs
    by (induction xs) (auto simp: dot dot_sym)
  have "split_ext p = (if CHR ''.'' \<in> set b \<and> (\<exists>c \<in> set stem. c \<noteq> CHR ''.'') then CHR ''.'' # ext else [])"
    unfolding split_ext_def b_def ext_def stem_def Let_def ..
  moreover have "split_ext (py_lower p) =
      (if CHR ''.'' \<in> set (map lower_char b) \<and> (\<exists>c \<in> set (map lower_char stem). c \<noteq> CHR ''.'')
       then CHR ''.'' # map lower_char ext else [])"
    unfolding split_ext_def Let_def b' ext' stem' ..
  ultimately show ?thesis unfolding in_dot ex_dot by (simp add: py_lower_def dot_sym)
qed

lemma classify_py_lower: "classify EXT (py_lower a) = classify EXT a"
  unfolding classify_def split_ext_py_lower by (simp add: py_lower_def drop_map comp_def)

lemma identify_handle_ok:
  "py_getitem params ''asset'' = Inr (JStr a) \<Longrightarrow> py_getitem params ''metadata'' = Inr md \<Longrightarrow>
   identify_handle EXT params =
     Inr (Done (JObj [(''assetClass'', classify EXT a), (''metadata'', md), (''asset'', JStr a)]))"
  by (simp add: identify_handle_def)

text \<open>C11.  Classification is case-insensitive: two asset paths that differ
  only in the case of their ASCII letters get the same class, whatever the
  table (spec 4.3 and 8: \<open>classify("JPG") == classify("jpg")\<close>).\<close>

theorem classify_case_insensitive:
  "py_lower a = py_lower b \<Longrightarrow> classify EXT a = classify EXT b"
  by (metis classify_py_lower)

text \<open>C12.  What \<open>loadExts\<close> builds when the three files exist: an extension
  maps to Video if the video file lists it, else to Image if the image file
  does, else to Audio if the audio file does, and is absent otherwise; a key
  is a line without its last character.\<close>

theorem loadExts_lookup:
  assumes "files ''TypeAudio'' = Some ca" "files ''TypeImage'' = Some ci" "files ''TypeVideo'' = Some cv"
  shows "\<exists>EXT. loadExts files = Inr EXT \<and>
    map_of EXT k = (if k \<in> ext_keys cv then Some (JStr ''Video'')
                    else if k \<in> ext_keys ci then Some (JStr ''Image'')
                    else if k \<in> ext_keys ca then Some (JStr ''Audio'') else None)"
  using assms by (simp add: loadExts_files map_of_load_type)


text \<open>C14.  The table is case-insensitive only on the query side: an entry
  whose key is not in lower case is never consulted, so deleting it changes
  the class of no asset.\<close>

theorem uppercase_entry_unused:
  assumes "py_lower k \<noteq> k"
  shows "classify (AList.delete k EXT) a = classify EXT a"
proof -
  let ?q = "py_lower (drop 1 (split_ext a))"
  have "?q \<noteq> k" using assms by (metis py_lower_idem)
  then show ?thesis by (simp add: classify_def delete_conv')
qed

text \<open>A claimed \<open>identifyAssetClass\<close> task whose input has a string
  \<open>asset\<close> and a \<open>metadata\<close> entry is completed with its own token and the
  result \<open>{assetClass, metadata, asset}\<close>, the class from the loaded table and
  the other two passed through.\<close>

theorem identify_reports_class:
  assumes "loadExts files = Inr EXT"
    and "py_getitem params ''asset'' = Inr (JStr a)" and "py_getitem params ''metadata'' = Inr md"
  shows "identify_main files [\<lparr>atoken = Some tok, ainput = Some params\<rparr>] =
    [Completed tok (JObj [(''assetClass'', classify EXT a), (''metadata'', md), (''asset'', JStr a)])]"
  using assms by (simp add: identify_main_def worker_step_claimed identify_handle_ok)

section \<open>Witnesses\<close>

lemmas lower_eval = py_lower_def lower_char_def ascii_lower_table_def upper_letters_def lower_letters_def

theorem classify_case_insensitive_witness:
  "py_lower ''/u/a.JPG'' = py_lower ''/u/a.jpg'' \<and>
   classify [(''jpg'', JStr ''Image'')] ''/u/a.JPG'' = classify [(''jpg'', JStr ''Image'')] ''/u/a.jpg''"
  using classify_case_insensitive [of "''/u/a.JPG''" "''/u/a.jpg''" "[(''jpg'', JStr ''Image'')]"]
  by (simp add: lower_eval)

theorem loadExts_lookup_witness:
  "example_ext_files ''TypeAudio'' = Some ''mp3\<newline>wav\<newline>'' \<and>
   example_ext_files ''TypeImage'' = Some ''jpg\<newline>jpeg\<newline>png'' \<and>
   example_ext_files ''TypeVideo'' = Some ''mov\<newline>mp4\<newline>'' \<and>
   (\<exists>EXT. loadExts example_ext_files = Inr EXT \<and> map_of EXT ''jpg'' = Some (JStr ''Image''))"
  using loadExts_lookup [of example_ext_files "''mp3\<newline>wav\<newline>''" "''jpg\<newline>jpeg\<newline>png''"
      "''mov\<newline>mp4\<newline>''" "''jpg''"]
  by (simp add: example_ext_files_def ext_keys_def py_readlines_def)


theorem uppercase_entry_unused_witness:
  "py_lower ''JPG'' \<noteq> ''JPG'' \<and>
   classify (AList.delete ''JPG'' [(''JPG'', JStr ''Image'')]) ''/u/a.JPG'' =
     classify [(''JPG'', JStr ''Image'')] ''/u/a.JPG''"
  using uppercase_entry_unused [of "''JPG''" "[(''JPG'', JStr ''Image'')]" "''/u/a.JPG''"]
  by (simp add: lower_eval)

theorem identify_reports_class_witness:
  "identify_main example_ext_files
     [\<lparr>atoken = Some ''t1'', ainput = Some (JObj [(''asset'', JStr ''/u/a.JPG''), (''metadata'', JObj [])])\<rparr>] =
   [Completed ''t1'' (JObj [(''assetClass'', JStr ''Image''), (''metadata'', JObj []), (''asset'', JStr ''/u/a.JPG'')])]"
proof -
  define EXT where "EXT = load_type ''Video'' ''mov\<newline>mp4\<newline>''
      (load_type ''Image'' ''jpg\<newline>jpeg\<newline>png'' (load_type ''Audio'' ''mp3\<newline>wav\<newline>'' []))"
  have load: "loadExts example_ext_files = Inr EXT"
    unfolding EXT_def by (rule loadExts_files) (simp_all add: example_ext_files_def)
  have cls: "classify EXT ''/u/a.JPG'' = JStr ''Image''"
    unfolding EXT_def classify_def
    by (simp add: map_of_load_type ext_keys_def py_readlines_def split_ext_def basename_def lower_eval)
  show ?thesis
    using identify_reports_class [OF load, of "JObj [(''asset'', JStr ''/u/a.JPG''), (''metadata'', JObj [])]"
        "''/u/a.JPG''" "JObj []" "''t1''"] cls
    by (simp add: py_simps)
qed

end
