(* ===== verification/Catalog.thy ===== *)
theory Catalog
  imports Worker
begin

text \<open>
  The asset catalog: the DynamoDB table \<open>Assets\<close>, whose items are keyed by the
  attribute \<open>Checksum\<close>, and the worker that writes an asset's first entry,
  \<open>registerAsset\<close> (\<open>src/workflowcode/registerAsset.py\<close> and its Step Functions
  copy).  The table is an association list from the key value to the item;
  a write is all or nothing, a rejected one raises \<open>ClientError\<close>.  The
  workers after registration change an item only through
  \<open>databaseHelper.updateEntry\<close>, a shared library outside the repository that
  issues one \<open>update_item\<close> with the given key, \<open>SET\<close> actions and values;
  \<open>update_entry\<close> models it with DynamoDB's rules: an absent item is created
  with its key, \<open>list_append\<close> needs two lists, and the key attribute cannot
  be set.
\<close>

type_synonym catalog = "(jval \<times> jdict) list"

section \<open>The table\<close>

datatype update_action = SetTo jval | ListAppend jval

text \<open>The key of an \<open>update_item\<close> call: exactly the key attribute.\<close>

definition catalog_key :: "jval \<Rightarrow> jval py" where
  "catalog_key key =
     (case key of JObj [(a, v)] \<Rightarrow> if a = ''Checksum'' then Inr v else Inl (ClientError ''ValidationException'')
      | _ \<Rightarrow> Inl (ClientError ''ValidationException''))"

fun apply_action :: "jdict \<Rightarrow> string \<times> update_action \<Rightarrow> jdict py" where
  "apply_action item (a, act) =
     (if a = ''Checksum'' then Inl (ClientError ''ValidationException'')
      else case act of
        SetTo v \<Rightarrow> Inr (AList.update a v item)
      | ListAppend v \<Rightarrow>
          (case (map_of item a, v) of
             (Some (JArr old), JArr new) \<Rightarrow> Inr (AList.update a (JArr (old @ new)) item)
           | _ \<Rightarrow> Inl (ClientError ''ValidationException'')))"

fun apply_actions :: "jdict \<Rightarrow> (string \<times> update_action) list \<Rightarrow> jdict py" where
  "apply_actions item [] = Inr item"
| "apply_actions item (x # xs) = py_bind (apply_action item x) (\<lambda>i. apply_actions i xs)"

text \<open>\<open>databaseHelper.updateEntry(key, updateExpression, expressionValues)\<close>.\<close>

definition update_entry :: "jval \<Rightarrow> (string \<times> update_action) list \<Rightarrow> catalog \<Rightarrow> catalog py" where
  "update_entry key acts c =
     py_bind (catalog_key key) (\<lambda>k.
       py_bind (apply_actions (case map_of c k of Some item \<Rightarrow> item | None \<Rightarrow> [(''Checksum'', k)]) acts)
         (\<lambda>item'. Inr (AList.update k item' c)))"

section \<open>Registration\<close>

text \<open>\<open>table.put_item(Item = DOC, ConditionExpression =
  'attribute_not_exists(Checksum)')\<close>.  A document without the key attribute
  is rejected by the service; one that is not a dict is rejected by the client
  library before the call.\<close>

definition put_if_absent :: "jval \<Rightarrow> catalog \<Rightarrow> catalog py" where
  "put_if_absent DOC c =
     (case DOC of
        JObj item \<Rightarrow>
          (case map_of item ''Checksum'' of
             None \<Rightarrow> Inl (ClientError ''ValidationException'')
           | Some k \<Rightarrow>
               if map_of c k = None then Inr (AList.update k item c)
               else Inl (ClientError ''ConditionalCheckFailedException''))
      | _ \<Rightarrow> Inl TypeError)"

text \<open>The conditional update after a failed put: revive an entry whose file was
  deleted (\<open>File_Location = 'delete'\<close>), setting location, file name and user
  fields, appending the audit trail, and removing the derived renditions.  The
  reads of \<open>DOC\<close> happen in source order before the call.\<close>

definition reg_revive :: "jval \<Rightarrow> catalog \<Rightarrow> catalog py" where
  "reg_revive DOC c =
     py_bind (py_getitem DOC ''Checksum'') (\<lambda>cs.
     py_bind (py_getitem DOC ''Audit'') (\<lambda>a.
     py_bind (py_getitem DOC ''UserFields'') (\<lambda>u.
     py_bind (py_getitem DOC ''Filename'') (\<lambda>f.
       case map_of c cs of
         Some item \<Rightarrow>
           if map_of item ''File_Location'' = Some (JStr ''delete'') then
             py_bind (apply_actions item
                 [(''File_Location'', SetTo (JStr ''working'')), (''Filename'', SetTo f),
                  (''UserFields'', SetTo u), (''Audit'', ListAppend a)])
               (\<lambda>i. Inr (AList.update cs (fold AList.delete [''PDL'', ''thumbnail'', ''storyboard''] i) c))
           else Inl (ClientError ''ConditionalCheckFailedException'')
       | None \<Rightarrow> Inl (ClientError ''ConditionalCheckFailedException'')))))"

definition register_done :: "jval \<Rightarrow> jval \<Rightarrow> handled py" where
  "register_done INPUT DOC =
     py_bind (py_getitem DOC ''Checksum'') (\<lambda>cs.
     py_bind (py_getitem INPUT ''assetClass'') (\<lambda>ac.
     py_bind (py_getitem INPUT ''asset'') (\<lambda>a.
       Inr (Done (JObj [(''dbPrimaryKey'', JObj [(''Checksum'', cs)]), (''assetClass'', ac), (''asset'', a)])))))"

definition register_failed :: "jval \<Rightarrow> string \<Rightarrow> handled py" where
  "register_failed DOC msg =
     py_bind (py_getitem DOC ''Checksum'') (\<lambda>cs.
       Inr (Fail (json_dumps_str (''REG-0001_Duplicate file entry: The file with ID '' @ py_str cs @ '' already exists''))
                 (json_dumps_str msg)))"

text \<open>The handler: put, on a client error the conditional revive, on a second
  client error the failure report.\<close>

definition register_handle :: "catalog \<Rightarrow> jval \<Rightarrow> catalog \<times> handled py" where
  "register_handle c INPUT =
     (case py_getitem INPUT ''DOC'' of
        Inl e \<Rightarrow> (c, Inl e)
      | Inr DOC \<Rightarrow>
          (case put_if_absent DOC c of
             Inr c' \<Rightarrow> (c', register_done INPUT DOC)
           | Inl (ClientError _) \<Rightarrow>
               (case reg_revive DOC c of
                  Inr c' \<Rightarrow> (c', register_done INPUT DOC)
                | Inl (ClientError msg) \<Rightarrow> (c, register_failed DOC msg)
                | Inl e \<Rightarrow> (c, Inl e))
           | Inl e \<Rightarrow> (c, Inl e)))"


definition sfn_register_main :: "catalog \<Rightarrow> activity_task list \<Rightarrow> catalog \<times> worker_outcome list" where
  "sfn_register_main c tasks = worker_run_st register_handle c tasks"

section \<open>Invariant\<close>

text \<open>Every item is stored under the value of its own key attribute.\<close>

definition catalog_inv :: "catalog \<Rightarrow> bool" where
  "catalog_inv c = (distinct (map fst c) \<and> (\<forall>(k, item) \<in> set c. map_of item ''Checksum'' = Some k))"

section \<open>Lemmas\<close>

lemma set_update_subset: "set (AList.update k v al) \<subseteq> insert (k, v) (set al)"
  by (induction al) auto

lemma catalog_inv_update:
  "catalog_inv c \<Longrightarrow> map_of item ''Checksum'' = Some k \<Longrightarrow> catalog_inv (AList.update k item c)"
  unfolding catalog_inv_def using set_update_subset [of k item c]
  by (auto simp: distinct_update)

lemma catalog_inv_lookup:
  "catalog_inv c \<Longrightarrow> map_of c k = Some item \<Longrightarrow> map_of item ''Checksum'' = Some k"
  unfolding catalog_inv_def by (auto dest: map_of_SomeD)

lemma apply_action_key:
  "apply_action item x = Inr i \<Longrightarrow> map_of i ''Checksum'' = map_of item ''Checksum''"
  by (cases x) (auto simp: update_conv' split: if_splits update_action.splits option.splits jval.splits)

lemma apply_actions_key:
  "apply_actions item xs = Inr i \<Longrightarrow> map_of i ''Checksum'' = map_of item ''Checksum''"
proof (induction xs arbitrary: item)
  case (Cons x xs)
  then obtain i' where "apply_action item x = Inr i'" "apply_actions i' xs = Inr i"
    by (auto simp: py_bind_Inr_iff)
  with Cons.IH apply_action_key show ?case by metis
qed simp


lemma update_entry_inv:
  assumes "catalog_inv c" "update_entry key acts c = Inr c'"
  shows "catalog_inv c'"
proof -
  from assms(2) obtain k item' where k: "catalog_key key = Inr k"
    and acts: "apply_actions (case map_of c k of Some item \<Rightarrow> item | None \<Rightarrow> [(''Checksum'', k)]) acts = Inr item'"
    and c': "c' = AList.update k item' c"
    by (auto simp: update_entry_def py_bind_Inr_iff)
  have "map_of (case map_of c k of Some item \<Rightarrow> item | None \<Rightarrow> [(''Checksum'', k)]) ''Checksum'' = Some k"
    using catalog_inv_lookup [OF assms(1)] by (auto split: option.split)
  with apply_actions_key [OF acts] have "map_of item' ''Checksum'' = Some k" by simp
  with assms(1) c' show ?thesis by (simp add: catalog_inv_update)
qed





lemma put_if_absent_new:
  "map_of c cs = None \<Longrightarrow> map_of item ''Checksum'' = Some cs \<Longrightarrow>
   put_if_absent (JObj item) c = Inr (AList.update cs item c)"
  by (simp add: put_if_absent_def)

lemma put_if_absent_present:
  "map_of c cs = Some old \<Longrightarrow> map_of item ''Checksum'' = Some cs \<Longrightarrow>
   put_if_absent (JObj item) c = Inl (ClientError ''ConditionalCheckFailedException'')"
  by (simp add: put_if_absent_def)

lemma revive_actions:
  assumes "map_of old ''Audit'' = Some (JArr olda)"
  shows "apply_actions old [(''File_Location'', SetTo (JStr ''working'')), (''Filename'', SetTo f),
      (''UserFields'', SetTo u), (''Audit'', ListAppend (JArr newa))] =
    Inr (AList.update ''Audit'' (JArr (olda @ newa))
          (AList.update ''UserFields'' u (AList.update ''Filename'' f
            (AList.update ''File_Location'' (JStr ''working'') old))))"
  using assms by (simp add: update_conv')

lemma revived_lookup:
  "map_of (fold AList.delete [''PDL'', ''thumbnail'', ''storyboard''] (AList.update ''Audit'' A
      (AList.update ''UserFields'' u (AList.update ''Filename'' f (AList.update ''File_Location'' W old))))) k =
   (if k = ''File_Location'' then Some W else if k = ''Filename'' then Some f
    else if k = ''UserFields'' then Some u else if k = ''Audit'' then Some A
    else if k \<in> {''PDL'', ''thumbnail'', ''storyboard''} then None else map_of old k)"
  by (simp add: delete_conv' update_conv')


text \<open>C17.  Registering a document whose checksum is not yet in the catalog
  stores the document under it (a lookup returns it) and reports the key
  \<open>{Checksum: cs}\<close> with the asset and class passed through.\<close>

theorem register_new_entry:
  assumes "map_of c cs = None" "map_of item ''Checksum'' = Some cs"
    and "py_getitem INPUT ''DOC'' = Inr (JObj item)"
    and "py_getitem INPUT ''assetClass'' = Inr ac" "py_getitem INPUT ''asset'' = Inr a"
  shows "register_handle c INPUT =
      (AList.update cs item c,
       Inr (Done (JObj [(''dbPrimaryKey'', JObj [(''Checksum'', cs)]), (''assetClass'', ac), (''asset'', a)])))
    \<and> map_of (fst (register_handle c INPUT)) cs = Some item"
  using assms by (simp add: register_handle_def put_if_absent_new register_done_def update_conv')

text \<open>C18.  A document whose checksum belongs to an entry that is not marked
  deleted is refused: the catalog is unchanged and the task fails with
  reason \<open>REG-0001\<close> naming the checksum.\<close>

theorem register_live_duplicate:
  assumes "map_of c cs = Some old" "map_of old ''File_Location'' \<noteq> Some (JStr ''delete'')"
    and "map_of item ''Checksum'' = Some cs" "py_getitem INPUT ''DOC'' = Inr (JObj item)"
    and "has_keys (JObj item) [''Audit'', ''UserFields'', ''Filename'']"
  shows "register_handle c INPUT =
    (c, Inr (Fail (json_dumps_str (''REG-0001_Duplicate file entry: The file with ID '' @ py_str cs @ '' already exists''))
                  (json_dumps_str ''ConditionalCheckFailedException'')))"
  using assms
  by (auto simp: register_handle_def put_if_absent_present reg_revive_def register_failed_def has_keys_def
      split: option.split)

text \<open>C19.  Registering again a file whose entry is marked deleted revives that
  entry: location \<open>working\<close>, the new file name and user fields, the new audit
  records appended to the old ones, the renditions \<open>PDL\<close>, \<open>thumbnail\<close> and
  \<open>storyboard\<close> removed, every other attribute (the extracted metadata
  included) kept from the old entry.\<close>

theorem register_revives_deleted:
  assumes "map_of c cs = Some old" "map_of old ''File_Location'' = Some (JStr ''delete'')"
    and "map_of old ''Audit'' = Some (JArr olda)"
    and "py_getitem INPUT ''DOC'' = Inr (JObj item)" "map_of item ''Checksum'' = Some cs"
    and "map_of item ''Audit'' = Some (JArr newa)" "map_of item ''UserFields'' = Some u"
    and "map_of item ''Filename'' = Some f"
  shows "\<exists>item'. fst (register_handle c INPUT) = AList.update cs item' c \<and>
    (\<forall>k. map_of item' k =
       (if k = ''File_Location'' then Some (JStr ''working'') else if k = ''Filename'' then Some f
        else if k = ''UserFields'' then Some u else if k = ''Audit'' then Some (JArr (olda @ newa))
        else if k \<in> {''PDL'', ''thumbnail'', ''storyboard''} then None else map_of old k))"
proof -
  let ?i = "AList.update ''Audit'' (JArr (olda @ newa)) (AList.update ''UserFields'' u
      (AList.update ''Filename'' f (AList.update ''File_Location'' (JStr ''working'') old)))"
  have "fst (register_handle c INPUT) =
      AList.update cs (fold AList.delete [''PDL'', ''thumbnail'', ''storyboard''] ?i) c"
    using assms by (simp add: register_handle_def put_if_absent_present reg_revive_def update_conv')
  moreover have "\<forall>k. map_of (fold AList.delete [''PDL'', ''thumbnail'', ''storyboard''] ?i) k =
       (if k = ''File_Location'' then Some (JStr ''working'') else if k = ''Filename'' then Some f
        else if k = ''UserFields'' then Some u else if k = ''Audit'' then Some (JArr (olda @ newa))
        else if k \<in> {''PDL'', ''thumbnail'', ''storyboard''} then None else map_of old k)"
    by (intro allI revived_lookup)
  ultimately show ?thesis by blast
qed

section \<open>Witnesses\<close>


theorem register_new_entry_witness:
  "register_handle [] (JObj [(''DOC'', JObj [(''Checksum'', JStr ''abc'')]), (''assetClass'', JStr ''Image''),
       (''asset'', JStr ''/a.jpg'')]) =
     ([(JStr ''abc'', [(''Checksum'', JStr ''abc'')])],
      Inr (Done (JObj [(''dbPrimaryKey'', JObj [(''Checksum'', JStr ''abc'')]), (''assetClass'', JStr ''Image''),
        (''asset'', JStr ''/a.jpg'')])))"
  using register_new_entry [where c = "[]" and cs = "JStr ''abc''" and item = "[(''Checksum'', JStr ''abc'')]"
      and INPUT = "JObj [(''DOC'', JObj [(''Checksum'', JStr ''abc'')]), (''assetClass'', JStr ''Image''),
       (''asset'', JStr ''/a.jpg'')]" and ac = "JStr ''Image''" and a = "JStr ''/a.jpg''"]
  by simp

theorem register_live_duplicate_witness:
  "register_handle [(JStr ''abc'', [(''Checksum'', JStr ''abc''), (''File_Location'', JStr ''CDN'')])]
     (JObj [(''DOC'', JObj [(''Checksum'', JStr ''abc''), (''Audit'', JArr []), (''UserFields'', JObj []),
       (''Filename'', JStr ''a'')])]) =
   ([(JStr ''abc'', [(''Checksum'', JStr ''abc''), (''File_Location'', JStr ''CDN'')])],
    Inr (Fail (json_dumps_str ''REG-0001_Duplicate file entry: The file with ID abc already exists'')
              (json_dumps_str ''ConditionalCheckFailedException'')))"
  using register_live_duplicate [where c = "[(JStr ''abc'', [(''Checksum'', JStr ''abc''), (''File_Location'', JStr ''CDN'')])]"
      and cs = "JStr ''abc''" and old = "[(''Checksum'', JStr ''abc''), (''File_Location'', JStr ''CDN'')]"
      and item = "[(''Checksum'', JStr ''abc''), (''Audit'', JArr []), (''UserFields'', JObj []), (''Filename'', JStr ''a'')]"
      and INPUT = "JObj [(''DOC'', JObj [(''Checksum'', JStr ''abc''), (''Audit'', JArr []), (''UserFields'', JObj []),
       (''Filename'', JStr ''a'')])]"]
  by (simp add: has_keys_def)

theorem register_revives_deleted_witness:
  "\<exists>item'. fst (register_handle [(JStr ''abc'', [(''Checksum'', JStr ''abc''), (''File_Location'', JStr ''delete''),
        (''Audit'', JArr [JStr ''a1'']), (''PDL'', JStr ''/converted/a_PDL.mp4'')])]
      (JObj [(''DOC'', JObj [(''Checksum'', JStr ''abc''), (''Audit'', JArr [JStr ''a2'']), (''UserFields'', JObj []),
        (''Filename'', JStr ''a'')])])) = [(JStr ''abc'', item')] \<and>
    map_of item' ''Audit'' = Some (JArr [JStr ''a1'', JStr ''a2'']) \<and> map_of item' ''PDL'' = None"
  using register_revives_deleted [where c = "[(JStr ''abc'', [(''Checksum'', JStr ''abc''), (''File_Location'', JStr ''delete''),
        (''Audit'', JArr [JStr ''a1'']), (''PDL'', JStr ''/converted/a_PDL.mp4'')])]"
      and cs = "JStr ''abc''" and old = "[(''Checksum'', JStr ''abc''), (''File_Location'', JStr ''delete''),
        (''Audit'', JArr [JStr ''a1'']), (''PDL'', JStr ''/converted/a_PDL.mp4'')]"
      and olda = "[JStr ''a1'']" and newa = "[JStr ''a2'']" and u = "JObj []" and f = "JStr ''a''"
      and item = "[(''Checksum'', JStr ''abc''), (''Audit'', JArr [JStr ''a2'']), (''UserFields'', JObj []), (''Filename'', JStr ''a'')]"
      and INPUT = "JObj [(''DOC'', JObj [(''Checksum'', JStr ''abc''), (''Audit'', JArr [JStr ''a2'']), (''UserFields'', JObj []),
        (''Filename'', JStr ''a'')])]"]
  by auto

end
