(* ===== verification/World.thy ===== *)
theory World
  imports Catalog Paths
begin

text \<open>
  The world the activity workers act on: the catalog of theory \<open>Catalog\<close>,
  the local disk of the worker hosts (the landing pad under which uploads
  arrive, and the working storage \<open>/Assets/working/\<close>), and the S3 bucket
  \<open>schulerfiles\<close>.  The disk is a list of files with their contents, in the
  order \<open>os.walk\<close> and \<open>os.listdir\<close> report them, and a list of directories
  created explicitly; a directory also exists when a file lies below it.
  The bucket maps an object key to the content it was uploaded from and its
  storage class.  External tools (\<open>convert\<close>, \<open>ffmpeg\<close>) are a parameter
  \<open>tool\<close>: given the command line and the files, they either fail with the
  message of \<open>CalledProcessError\<close> (\<open>Inl\<close>) or return their standard output
  and the files afterwards (\<open>Inr\<close>).
\<close>

type_synonym files = "(string \<times> string) list"

type_synonym s3obj = "string \<times> string"

record world =
  cat :: catalog
  files :: files
  dirs :: "string list"
  bucket :: "(string \<times> s3obj) list"

type_synonym tool = "string list \<Rightarrow> files \<Rightarrow> string + (string \<times> files)"

section \<open>Local disk\<close>

text \<open>A path lies below directory \<open>d\<close>.\<close>

definition below :: "string \<Rightarrow> string \<Rightarrow> bool" where
  "below d p = (prefix (d @ ''/'') p \<or> p = d)"

definition dir_exists :: "world \<Rightarrow> string \<Rightarrow> bool" where
  "dir_exists w d = (d \<in> set (dirs w) \<or> (\<exists>p \<in> set (map fst (files w)). prefix (d @ ''/'') p))"

text \<open>A directory's name without trailing separators, as the file system
  records it.\<close>

definition dir_name :: "string \<Rightarrow> string" where
  "dir_name p = (let s = rev (dropWhile (\<lambda>c. c = CHR ''/'') (rev p)) in if s = [] then p else s)"

text \<open>\<open>parseHelper.createDir(base, sub)\<close>: the joined path, created when
  absent.\<close>

definition create_dir :: "string \<Rightarrow> string \<Rightarrow> world \<Rightarrow> string \<times> world" where
  "create_dir base sub w =
     (let d = path_join base sub
      in (d, if dir_name d \<in> set (dirs w) then w else w\<lparr>dirs := dirs w @ [dir_name d]\<rparr>))"

text \<open>\<open>os.listdir(d)\<close>: the names of the entries directly in \<open>d\<close>.\<close>

definition listdir :: "world \<Rightarrow> string \<Rightarrow> string list" where
  "listdir w d =
     remdups (map (\<lambda>p. takeWhile (\<lambda>c. c \<noteq> CHR ''/'') (drop (length d + 1) p))
       (filter (\<lambda>p. prefix (d @ ''/'') p \<and> length p > length d + 1) (map fst (files w) @ dirs w)))"

text \<open>\<open>open(p, 'w').write(text)\<close>.\<close>

definition write_file :: "string \<Rightarrow> string \<Rightarrow> world \<Rightarrow> world" where
  "write_file p text w = w\<lparr>files := AList.update p text (files w)\<rparr>"

text \<open>\<open>shutil.rmtree(d)\<close>: everything below \<open>d\<close> is removed; a directory that
  does not exist raises \<open>OSError\<close>.\<close>

definition rmtree :: "string \<Rightarrow> world \<Rightarrow> world py" where
  "rmtree d w =
     (if dir_exists w d
      then Inr (w\<lparr>files := filter (\<lambda>(p, _). \<not> below d p) (files w), dirs := filter (\<lambda>p. \<not> below d p) (dirs w)\<rparr>)
      else Inl (OSError d))"

text \<open>\<open>parseHelper.splitFilename(asset)\<close> needs a string.\<close>

definition asset_path :: "jval \<Rightarrow> string py" where
  "asset_path v = (case v of JStr a \<Rightarrow> Inr a | _ \<Rightarrow> Inl TypeError)"

text \<open>Running an external tool with \<open>subprocess.check_output\<close>.\<close>

definition run_tool :: "tool \<Rightarrow> string list \<Rightarrow> world \<Rightarrow> string + (string \<times> world)" where
  "run_tool tool cmd w =
     (case tool cmd (files w) of Inr (out, fs) \<Rightarrow> Inr (out, w\<lparr>files := fs\<rparr>) | Inl msg \<Rightarrow> Inl msg)"

text \<open>A catalog update inside a handler: an exception leaves the world as it
  was.\<close>

definition world_update_entry :: "jval \<Rightarrow> (string \<times> update_action) list \<Rightarrow> world \<Rightarrow> world py" where
  "world_update_entry key acts w = py_bind (update_entry key acts (cat w)) (\<lambda>c. Inr (w\<lparr>cat := c\<rparr>))"

section \<open>Lemmas\<close>

lemma cat_create_dir [simp]: "cat (snd (create_dir b s w)) = cat w"
  by (simp add: create_dir_def Let_def)

lemma bucket_create_dir [simp]: "bucket (snd (create_dir b s w)) = bucket w"
  by (simp add: create_dir_def Let_def)

lemma cat_write_file [simp]: "cat (write_file p t w) = cat w"
  by (simp add: write_file_def)

lemma files_create_dir [simp]: "files (snd (create_dir b s w)) = files w"
  by (simp add: create_dir_def Let_def)

lemma fst_create_dir [simp]: "fst (create_dir b s w) = path_join b s"
  by (simp add: create_dir_def Let_def)

lemma run_tool_cat:
  "run_tool tool cmd w = Inr (out, w') \<Longrightarrow> cat w' = cat w \<and> bucket w' = bucket w"
  by (auto simp: run_tool_def split: sum.splits prod.splits)

lemma world_update_entry_inv:
  "catalog_inv (cat w) \<Longrightarrow> world_update_entry key acts w = Inr w' \<Longrightarrow> catalog_inv (cat w')"
  by (auto simp: world_update_entry_def py_bind_Inr_iff intro: update_entry_inv)

lemma rmtree_cat:
  "rmtree d w = Inr w' \<Longrightarrow> cat w' = cat w \<and> bucket w' = bucket w"
  by (auto simp: rmtree_def split: if_splits)

lemma world_update_entry_key:
  "world_update_entry (JObj [(''Checksum'', k)]) acts w =
     py_bind (apply_actions (case map_of (cat w) k of Some item \<Rightarrow> item | None \<Rightarrow> [(''Checksum'', k)]) acts)
       (\<lambda>i. Inr (w\<lparr>cat := AList.update k i (cat w)\<rparr>))"
  unfolding world_update_entry_def update_entry_def py_bind_assoc by (simp add: catalog_key_def)

end
