(* ===== verification/Derive.thy ===== *)
theory Derive
  imports World
begin

text \<open>
  The derivation workers of the ingestion pipeline
  (\<open>src/workflowcode/createThumbnailFromImage.py\<close>,
  \<open>createThumbnailFromVideo.py\<close> and \<open>transcodeVideoDefault.py\<close>, with their
  Step Functions copies): each runs an external tool on the asset, writing
  into a directory beside it, and records the rendition in the catalog.  The
  video thumbnail worker also counts the frames the tool wrote, writes a WebVTT
  storyboard with one cue per frame, and picks the frame a quarter of the way
  through as the key thumbnail.  The code is Python 2: \<open>/\<close> on integers is
  floor division.
\<close>

section \<open>File name patterns\<close>

text \<open>\<open>fnmatch.fnmatch(name, pattern)\<close> for patterns built of \<open>*\<close>, \<open>?\<close> and
  literal characters (POSIX: case-sensitive).\<close>

fun glob :: "string \<Rightarrow> string \<Rightarrow> bool" where
  "glob [] s = (s = [])"
| "glob (p # ps) [] = (p = CHR ''*'' \<and> glob ps [])"
| "glob (p # ps) (c # cs) =
     (if p = CHR ''*'' then glob ps (c # cs) \<or> glob (p # ps) cs
      else if p = CHR ''?'' then glob ps cs
      else c = p \<and> glob ps cs)"

section \<open>Image thumbnail\<close>

definition thb_image_cmd :: "string \<Rightarrow> string \<Rightarrow> string \<Rightarrow> string list" where
  "thb_image_cmd asset subDir outfile =
     [''convert'', asset, ''-format'', ''jpg'', ''-thumbnail'', ''640x360'', ''-auto-orient'', subDir @ ''/'' @ outfile]"

definition thumb_image_handle :: "tool \<Rightarrow> world \<Rightarrow> jval \<Rightarrow> world \<times> handled py" where
  "thumb_image_handle tool w INPUT =
     hbind w (py_getitem INPUT ''asset'') (\<lambda>av.
     hbind w (py_getitem INPUT ''dbPrimaryKey'') (\<lambda>key.
     hbind w (asset_path av) (\<lambda>asset.
       let (filePath, fileName, fileExt) = split_filename asset;
           (subDir, w1) = create_dir filePath ''thumbnails'' w;
           outfile = fileName @ ''_thumbnail.jpg''
       in case run_tool tool (thb_image_cmd asset subDir outfile) w1 of
            Inl err \<Rightarrow>
              (w1, Inr (Fail (json_dumps_str ''THB-0001_Error in image thumbnail creation'') (json_dumps_str err)))
          | Inr (output, w2) \<Rightarrow>
              hbind w2 (world_update_entry key [(''thumbnail'', SetTo (JStr (''/thumbnails/'' @ outfile)))] w2) (\<lambda>w3.
                (w3, py_bind (py_getitem INPUT ''assetClass'') (\<lambda>ac.
                       Inr (Done (JObj [(''tool'', JStr output), (''dbPrimaryKey'', key), (''assetClass'', ac),
                                        (''asset'', av)]))))))))"

section \<open>Video thumbnails and storyboard\<close>

definition thumb_fps :: nat where
  "thumb_fps = 1"

definition thb_video_cmd :: "string \<Rightarrow> string \<Rightarrow> string \<Rightarrow> string list" where
  "thb_video_cmd asset subDir outfile =
     [''ffmpeg'', ''-y'', ''-i'', asset, ''-vf'', ''fps='' @ py_str_nat thumb_fps @ '',scale=iw/3:ih/3'',
      ''-loglevel'', ''fatal'', subDir @ ''/'' @ outfile]"

text \<open>\<open>'%02d:%02d:%02d.000' % (s / 3600, s / 60 % 60, s % 60)\<close>.\<close>

definition vtt_span :: "nat \<Rightarrow> string" where
  "vtt_span s = py_pad2 (s div 3600) @ '':'' @ py_pad2 (s div 60 mod 60) @ '':'' @ py_pad2 (s mod 60) @ ''.000''"

definition vtt_base_url :: string where
  "vtt_base_url = ''https://dnt4vq51jg2tj.cloudfront.net''"

text \<open>The cue of frame \<open>i\<close> (counted from 0): its span and the URL of the
  thumbnail numbered \<open>i + 1\<close>.\<close>

definition vtt_cue :: "string \<Rightarrow> nat \<Rightarrow> string" where
  "vtt_cue fileName i =
     (let startSecond = i * (1 div thumb_fps); endSecond = (i + 1) * (1 div thumb_fps)
      in ''\<newline>\<newline>'' @ vtt_span startSecond @ '' --> '' @ vtt_span endSecond @ ''\<newline>'' @
         vtt_base_url @ ''/'' @ fileName @ ''/thumbnails/'' @ fileName @ ''_thumbnail_'' @ py_str_nat (i + 1) @ ''.jpg'')"

definition vtt_text :: "string \<Rightarrow> nat \<Rightarrow> string" where
  "vtt_text fileName counter = ''WEBVTT'' @ concat (map (vtt_cue fileName) [0..<counter])"

text \<open>The frames counted: entries of the thumbnail directory matching
  \<open>*_thumbnail_*.jpg\<close>.\<close>

definition thumb_count :: "world \<Rightarrow> string \<Rightarrow> nat" where
  "thumb_count w subDir = length (filter (glob ''*_thumbnail_*.jpg'') (listdir w subDir))"

text \<open>\<open>str(math.trunc(counter * .25))\<close>.\<close>

definition key_frame :: "nat \<Rightarrow> nat" where
  "key_frame counter = counter div 4"

definition thumb_video_handle :: "tool \<Rightarrow> world \<Rightarrow> jval \<Rightarrow> world \<times> handled py" where
  "thumb_video_handle tool w INPUT =
     hbind w (py_getitem INPUT ''asset'') (\<lambda>av.
     hbind w (py_getitem INPUT ''dbPrimaryKey'') (\<lambda>key.
     hbind w (asset_path av) (\<lambda>asset.
       let (filePath, fileName, fileExt) = split_filename asset;
           (subDir, w1) = create_dir filePath ''thumbnails'' w;
           outfile = fileName @ ''_thumbnail_%d.jpg'';
           vtt = fileName @ ''.vtt''
       in case run_tool tool (thb_video_cmd asset subDir outfile) w1 of
            Inl err \<Rightarrow>
              (w1, Inr (Fail (json_dumps_str ''THB-0002_Error in video thumbnail creation'') (json_dumps_str err)))
          | Inr (output, w2) \<Rightarrow>
              (let counter = thumb_count w2 subDir;
                   w3 = write_file (subDir @ ''/'' @ vtt) (vtt_text fileName counter) w2;
                   thumbnail = ''/thumbnails/'' @ fileName @ ''_thumbnail_'' @ py_str_nat (key_frame counter) @ ''.jpg'';
                   storyboard = ''/thumbnails/'' @ vtt
               in hbind w3 (world_update_entry key
                      [(''thumbnail'', SetTo (JStr thumbnail)), (''storyboard'', SetTo (JStr storyboard))] w3) (\<lambda>w4.
                    (w4, py_bind (py_getitem INPUT ''assetClass'') (\<lambda>ac.
                           Inr (Done (JObj [(''tool'', JStr output), (''dbPrimaryKey'', key), (''assetClass'', ac),
                                            (''asset'', av)])))))))))"

section \<open>Transcoding\<close>

definition trc_cmd :: "string \<Rightarrow> string \<Rightarrow> string \<Rightarrow> string list" where
  "trc_cmd asset subDir outfile =
     [''ffmpeg'', ''-y'', ''-i'', asset, ''-c:v'', ''libx264'', ''-preset'', ''fast'', ''-crf'', ''22'',
      ''-c:a'', ''aac'', ''-loglevel'', ''fatal'', subDir @ ''/'' @ outfile]"

text \<open>The result document is built before the catalog update; the handler of
  \<open>CalledProcessError\<close> first calls \<open>logger.log\<close>, a name the module never
  defines.\<close>

definition transcode_handle :: "tool \<Rightarrow> world \<Rightarrow> jval \<Rightarrow> world \<times> handled py" where
  "transcode_handle tool w INPUT =
     hbind w (py_getitem INPUT ''asset'') (\<lambda>av.
     hbind w (py_getitem INPUT ''dbPrimaryKey'') (\<lambda>key.
     hbind w (asset_path av) (\<lambda>asset.
       let (filePath, fileName, fileExt) = split_filename asset;
           (subDir, w1) = create_dir filePath ''converted'' w;
           outfile = fileName @ ''_PDL.mp4''
       in case run_tool tool (trc_cmd asset subDir outfile) w1 of
            Inl err \<Rightarrow> (w1, Inl (NameError ''logger''))
          | Inr (output, w2) \<Rightarrow>
              hbind w2 (py_getitem INPUT ''assetClass'') (\<lambda>ac.
                hbind w2 (world_update_entry key [(''PDL'', SetTo (JStr (''/converted/'' @ outfile)))] w2) (\<lambda>w3.
                  (w3, Inr (Done (JObj [(''tool'', JStr output), (''dbPrimaryKey'', key), (''assetClass'', ac),
                                        (''asset'', av)]))))))))"

section \<open>The workers\<close>

definition thumb_image_main :: "tool \<Rightarrow> world \<Rightarrow> activity_task list \<Rightarrow> world \<times> worker_outcome list" where
  "thumb_image_main tool w tasks = worker_run_st (thumb_image_handle tool) w tasks"

definition thumb_video_main :: "tool \<Rightarrow> world \<Rightarrow> activity_task list \<Rightarrow> world \<times> worker_outcome list" where
  "thumb_video_main tool w tasks = worker_run_st (thumb_video_handle tool) w tasks"

definition transcode_main :: "tool \<Rightarrow> world \<Rightarrow> activity_task list \<Rightarrow> world \<times> worker_outcome list" where
  "transcode_main tool w tasks = worker_run_st (transcode_handle tool) w tasks"

definition sfn_thumb_image_main :: "tool \<Rightarrow> world \<Rightarrow> activity_task list \<Rightarrow> world \<times> worker_outcome list" where
  "sfn_thumb_image_main tool w tasks = worker_run_st (thumb_image_handle tool) w tasks"

definition sfn_transcode_main :: "tool \<Rightarrow> world \<Rightarrow> activity_task list \<Rightarrow> world \<times> worker_outcome list" where
  "sfn_transcode_main tool w tasks = worker_run_st (transcode_handle tool) w tasks"

section \<open>Reading a storyboard timestamp\<close>

text \<open>How a WebVTT reader decodes \<open>hh:mm:ss.000\<close> into seconds.\<close>

definition parse_span :: "string \<Rightarrow> nat option" where
  "parse_span t =
     (case py_split CHR '':'' t of
        [h, m, r] \<Rightarrow>
          (case py_split CHR ''.'' r of
             [sec, ms] \<Rightarrow>
               if ms = ''000'' then
                 (case (py_int_str h, py_int_str m, py_int_str sec) of
                    (Some hh, Some mm, Some ss) \<Rightarrow> Some (hh * 3600 + mm * 60 + ss)
                  | _ \<Rightarrow> None)
               else None
           | _ \<Rightarrow> None)
      | _ \<Rightarrow> None)"

section \<open>Lemmas\<close>

lemma glob_star: "glob (CHR ''*'' # ps) s \<longleftrightarrow> (\<exists>a b. s = a @ b \<and> glob ps b)"
proof (induction s)
  case Nil
  then show ?case by simp
next
  case (Cons c s)
  have "(\<exists>a b. c # s = a @ b \<and> glob ps b) \<longleftrightarrow> glob ps (c # s) \<or> (\<exists>a b. s = a @ b \<and> glob ps b)"
    by (auto simp: Cons_eq_append_conv)
  with Cons.IH show ?case by simp
qed

lemma glob_lit:
  "c \<noteq> CHR ''*'' \<Longrightarrow> c \<noteq> CHR ''?'' \<Longrightarrow> glob (c # ps) s \<longleftrightarrow> (\<exists>t. s = c # t \<and> glob ps t)"
  by (cases s) auto

lemma glob_lits:
  "CHR ''*'' \<notin> set lit \<Longrightarrow> CHR ''?'' \<notin> set lit \<Longrightarrow>
   glob (lit @ ps) s \<longleftrightarrow> (\<exists>t. s = lit @ t \<and> glob ps t)"
  by (induction lit arbitrary: s) (auto simp: glob_lit)

lemma digits_no_colon: "CHR '':'' \<notin> set (py_pad2 n) \<and> CHR ''.'' \<notin> set (py_pad2 n)"
  using set_py_pad2 [of n] by (auto simp: digit_chars_def)

lemma span_arith: "s div 3600 * 3600 + s div 60 mod 60 * 60 + s mod 60 = (s :: nat)"
proof -
  have d: "s div 60 div 60 = s div 3600"
    by (simp add: div_mult2_eq [symmetric])
  have "s div 60 = s div 3600 * 60 + s div 60 mod 60"
    using div_mult_mod_eq [of "s div 60" 60] d by simp
  then have "s = (s div 3600 * 60 + s div 60 mod 60) * 60 + s mod 60"
    using div_mult_mod_eq [of s 60] by simp
  then show ?thesis by (simp add: algebra_simps)
qed

lemma thumb_glob_iff:
  "glob ''*_thumbnail_*.jpg'' s \<longleftrightarrow> (\<exists>a b. s = a @ ''_thumbnail_'' @ b @ ''.jpg'')"
proof -
  have l1: "CHR ''*'' \<notin> set ''_thumbnail_''" "CHR ''?'' \<notin> set ''_thumbnail_''"
    and l2: "CHR ''*'' \<notin> set ''.jpg''" "CHR ''?'' \<notin> set ''.jpg''" by simp_all
  have "glob ''*_thumbnail_*.jpg'' s = glob (CHR ''*'' # (''_thumbnail_'' @ CHR ''*'' # (''.jpg'' @ []))) s"
    by simp
  also have "\<dots> \<longleftrightarrow> (\<exists>a b. s = a @ b \<and> glob (''_thumbnail_'' @ CHR ''*'' # (''.jpg'' @ [])) b)"
    by (rule glob_star)
  also have "\<dots> \<longleftrightarrow> (\<exists>a b. s = a @ b \<and> (\<exists>t. b = ''_thumbnail_'' @ t \<and>
      (\<exists>a' b'. t = a' @ b' \<and> (\<exists>t'. b' = ''.jpg'' @ t' \<and> glob [] t'))))"
    by (simp only: glob_lits [OF l1] glob_star glob_lits [OF l2])
  also have "\<dots> \<longleftrightarrow> (\<exists>a b. s = a @ ''_thumbnail_'' @ b @ ''.jpg'')"
    by auto
  finally show ?thesis .
qed

lemma frame_name_glob:
  "glob ''*_thumbnail_*.jpg'' (fn @ ''_thumbnail_'' @ py_str_nat i @ ''.jpg'')"
  by (auto simp only: thumb_glob_iff)

lemma filter_map_all: "(\<And>i. P (f i)) \<Longrightarrow> filter P (map f xs) = map f xs"
  by (induction xs) auto

lemma thumb_count_frames:
  assumes "listdir w d = map (\<lambda>i. fn @ ''_thumbnail_'' @ py_str_nat i @ ''.jpg'') [1..<n + 1]"
  shows "thumb_count w d = n"
proof -
  have "filter (glob ''*_thumbnail_*.jpg'') (map (\<lambda>i. fn @ ''_thumbnail_'' @ py_str_nat i @ ''.jpg'') [1..<n + 1]) =
      map (\<lambda>i. fn @ ''_thumbnail_'' @ py_str_nat i @ ''.jpg'') [1..<n + 1]"
    by (rule filter_map_all) (rule frame_name_glob)
  then show ?thesis by (simp only: thumb_count_def assms length_map length_upt diff_add_inverse2)
qed

lemma frame_name_in:
  "(fn @ ''_thumbnail_'' @ py_str_nat j @ ''.jpg'' \<in> set (map (\<lambda>i. fn @ ''_thumbnail_'' @ py_str_nat i @ ''.jpg'') [1..<n + 1]))
   \<longleftrightarrow> 1 \<le> j \<and> j \<le> n"
  by (auto simp: py_str_nat_inj)

lemma thumb_image_handle_run:
  assumes "py_getitem INPUT ''asset'' = Inr (JStr a)" "py_getitem INPUT ''dbPrimaryKey'' = Inr key"
    and "split_filename a = (fp, fn, ext)"
  shows "thumb_image_handle tool w INPUT =
    (case run_tool tool (thb_image_cmd a (path_join fp ''thumbnails'') (fn @ ''_thumbnail.jpg'')) (snd (create_dir fp ''thumbnails'' w)) of
       Inl err \<Rightarrow> (snd (create_dir fp ''thumbnails'' w),
         Inr (Fail (json_dumps_str ''THB-0001_Error in image thumbnail creation'') (json_dumps_str err)))
     | Inr (output, w2) \<Rightarrow>
         hbind w2 (world_update_entry key [(''thumbnail'', SetTo (JStr (''/thumbnails/'' @ fn @ ''_thumbnail.jpg'')))] w2) (\<lambda>w3.
           (w3, py_bind (py_getitem INPUT ''assetClass'') (\<lambda>ac.
             Inr (Done (JObj [(''tool'', JStr output), (''dbPrimaryKey'', key), (''assetClass'', ac), (''asset'', JStr a)]))))))"
  using assms by (simp add: thumb_image_handle_def asset_path_def Let_def case_prod_unfold cong: sum.case_cong)

lemma transcode_handle_run:
  assumes "py_getitem INPUT ''asset'' = Inr (JStr a)" "py_getitem INPUT ''dbPrimaryKey'' = Inr key"
    and "split_filename a = (fp, fn, ext)"
  shows "transcode_handle tool w INPUT =
    (case run_tool tool (trc_cmd a (path_join fp ''converted'') (fn @ ''_PDL.mp4'')) (snd (create_dir fp ''converted'' w)) of
       Inl err \<Rightarrow> (snd (create_dir fp ''converted'' w), Inl (NameError ''logger''))
     | Inr (output, w2) \<Rightarrow>
         hbind w2 (py_getitem INPUT ''assetClass'') (\<lambda>ac.
           hbind w2 (world_update_entry key [(''PDL'', SetTo (JStr (''/converted/'' @ fn @ ''_PDL.mp4'')))] w2) (\<lambda>w3.
             (w3, Inr (Done (JObj [(''tool'', JStr output), (''dbPrimaryKey'', key), (''assetClass'', ac), (''asset'', JStr a)]))))))"
  using assms by (simp add: transcode_handle_def asset_path_def Let_def case_prod_unfold cong: sum.case_cong)

lemma thumb_video_handle_run:
  assumes "py_getitem INPUT ''asset'' = Inr (JStr a)" "py_getitem INPUT ''dbPrimaryKey'' = Inr key"
    and "split_filename a = (fp, fn, ext)"
    and "run_tool tool (thb_video_cmd a (path_join fp ''thumbnails'') (fn @ ''_thumbnail_%d.jpg''))
           (snd (create_dir fp ''thumbnails'' w)) = Inr (out, w2)"
  shows "thumb_video_handle tool w INPUT =
    (let counter = thumb_count w2 (path_join fp ''thumbnails'');
         w3 = write_file (path_join fp ''thumbnails'' @ ''/'' @ fn @ ''.vtt'') (vtt_text fn counter) w2
     in hbind w3 (world_update_entry key
          [(''thumbnail'', SetTo (JStr (''/thumbnails/'' @ fn @ ''_thumbnail_'' @ py_str_nat (key_frame counter) @ ''.jpg''))),
           (''storyboard'', SetTo (JStr (''/thumbnails/'' @ fn @ ''.vtt'')))] w3) (\<lambda>w4.
          (w4, py_bind (py_getitem INPUT ''assetClass'') (\<lambda>ac.
             Inr (Done (JObj [(''tool'', JStr out), (''dbPrimaryKey'', key), (''assetClass'', ac), (''asset'', JStr a)]))))))"
  using assms by (simp add: thumb_video_handle_def asset_path_def Let_def case_prod_unfold cong: sum.case_cong)

lemma cat_after_tool:
  "run_tool tool cmd (snd (create_dir b s w)) = Inr (out, w2) \<Longrightarrow> cat w2 = cat w"
  using run_tool_cat by fastforce


text \<open>C21.  Every storyboard timestamp the video worker writes decodes back to
  the second it was made from, for every number of seconds (hours beyond 99
  get a third digit).\<close>

theorem vtt_span_roundtrip: "parse_span (vtt_span s) = Some s"
proof -
  define h where "h = py_pad2 (s div 3600)"
  define m where "m = py_pad2 (s div 60 mod 60)"
  define x where "x = py_pad2 (s mod 60)"
  have sp: "vtt_span s = h @ CHR '':'' # (m @ CHR '':'' # (x @ CHR ''.'' # ''000''))"
    by (simp add: vtt_span_def h_def m_def x_def)
  have nc: "CHR '':'' \<notin> set h" "CHR '':'' \<notin> set m" "CHR '':'' \<notin> set (x @ CHR ''.'' # ''000'')"
    and nd: "CHR ''.'' \<notin> set x"
    using digits_no_colon by (auto simp: h_def m_def x_def)
  have "py_split CHR '':'' (vtt_span s) = [h, m, x @ CHR ''.'' # ''000'']"
    unfolding sp using nc by (simp add: py_split_at py_split_none)
  moreover have "py_split CHR ''.'' (x @ CHR ''.'' # ''000'') = [x, ''000'']"
    using nd by (simp add: py_split_at py_split_none)
  moreover have "py_int_str h = Some (s div 3600)" "py_int_str m = Some (s div 60 mod 60)"
    "py_int_str x = Some (s mod 60)"
    by (simp_all add: h_def m_def x_def)
  ultimately show ?thesis
    unfolding parse_span_def by (simp add: span_arith)
qed

text \<open>C22.  When \<open>convert\<close> succeeds, the image thumbnail worker records
  \<open>/thumbnails/<name>_thumbnail.jpg\<close> as the thumbnail of the asset's catalog
  entry (creating the entry if absent), changes nothing else in the catalog,
  and completes with the tool output, the key, the class and the asset.\<close>

theorem thumb_image_records:
  assumes "py_getitem INPUT ''asset'' = Inr (JStr a)" "py_getitem INPUT ''dbPrimaryKey'' = Inr (JObj [(''Checksum'', k)])"
    and "py_getitem INPUT ''assetClass'' = Inr ac" "split_filename a = (fp, fn, ext)"
    and "run_tool tool (thb_image_cmd a (path_join fp ''thumbnails'') (fn @ ''_thumbnail.jpg''))
           (snd (create_dir fp ''thumbnails'' w)) = Inr (out, wt)"
  shows "thumb_image_handle tool w INPUT =
    (wt\<lparr>cat := AList.update k (AList.update ''thumbnail'' (JStr (''/thumbnails/'' @ fn @ ''_thumbnail.jpg''))
         (case map_of (cat w) k of Some i \<Rightarrow> i | None \<Rightarrow> [(''Checksum'', k)])) (cat w)\<rparr>,
     Inr (Done (JObj [(''tool'', JStr out), (''dbPrimaryKey'', JObj [(''Checksum'', k)]), (''assetClass'', ac),
                      (''asset'', JStr a)])))"
proof -
  have "cat wt = cat w" using assms(5) by (rule cat_after_tool)
  then show ?thesis
    using assms by (simp add: thumb_image_handle_run world_update_entry_key split: option.split)
qed

text \<open>When \<open>convert\<close> fails, the image thumbnail worker reports
  \<open>THB-0001\<close> with the tool's message and leaves the catalog as it was.\<close>

theorem thumb_image_tool_failure:
  assumes "py_getitem INPUT ''asset'' = Inr (JStr a)" "py_getitem INPUT ''dbPrimaryKey'' = Inr key"
    and "split_filename a = (fp, fn, ext)"
    and "run_tool tool (thb_image_cmd a (path_join fp ''thumbnails'') (fn @ ''_thumbnail.jpg''))
           (snd (create_dir fp ''thumbnails'' w)) = Inl err"
  shows "snd (thumb_image_handle tool w INPUT) =
      Inr (Fail (json_dumps_str ''THB-0001_Error in image thumbnail creation'') (json_dumps_str err))
    \<and> cat (fst (thumb_image_handle tool w INPUT)) = cat w"
  using assms by (simp add: thumb_image_handle_run)

text \<open>C24.  When \<open>ffmpeg\<close> fails, the transcode worker does not report the
  failure \<open>TRC-0001\<close> it prepares: its exception handler first calls
  \<open>logger.log\<close>, an undefined name, so the worker process dies with
  \<open>NameError\<close>, the task stays unreported and the catalog unchanged.\<close>

theorem transcode_failure_crashes:
  assumes "py_getitem INPUT ''asset'' = Inr (JStr a)" "py_getitem INPUT ''dbPrimaryKey'' = Inr key"
    and "split_filename a = (fp, fn, ext)"
    and "run_tool tool (trc_cmd a (path_join fp ''converted'') (fn @ ''_PDL.mp4''))
           (snd (create_dir fp ''converted'' w)) = Inl err"
  shows "worker_step_st (transcode_handle tool) w \<lparr>atoken = Some tok, ainput = Some INPUT\<rparr> =
      (snd (create_dir fp ''converted'' w), WorkerCrash (NameError ''logger''))
    \<and> cat (snd (create_dir fp ''converted'' w)) = cat w"
  using assms by (simp add: worker_step_st_claimed transcode_handle_run)

text \<open>C25.  The key thumbnail the video worker records is frame number
  \<open>n div 4\<close> of the \<open>n\<close> frames \<open>ffmpeg\<close> wrote (numbered from 1); it names
  one of those frames exactly when \<open>n \<ge> 4\<close>.  A video shorter than four
  seconds gets \<open>_thumbnail_0.jpg\<close>, a file that does not exist.\<close>

theorem video_key_frame:
  assumes "py_getitem INPUT ''asset'' = Inr (JStr a)" "py_getitem INPUT ''dbPrimaryKey'' = Inr (JObj [(''Checksum'', k)])"
    and "split_filename a = (fp, fn, ext)"
    and "run_tool tool (thb_video_cmd a (path_join fp ''thumbnails'') (fn @ ''_thumbnail_%d.jpg''))
           (snd (create_dir fp ''thumbnails'' w)) = Inr (out, wt)"
    and "listdir wt (path_join fp ''thumbnails'') = map (\<lambda>i. fn @ ''_thumbnail_'' @ py_str_nat i @ ''.jpg'') [1..<n + 1]"
  shows "\<exists>item. map_of (cat (fst (thumb_video_handle tool w INPUT))) k = Some item
    \<and> map_of item ''thumbnail'' = Some (JStr (''/thumbnails/'' @ fn @ ''_thumbnail_'' @ py_str_nat (n div 4) @ ''.jpg''))
    \<and> (fn @ ''_thumbnail_'' @ py_str_nat (n div 4) @ ''.jpg'' \<in> set (listdir wt (path_join fp ''thumbnails''))
         \<longleftrightarrow> 4 \<le> n)"
proof -
  have count: "thumb_count wt (path_join fp ''thumbnails'') = n" using assms(5) by (rule thumb_count_frames)
  have mem: "(fn @ ''_thumbnail_'' @ py_str_nat (n div 4) @ ''.jpg'' \<in> set (listdir wt (path_join fp ''thumbnails'')))
      \<longleftrightarrow> 4 \<le> n"
    unfolding assms(5) frame_name_in by auto
  show ?thesis
    using assms(1-4) count mem
    by (simp add: thumb_video_handle_run key_frame_def world_update_entry_key update_conv' split: option.split)
qed

text \<open>C40.  The storyboard timestamps the video worker writes have the fixed
  width \<open>HH:MM:SS.000\<close> of twelve characters exactly for the seconds of a
  video shorter than 100 hours; the minute and second fields are always two
  digits, and only the hour field grows.\<close>

theorem vtt_span_width: "length (vtt_span s) = 12 \<longleftrightarrow> s < 360000"
proof -
  have "length (py_pad2 (s div 60 mod 60)) = 2" "length (py_pad2 (s mod 60)) = 2"
    by (simp_all add: length_py_pad2_eq_2)
  then have "length (vtt_span s) = length (py_pad2 (s div 3600)) + 10"
    by (simp add: vtt_span_def)
  moreover have "2 \<le> length (py_pad2 (s div 3600))" by (simp add: length_py_pad2)
  ultimately show ?thesis
    using length_py_pad2_eq_2 [of "s div 3600"] by (auto simp: div_less_iff_less_mult)
qed

section \<open>Witnesses\<close>

lemmas path_eval = split_filename_def basename_def split_ext_def path_head_def path_join_def dir_name_def Let_def

theorem thumb_image_records_witness:
  "thumb_image_handle (\<lambda>cmd fs. Inr (''ok'', fs)) \<lparr>cat = [], files = [], dirs = [], bucket = []\<rparr>
     (JObj [(''asset'', JStr ''/u/a.jpg''), (''dbPrimaryKey'', JObj [(''Checksum'', JStr ''c1'')]), (''assetClass'', JStr ''Image'')]) =
   (\<lparr>cat = [(JStr ''c1'', [(''Checksum'', JStr ''c1''), (''thumbnail'', JStr ''/thumbnails/a_thumbnail.jpg'')])],
     files = [], dirs = [''/u/thumbnails''], bucket = []\<rparr>,
    Inr (Done (JObj [(''tool'', JStr ''ok''), (''dbPrimaryKey'', JObj [(''Checksum'', JStr ''c1'')]),
      (''assetClass'', JStr ''Image''), (''asset'', JStr ''/u/a.jpg'')])))"
  using thumb_image_records [where INPUT = "JObj [(''asset'', JStr ''/u/a.jpg''), (''dbPrimaryKey'', JObj [(''Checksum'', JStr ''c1'')]),
        (''assetClass'', JStr ''Image'')]" and a = "''/u/a.jpg''" and k = "JStr ''c1''" and ac = "JStr ''Image''"
      and fp = "''/u''" and fn = "''a''" and ext = "''.jpg''" and tool = "\<lambda>cmd fs. Inr (''ok'', fs)"
      and w = "\<lparr>cat = [], files = [], dirs = [], bucket = []\<rparr>" and out = "''ok''"
      and wt = "\<lparr>cat = [], files = [], dirs = [''/u/thumbnails''], bucket = []\<rparr>"]
  by (simp add: path_eval run_tool_def create_dir_def)

theorem thumb_image_tool_failure_witness:
  "snd (thumb_image_handle (\<lambda>cmd fs. Inl ''exit 1'') \<lparr>cat = [], files = [], dirs = [], bucket = []\<rparr>
     (JObj [(''asset'', JStr ''/u/a.jpg''), (''dbPrimaryKey'', JObj [(''Checksum'', JStr ''c1'')])])) =
   Inr (Fail (json_dumps_str ''THB-0001_Error in image thumbnail creation'') (json_dumps_str ''exit 1''))"
  using thumb_image_tool_failure [where INPUT = "JObj [(''asset'', JStr ''/u/a.jpg''), (''dbPrimaryKey'', JObj [(''Checksum'', JStr ''c1'')])]"
      and a = "''/u/a.jpg''" and key = "JObj [(''Checksum'', JStr ''c1'')]"
      and fp = "''/u''" and fn = "''a''" and ext = "''.jpg''" and tool = "\<lambda>cmd fs. Inl ''exit 1''"
      and w = "\<lparr>cat = [], files = [], dirs = [], bucket = []\<rparr>" and err = "''exit 1''"]
  by (simp add: path_eval run_tool_def)

theorem transcode_failure_crashes_witness:
  "snd (worker_step_st (transcode_handle (\<lambda>cmd fs. Inl ''exit 1'')) \<lparr>cat = [], files = [], dirs = [], bucket = []\<rparr>
     \<lparr>atoken = Some ''t1'', ainput = Some (JObj [(''asset'', JStr ''/u/v.mov''), (''dbPrimaryKey'', JObj [(''Checksum'', JStr ''c1'')])])\<rparr>) =
   WorkerCrash (NameError ''logger'')"
  using transcode_failure_crashes [where INPUT = "JObj [(''asset'', JStr ''/u/v.mov''), (''dbPrimaryKey'', JObj [(''Checksum'', JStr ''c1'')])]"
      and a = "''/u/v.mov''" and key = "JObj [(''Checksum'', JStr ''c1'')]"
      and fp = "''/u''" and fn = "''v''" and ext = "''.mov''" and tool = "\<lambda>cmd fs. Inl ''exit 1''"
      and w = "\<lparr>cat = [], files = [], dirs = [], bucket = []\<rparr>" and err = "''exit 1''" and tok = "''t1''"]
  by (simp add: path_eval run_tool_def)

theorem video_key_frame_witness:
  "\<exists>item. map_of (cat (fst (thumb_video_handle
      (\<lambda>cmd fs. Inr ('''', fs @ [(''/u/thumbnails/v_thumbnail_1.jpg'', ''x''), (''/u/thumbnails/v_thumbnail_2.jpg'', ''x'')]))
      \<lparr>cat = [], files = [], dirs = [], bucket = []\<rparr>
      (JObj [(''asset'', JStr ''/u/v.mov''), (''dbPrimaryKey'', JObj [(''Checksum'', JStr ''c1'')])])))) (JStr ''c1'') = Some item
    \<and> map_of item ''thumbnail'' = Some (JStr ''/thumbnails/v_thumbnail_0.jpg'')"
proof -
  have "\<exists>item. map_of (cat (fst (thumb_video_handle
      (\<lambda>cmd fs. Inr ('''', fs @ [(''/u/thumbnails/v_thumbnail_1.jpg'', ''x''), (''/u/thumbnails/v_thumbnail_2.jpg'', ''x'')]))
      \<lparr>cat = [], files = [], dirs = [], bucket = []\<rparr>
      (JObj [(''asset'', JStr ''/u/v.mov''), (''dbPrimaryKey'', JObj [(''Checksum'', JStr ''c1'')])])))) (JStr ''c1'') = Some item
    \<and> map_of item ''thumbnail'' = Some (JStr (''/thumbnails/'' @ ''v'' @ ''_thumbnail_'' @ py_str_nat (2 div 4) @ ''.jpg''))
    \<and> (''v'' @ ''_thumbnail_'' @ py_str_nat (2 div 4) @ ''.jpg'' \<in> set (listdir
          \<lparr>cat = [], files = [(''/u/thumbnails/v_thumbnail_1.jpg'', ''x''), (''/u/thumbnails/v_thumbnail_2.jpg'', ''x'')],
            dirs = [''/u/thumbnails''], bucket = []\<rparr> (path_join ''/u'' ''thumbnails'')) \<longleftrightarrow> 4 \<le> (2::nat))"
    by (rule video_key_frame [where n = 2 and a = "''/u/v.mov''" and fp = "''/u''" and ext = "''.mov''" and out = "''''"
          and wt = "\<lparr>cat = [], files = [(''/u/thumbnails/v_thumbnail_1.jpg'', ''x''), (''/u/thumbnails/v_thumbnail_2.jpg'', ''x'')],
            dirs = [''/u/thumbnails''], bucket = []\<rparr>"])
       (simp_all add: path_eval run_tool_def create_dir_def thb_video_cmd_def listdir_def upt_rec py_str_nat_small digit_chars_def)
  then show ?thesis by (auto simp: py_str_nat_small digit_chars_def)
qed

end
