(* ===== verification/Storage.thy ===== *)
theory Storage
  imports World
begin

text \<open>
  The storage workers: \<open>distributeToS3\<close> and \<open>cleanUpLandingPad\<close> (end of the
  ingestion pipeline, \<open>src/workflowcode/\<close> and \<open>src/SFNcode/\<close>), and the
  lifecycle workers \<open>moveFiles\<close> and \<open>deleteFiles\<close> (\<open>src/SFNcode/\<close>, polling
  SWF).  They act on the bucket \<open>schulerfiles\<close> and the local disk of the
  world of theory \<open>World\<close>.  \<open>bucket.objects.filter(Prefix = p)\<close> lists the
  keys starting with \<open>p\<close>.  The archive tier (Glacier) has no code: the
  workers never write to it, so it is not part of the world.

  \<open>moveFiles\<close> keeps its local variable \<open>OUTPUT\<close> from one task to the next
  (the loop body assigns it only on two of its three branches and then
  updates it in place); its worker state is the world together with that
  variable.  The time stamp and the execution id it writes into the audit
  record come from the clock and the task, and are parameters.
\<close>

section \<open>The bucket\<close>

definition s3_keys :: "world \<Rightarrow> string \<Rightarrow> string list" where
  "s3_keys w p = filter (prefix p) (map fst (bucket w))"

definition s3_upload :: "string \<Rightarrow> string \<Rightarrow> world \<Rightarrow> world" where
  "s3_upload key content w = w\<lparr>bucket := AList.update key (content, ''STANDARD'') (bucket w)\<rparr>"

text \<open>\<open>copy_object\<close> onto itself with a new storage class.\<close>

definition s3_set_class :: "string \<Rightarrow> string \<Rightarrow> world \<Rightarrow> world" where
  "s3_set_class cls key w =
     (case map_of (bucket w) key of
        Some (content, _) \<Rightarrow> w\<lparr>bucket := AList.update key (content, cls) (bucket w)\<rparr>
      | None \<Rightarrow> w)"

definition s3_delete :: "string \<Rightarrow> world \<Rightarrow> world" where
  "s3_delete key w = w\<lparr>bucket := AList.delete key (bucket w)\<rparr>"

text \<open>\<open>download_file\<close> of an object to a local path.\<close>

definition s3_download :: "string \<Rightarrow> string \<Rightarrow> world \<Rightarrow> world" where
  "s3_download key path w =
     (case map_of (bucket w) key of
        Some (content, _) \<Rightarrow> write_file path content w
      | None \<Rightarrow> w)"

text \<open>A string read from the input, and \<open>s + '/'\<close>.\<close>

definition jstr :: "jval \<Rightarrow> string py" where
  "jstr v = (case v of JStr s \<Rightarrow> Inr s | _ \<Rightarrow> Inl TypeError)"

section \<open>distributeToS3\<close>

text \<open>The files \<open>os.walk(filePath)\<close> visits, in walk order, and the key each
  is uploaded under: \<open>os.path.join(fileName, key, f)\<close> with \<open>key\<close> the last
  component of the file's directory.\<close>

definition walk_files :: "world \<Rightarrow> string \<Rightarrow> (string \<times> string) list" where
  "walk_files w d = filter (\<lambda>(p, _). prefix (d @ ''/'') p) (files w)"

definition dist_key :: "string \<Rightarrow> string \<Rightarrow> string" where
  "dist_key fileName p = path_join (path_join fileName (basename (path_head p))) (basename p)"

text \<open>The upload loop.\<close>

definition upload_tree :: "string \<Rightarrow> (string \<times> string) list \<Rightarrow> world \<Rightarrow> world" where
  "upload_tree fileName fs w = foldl (\<lambda>w' (p, content). s3_upload (dist_key fileName p) content w') w fs"

definition distribute_handle :: "world \<Rightarrow> jval \<Rightarrow> world \<times> handled py" where
  "distribute_handle w INPUT =
     hbind w (py_getitem INPUT ''asset'') (\<lambda>av.
     hbind w (py_getitem INPUT ''dbPrimaryKey'') (\<lambda>key.
     hbind w (asset_path av) (\<lambda>asset.
       let (filePath, fileName, fileExt) = split_filename asset;
           w1 = upload_tree fileName (walk_files w filePath) w
       in hbind w1 (world_update_entry key [(''File_Location'', SetTo (JStr ''CDN''))] w1) (\<lambda>w2.
            (w2, py_bind (py_getitem INPUT ''assetClass'') (\<lambda>ac.
                   Inr (Done (JObj [(''result'', JStr ''success''), (''dbPrimaryKey'', key), (''assetClass'', ac),
                                    (''asset'', av)]))))))))"

section \<open>cleanUpLandingPad\<close>

definition cleanup_handle :: "world \<Rightarrow> jval \<Rightarrow> world \<times> handled py" where
  "cleanup_handle w INPUT =
     hbind w (py_getitem INPUT ''asset'') (\<lambda>av.
     hbind w (asset_path av) (\<lambda>asset.
       let (filePath, fileName, fileExt) = split_filename asset
       in hbind w (rmtree filePath w) (\<lambda>w1.
            (w1, case INPUT of
                   JObj kvs \<Rightarrow> Inr (Done (JObj (py_dict_update [(''result'', JStr ''success'')] kvs)))
                 | _ \<Rightarrow> Inl TypeError))))"

section \<open>moveFiles\<close>

definition working_storage :: string where
  "working_storage = ''/Assets/working/''"

definition storage_class :: "jval \<Rightarrow> string" where
  "storage_class destination = (if destination = JStr ''near_line'' then ''STANDARD_IA'' else ''STANDARD'')"

definition audit_record :: "string \<Rightarrow> string \<Rightarrow> string \<Rightarrow> jval" where
  "audit_record now action workID =
     JObj [(''User'', JStr ''System''), (''Timestamp'', JStr now), (''Action'', JStr action), (''Notes'', JStr workID)]"

text \<open>The branch taken on the pair of tiers, and the new \<open>OUTPUT\<close> it binds
  (\<open>None\<close>: the variable keeps its value).\<close>

definition move_objects :: "jval \<Rightarrow> jval \<Rightarrow> string \<Rightarrow> world \<Rightarrow> world \<times> jdict option" where
  "move_objects source destination fileKey w =
     (if (source = JStr ''CDN'' \<and> destination = JStr ''near_line'') \<or> (source = JStr ''near_line'' \<and> destination = JStr ''CDN'')
      then (foldl (\<lambda>w' k. s3_set_class (storage_class destination) k w') w (s3_keys w fileKey),
            Some [(''result'', JStr ''success'')])
      else if JStr ''archive'' \<in> set [source, destination] then
        (let (subDir, w1) = create_dir working_storage fileKey w;
             w2 = (if source = JStr ''archive'' then w1
                   else foldl (\<lambda>w' k. s3_download k (working_storage @ k) w') w1 (s3_keys w1 fileKey))
         in (w2, Some [(''result'', JStr ''success''), (''asset'', JStr (subDir @ ''dummy.file''))]))
      else (w, None))"

definition move_handle ::
  "string \<Rightarrow> string \<Rightarrow> world \<times> jdict option \<Rightarrow> jval \<Rightarrow> (world \<times> jdict option) \<times> handled py" where
  "move_handle now workID st INPUT =
     (let (w, OUTPUT) = st in
      hbind st (py_getitem INPUT ''locationSource'') (\<lambda>source.
      hbind st (py_getitem INPUT ''locationDestination'') (\<lambda>destination.
      hbind st (py_getitem INPUT ''dbPrimaryKey'') (\<lambda>key.
      hbind st (py_bind (py_getitem INPUT ''fileKey'') jstr) (\<lambda>fk.
        let fileKey = fk @ ''/'';
            (w1, bound) = move_objects source destination fileKey w;
            OUTPUT1 = (case bound of Some out \<Rightarrow> Some out | None \<Rightarrow> OUTPUT);
            AUDIT = audit_record now (''Asset moved from '' @ py_str source @ '' from '' @ py_str destination) workID
        in hbind (w1, OUTPUT1) (world_update_entry key
              [(''File_Location'', SetTo destination), (''Audit'', ListAppend (JArr [AUDIT]))] w1) (\<lambda>w2.
             case OUTPUT1 of
               None \<Rightarrow> ((w2, None), Inl (UnboundLocalError ''OUTPUT''))
             | Some out \<Rightarrow>
                 (case INPUT of
                    JObj kvs \<Rightarrow> ((w2, Some (py_dict_update out kvs)), Inr (Done (JObj (py_dict_update out kvs))))
                  | _ \<Rightarrow> ((w2, Some out), Inl TypeError))))))))"

section \<open>deleteFiles\<close>

definition delete_handle :: "string \<Rightarrow> string \<Rightarrow> world \<Rightarrow> jval \<Rightarrow> world \<times> handled py" where
  "delete_handle now workID w INPUT =
     hbind w (py_getitem INPUT ''locationSource'') (\<lambda>source.
     hbind w (py_getitem INPUT ''locationDestination'') (\<lambda>destination.
     hbind w (py_getitem INPUT ''dbPrimaryKey'') (\<lambda>key.
     hbind w (py_bind (py_getitem INPUT ''fileKey'') jstr) (\<lambda>fk.
       let fileKey = fk @ ''/''
       in if source \<in> set [JStr ''CDN'', JStr ''near_line''] then
            (let w1 = foldl (\<lambda>w' k. s3_delete k w') w (s3_keys w fileKey);
                 AUDIT = audit_record now (''Asset removed from '' @ py_str source) workID
             in hbind w1 (world_update_entry key
                   [(''File_Location'', SetTo destination), (''Audit'', ListAppend (JArr [AUDIT]))] w1) (\<lambda>w2.
                  (w2, Inr (Done (JObj [(''result'', JStr ''success'')])))))
          else (w, Inr Skip)))))"

section \<open>The workers\<close>

definition distribute_main :: "world \<Rightarrow> activity_task list \<Rightarrow> world \<times> worker_outcome list" where
  "distribute_main w tasks = worker_run_st distribute_handle w tasks"

definition sfn_distribute_main :: "world \<Rightarrow> activity_task list \<Rightarrow> world \<times> worker_outcome list" where
  "sfn_distribute_main w tasks = worker_run_st distribute_handle w tasks"

definition cleanup_main :: "world \<Rightarrow> activity_task list \<Rightarrow> world \<times> worker_outcome list" where
  "cleanup_main w tasks = worker_run_st cleanup_handle w tasks"

definition sfn_cleanup_main :: "world \<Rightarrow> activity_task list \<Rightarrow> world \<times> worker_outcome list" where
  "sfn_cleanup_main w tasks = worker_run_st cleanup_handle w tasks"

text \<open>\<open>moveFiles\<close> starts with \<open>OUTPUT\<close> unbound.\<close>

definition move_main ::
  "string \<Rightarrow> string \<Rightarrow> world \<Rightarrow> activity_task list \<Rightarrow> (world \<times> jdict option) \<times> worker_outcome list" where
  "move_main now workID w tasks = worker_run_st (move_handle now workID) (w, None) tasks"

definition delete_main :: "string \<Rightarrow> string \<Rightarrow> world \<Rightarrow> activity_task list \<Rightarrow> world \<times> worker_outcome list" where
  "delete_main now workID w tasks = worker_run_st (delete_handle now workID) w tasks"

section \<open>Lemmas\<close>

lemma upload_tree_snoc:
  "upload_tree fn (xs @ [(p, c)]) w = s3_upload (dist_key fn p) c (upload_tree fn xs w)"
  by (simp add: upload_tree_def)

lemma cat_upload_tree [simp]: "cat (upload_tree fn xs w) = cat w"
  by (induction xs arbitrary: w) (auto simp: upload_tree_def s3_upload_def)

lemma files_upload_tree [simp]: "files (upload_tree fn xs w) = files w"
  by (induction xs arbitrary: w) (auto simp: upload_tree_def s3_upload_def)

lemma bucket_upload_tree:
  "map_of (bucket (upload_tree fn xs w)) k =
     (case map_of (rev (map (\<lambda>(p, content). (dist_key fn p, (content, ''STANDARD''))) xs)) k of
        Some v \<Rightarrow> Some v | None \<Rightarrow> map_of (bucket w) k)"
proof (induction xs rule: rev_induct)
  case (snoc x xs)
  then show ?case by (cases x) (simp add: upload_tree_snoc s3_upload_def update_conv' split: option.split)
qed (simp add: upload_tree_def)

lemma world_update_entry_bucket:
  "world_update_entry key acts w = Inr w' \<Longrightarrow> bucket w' = bucket w \<and> files w' = files w \<and> dirs w' = dirs w"
  by (auto simp: world_update_entry_def py_bind_Inr_iff)

lemma distribute_handle_run:
  assumes "py_getitem INPUT ''asset'' = Inr (JStr a)" "py_getitem INPUT ''dbPrimaryKey'' = Inr (JObj [(''Checksum'', k)])"
    and "split_filename a = (fp, fn, ext)"
  shows "fst (distribute_handle w INPUT) =
    (let w1 = upload_tree fn (walk_files w fp) w
     in w1\<lparr>cat := AList.update k (AList.update ''File_Location'' (JStr ''CDN'')
            (case map_of (cat w) k of Some item \<Rightarrow> item | None \<Rightarrow> [(''Checksum'', k)])) (cat w)\<rparr>)"
  using assms
  by (simp add: distribute_handle_def asset_path_def Let_def case_prod_unfold world_update_entry_key
      cong: sum.case_cong split: option.split)

lemma rmtree_removes:
  "rmtree d w = Inr w' \<Longrightarrow> (\<forall>(p, c) \<in> set (files w'). \<not> below d p) \<and> (\<forall>p \<in> set (dirs w'). \<not> below d p)"
  by (auto simp: rmtree_def split: if_splits)

lemma foldl_download_keeps:
  "bucket (foldl (\<lambda>w' k. s3_download k (f k) w') w ks) = bucket w \<and>
   cat (foldl (\<lambda>w' k. s3_download k (f k) w') w ks) = cat w \<and>
   dirs (foldl (\<lambda>w' k. s3_download k (f k) w') w ks) = dirs w"
  by (induction ks arbitrary: w) (auto simp: s3_download_def write_file_def split: option.split)

lemma foldl_delete_bucket:
  "bucket (foldl (\<lambda>w' k. s3_delete k w') w ks) = filter (\<lambda>(k, _). k \<notin> set ks) (bucket w)"
  by (induction ks arbitrary: w) (auto simp: s3_delete_def AList.delete_eq filter_filter intro: filter_cong)

lemma foldl_delete_keeps:
  "cat (foldl (\<lambda>w' k. s3_delete k w') w ks) = cat w \<and> files (foldl (\<lambda>w' k. s3_delete k w') w ks) = files w"
  by (induction ks arbitrary: w) (auto simp: s3_delete_def)

lemma delete_prefix_gone:
  "s3_keys (foldl (\<lambda>w' k. s3_delete k w') w (s3_keys w p)) p = []"
  by (auto simp: s3_keys_def foldl_delete_bucket filter_empty_conv) (metis fst_conv image_eqI)

lemma s3_keys_cat_update [simp]: "s3_keys (w\<lparr>cat := c\<rparr>) p = s3_keys w p"
  by (simp add: s3_keys_def)

lemma dirs_create_dir: "dir_name (path_join b s) \<in> set (dirs (snd (create_dir b s w)))"
  by (simp add: create_dir_def Let_def)

lemma move_objects_other:
  "\<not> ((s = JStr ''CDN'' \<and> d = JStr ''near_line'') \<or> (s = JStr ''near_line'' \<and> d = JStr ''CDN'')) \<Longrightarrow>
   s \<noteq> JStr ''archive'' \<Longrightarrow> d \<noteq> JStr ''archive'' \<Longrightarrow> move_objects s d fk w = (w, None)"
  by (simp add: move_objects_def)

text \<open>C26.  \<open>distributeToS3\<close> uploads every file below the asset's directory:
  when the upload keys of those files are distinct, a lookup of a file's key
  in the bucket returns the file's content, in storage class
  \<open>STANDARD\<close>.\<close>

theorem distribute_uploads_tree:
  assumes "py_getitem INPUT ''asset'' = Inr (JStr a)" "py_getitem INPUT ''dbPrimaryKey'' = Inr (JObj [(''Checksum'', k)])"
    and "split_filename a = (fp, fn, ext)"
    and "distinct (map (\<lambda>(p, c). dist_key fn p) (walk_files w fp))" "(p, c) \<in> set (walk_files w fp)"
  shows "map_of (bucket (fst (distribute_handle w INPUT))) (dist_key fn p) = Some (c, ''STANDARD'')"
proof -
  let ?L = "map (\<lambda>(p, content). (dist_key fn p, (content, ''STANDARD''))) (walk_files w fp)"
  have d: "distinct (map fst ?L)" using assms(4) by (simp add: case_prod_unfold comp_def)
  have "(dist_key fn p, (c, ''STANDARD'')) \<in> set ?L" using assms(5) by force
  then have "map_of ?L (dist_key fn p) = Some (c, ''STANDARD'')" using d by (rule map_of_is_SomeI [rotated])
  then show ?thesis
    using assms(1-3) d by (simp add: distribute_handle_run Let_def bucket_upload_tree map_of_rev_distinct)
qed

text \<open>C27.  When the asset's directory holds no file (it was removed, or the
  path is wrong), \<open>distributeToS3\<close> uploads nothing and still records the
  asset as being on the CDN.\<close>

theorem distribute_empty_marks_cdn:
  assumes "py_getitem INPUT ''asset'' = Inr (JStr a)" "py_getitem INPUT ''dbPrimaryKey'' = Inr (JObj [(''Checksum'', k)])"
    and "split_filename a = (fp, fn, ext)" "walk_files w fp = []"
  shows "bucket (fst (distribute_handle w INPUT)) = bucket w \<and>
    (\<exists>item. map_of (cat (fst (distribute_handle w INPUT))) k = Some item \<and>
            map_of item ''File_Location'' = Some (JStr ''CDN''))"
  using assms by (simp add: distribute_handle_run Let_def upload_tree_def update_conv')

text \<open>C28.  \<open>cleanUpLandingPad\<close> removes every file and directory below the
  asset's directory, keeps everything else, and completes with
  \<open>{result: success}\<close> updated by its whole input.\<close>

theorem cleanup_removes_landing_pad:
  assumes "py_getitem (JObj kvs) ''asset'' = Inr (JStr a)" "split_filename a = (fp, fn, ext)" "dir_exists w fp"
  shows "cleanup_handle w (JObj kvs) =
      (w\<lparr>files := filter (\<lambda>(p, _). \<not> below fp p) (files w), dirs := filter (\<lambda>p. \<not> below fp p) (dirs w)\<rparr>,
       Inr (Done (JObj (py_dict_update [(''result'', JStr ''success'')] kvs))))"
  using assms by (simp add: cleanup_handle_def asset_path_def rmtree_def)

text \<open>C29.  When the asset's directory does not exist, \<open>cleanUpLandingPad\<close>
  raises \<open>OSError\<close> out of \<open>shutil.rmtree\<close>: the worker dies and the task is
  not reported.\<close>

theorem cleanup_missing_dir:
  assumes "py_getitem INPUT ''asset'' = Inr (JStr a)" "split_filename a = (fp, fn, ext)" "\<not> dir_exists w fp"
  shows "worker_step_st cleanup_handle w \<lparr>atoken = Some tok, ainput = Some INPUT\<rparr> = (w, WorkerCrash (OSError fp))"
  using assms by (simp add: worker_step_st_claimed cleanup_handle_def asset_path_def rmtree_def)

text \<open>C30.  A first \<open>moveFiles\<close> task whose tiers take neither branch (not a
  CDN/near-line swap, no archive) still updates the catalog entry's location
  and audit trail, and then dies on the unbound \<open>OUTPUT\<close>: the move is
  recorded and never reported.\<close>

theorem move_unbound_output:
  assumes "py_getitem INPUT ''locationSource'' = Inr s" "py_getitem INPUT ''locationDestination'' = Inr d"
    and "py_getitem INPUT ''dbPrimaryKey'' = Inr (JObj [(''Checksum'', k)])" "py_getitem INPUT ''fileKey'' = Inr (JStr fk)"
    and "\<not> ((s = JStr ''CDN'' \<and> d = JStr ''near_line'') \<or> (s = JStr ''near_line'' \<and> d = JStr ''CDN''))"
    and "s \<noteq> JStr ''archive''" "d \<noteq> JStr ''archive''"
    and "map_of (cat w) k = Some item" "map_of item ''Audit'' = Some (JArr au)"
  shows "snd (worker_step_st (move_handle now wid) (w, None) \<lparr>atoken = Some tok, ainput = Some INPUT\<rparr>) =
      WorkerCrash (UnboundLocalError ''OUTPUT'') \<and>
    (\<exists>item'. map_of (cat (fst (fst (worker_step_st (move_handle now wid) (w, None)
        \<lparr>atoken = Some tok, ainput = Some INPUT\<rparr>)))) k = Some item' \<and> map_of item' ''File_Location'' = Some d)"
  using assms
  by (simp add: worker_step_st_claimed move_handle_def jstr_def move_objects_other world_update_entry_key update_conv')

text \<open>C31.  A later such task completes with the \<open>OUTPUT\<close> dict of the task
  before it, updated in place by the new input: keys the new input lacks
  (the \<open>asset\<close> of an earlier archive move, for instance) are reported as
  if they belonged to this move.\<close>

theorem move_stale_output:
  assumes "py_getitem (JObj kvs) ''locationSource'' = Inr s" "py_getitem (JObj kvs) ''locationDestination'' = Inr d"
    and "py_getitem (JObj kvs) ''dbPrimaryKey'' = Inr (JObj [(''Checksum'', k)])" "py_getitem (JObj kvs) ''fileKey'' = Inr (JStr fk)"
    and "\<not> ((s = JStr ''CDN'' \<and> d = JStr ''near_line'') \<or> (s = JStr ''near_line'' \<and> d = JStr ''CDN''))"
    and "s \<noteq> JStr ''archive''" "d \<noteq> JStr ''archive''"
    and "map_of (cat w) k = Some item" "map_of item ''Audit'' = Some (JArr au)"
  shows "snd (worker_step_st (move_handle now wid) (w, Some prev) \<lparr>atoken = Some tok, ainput = Some (JObj kvs)\<rparr>) =
      Completed tok (JObj (py_dict_update prev kvs))"
  using assms
  by (simp add: worker_step_st_claimed move_handle_def jstr_def move_objects_other world_update_entry_key update_conv')

text \<open>C32.  \<open>deleteFiles\<close> on a source other than the two S3 tiers (the
  archive) takes the \<open>continue\<close>: nothing changes and the task is never
  reported, so the lifecycle execution waits until it times out.\<close>

theorem delete_archive_unreported:
  assumes "py_getitem INPUT ''locationSource'' = Inr s" "py_getitem INPUT ''locationDestination'' = Inr d"
    and "py_getitem INPUT ''dbPrimaryKey'' = Inr key" "py_getitem INPUT ''fileKey'' = Inr (JStr fk)"
    and "s \<notin> {JStr ''CDN'', JStr ''near_line''}"
  shows "worker_step_st (delete_handle now wid) w \<lparr>atoken = Some tok, ainput = Some INPUT\<rparr> = (w, Unreported tok)"
  using assms by (simp add: worker_step_st_claimed delete_handle_def jstr_def)

section \<open>Witnesses\<close>

lemmas path_eval = split_filename_def basename_def split_ext_def path_head_def path_join_def dir_name_def Let_def

theorem distribute_uploads_tree_witness:
  "map_of (bucket (fst (distribute_handle
      \<lparr>cat = [], files = [(''/u/a.jpg'', ''IMG''), (''/u/thumbnails/a_thumbnail.jpg'', ''TH'')], dirs = [], bucket = []\<rparr>
      (JObj [(''asset'', JStr ''/u/a.jpg''), (''dbPrimaryKey'', JObj [(''Checksum'', JStr ''c1'')])]))))
     (dist_key ''a'' ''/u/thumbnails/a_thumbnail.jpg'') = Some (''TH'', ''STANDARD'')"
proof -
  have wf: "walk_files \<lparr>cat = [], files = [(''/u/a.jpg'', ''IMG''), (''/u/thumbnails/a_thumbnail.jpg'', ''TH'')],
      dirs = [], bucket = []\<rparr> ''/u'' = [(''/u/a.jpg'', ''IMG''), (''/u/thumbnails/a_thumbnail.jpg'', ''TH'')]"
    by (simp add: walk_files_def)
  have k: "dist_key ''a'' ''/u/a.jpg'' = ''a/u/a.jpg''"
    "dist_key ''a'' ''/u/thumbnails/a_thumbnail.jpg'' = ''a/thumbnails/a_thumbnail.jpg''"
    by (simp_all add: dist_key_def path_eval)
  show ?thesis
    by (rule distribute_uploads_tree [where INPUT = "JObj [(''asset'', JStr ''/u/a.jpg''), (''dbPrimaryKey'', JObj [(''Checksum'', JStr ''c1'')])]"
      and a = "''/u/a.jpg''" and k = "JStr ''c1''" and fp = "''/u''" and fn = "''a''" and ext = "''.jpg''"
      and w = "\<lparr>cat = [], files = [(''/u/a.jpg'', ''IMG''), (''/u/thumbnails/a_thumbnail.jpg'', ''TH'')], dirs = [], bucket = []\<rparr>"
      and p = "''/u/thumbnails/a_thumbnail.jpg''" and c = "''TH''"])
      (simp_all only: wf k, simp_all add: path_eval k)
qed

theorem distribute_empty_marks_cdn_witness:
  "bucket (fst (distribute_handle \<lparr>cat = [], files = [], dirs = [], bucket = []\<rparr>
      (JObj [(''asset'', JStr ''/u/a.jpg''), (''dbPrimaryKey'', JObj [(''Checksum'', JStr ''c1'')])]))) = [] \<and>
   (\<exists>item. map_of (cat (fst (distribute_handle \<lparr>cat = [], files = [], dirs = [], bucket = []\<rparr>
      (JObj [(''asset'', JStr ''/u/a.jpg''), (''dbPrimaryKey'', JObj [(''Checksum'', JStr ''c1'')])])))) (JStr ''c1'') = Some item \<and>
     map_of item ''File_Location'' = Some (JStr ''CDN''))"
  using distribute_empty_marks_cdn [where INPUT = "JObj [(''asset'', JStr ''/u/a.jpg''), (''dbPrimaryKey'', JObj [(''Checksum'', JStr ''c1'')])]"
      and a = "''/u/a.jpg''" and k = "JStr ''c1''" and fp = "''/u''" and fn = "''a''" and ext = "''.jpg''"
      and w = "\<lparr>cat = [], files = [], dirs = [], bucket = []\<rparr>"]
  by (simp add: path_eval walk_files_def)

theorem cleanup_removes_landing_pad_witness:
  "cleanup_handle \<lparr>cat = [], files = [(''/u/a.jpg'', ''IMG''), (''/v/b.jpg'', ''B'')], dirs = [], bucket = []\<rparr>
      (JObj [(''asset'', JStr ''/u/a.jpg'')]) =
   (\<lparr>cat = [], files = [(''/v/b.jpg'', ''B'')], dirs = [], bucket = []\<rparr>,
    Inr (Done (JObj [(''result'', JStr ''success''), (''asset'', JStr ''/u/a.jpg'')])))"
  using cleanup_removes_landing_pad [where kvs = "[(''asset'', JStr ''/u/a.jpg'')]" and a = "''/u/a.jpg''"
      and fp = "''/u''" and fn = "''a''" and ext = "''.jpg''"
      and w = "\<lparr>cat = [], files = [(''/u/a.jpg'', ''IMG''), (''/v/b.jpg'', ''B'')], dirs = [], bucket = []\<rparr>"]
  by (simp add: path_eval dir_exists_def below_def py_dict_update_def)

theorem cleanup_missing_dir_witness:
  "worker_step_st cleanup_handle \<lparr>cat = [], files = [], dirs = [], bucket = []\<rparr>
     \<lparr>atoken = Some ''t1'', ainput = Some (JObj [(''asset'', JStr ''/u/a.jpg'')])\<rparr> =
   (\<lparr>cat = [], files = [], dirs = [], bucket = []\<rparr>, WorkerCrash (OSError ''/u''))"
  using cleanup_missing_dir [where INPUT = "JObj [(''asset'', JStr ''/u/a.jpg'')]" and a = "''/u/a.jpg''"
      and fp = "''/u''" and fn = "''a''" and ext = "''.jpg''" and tok = "''t1''"
      and w = "\<lparr>cat = [], files = [], dirs = [], bucket = []\<rparr>"]
  by (simp add: path_eval dir_exists_def)

theorem move_unbound_output_witness:
  "snd (worker_step_st (move_handle ''2017-01-01T00:00:00+0000'' ''wf1'')
      (\<lparr>cat = [(JStr ''c1'', [(''Checksum'', JStr ''c1''), (''Audit'', JArr [])])], files = [], dirs = [], bucket = []\<rparr>, None)
      \<lparr>atoken = Some ''t1'', ainput = Some (JObj [(''locationSource'', JStr ''CDN''), (''locationDestination'', JStr ''CDN''),
         (''dbPrimaryKey'', JObj [(''Checksum'', JStr ''c1'')]), (''fileKey'', JStr ''a'')])\<rparr>) =
   WorkerCrash (UnboundLocalError ''OUTPUT'')"
  using move_unbound_output [where INPUT = "JObj [(''locationSource'', JStr ''CDN''), (''locationDestination'', JStr ''CDN''),
         (''dbPrimaryKey'', JObj [(''Checksum'', JStr ''c1'')]), (''fileKey'', JStr ''a'')]"
      and s = "JStr ''CDN''" and d = "JStr ''CDN''" and k = "JStr ''c1''" and fk = "''a''"
      and w = "\<lparr>cat = [(JStr ''c1'', [(''Checksum'', JStr ''c1''), (''Audit'', JArr [])])], files = [], dirs = [], bucket = []\<rparr>"
      and item = "[(''Checksum'', JStr ''c1''), (''Audit'', JArr [])]" and au = "[]"
      and now = "''2017-01-01T00:00:00+0000''" and wid = "''wf1''" and tok = "''t1''"]
  by simp

theorem move_stale_output_witness:
  "snd (worker_step_st (move_handle ''2017-01-01T00:00:00+0000'' ''wf2'')
      (\<lparr>cat = [(JStr ''c1'', [(''Checksum'', JStr ''c1''), (''Audit'', JArr [])])], files = [], dirs = [], bucket = []\<rparr>,
       Some [(''result'', JStr ''success''), (''asset'', JStr ''/Assets/working/b/dummy.file'')])
      \<lparr>atoken = Some ''t2'', ainput = Some (JObj [(''locationSource'', JStr ''CDN''), (''locationDestination'', JStr ''CDN''),
         (''dbPrimaryKey'', JObj [(''Checksum'', JStr ''c1'')]), (''fileKey'', JStr ''a'')])\<rparr>) =
   Completed ''t2'' (JObj [(''result'', JStr ''success''), (''asset'', JStr ''/Assets/working/b/dummy.file''),
     (''locationSource'', JStr ''CDN''), (''locationDestination'', JStr ''CDN''),
     (''dbPrimaryKey'', JObj [(''Checksum'', JStr ''c1'')]), (''fileKey'', JStr ''a'')])"
  using move_stale_output [where kvs = "[(''locationSource'', JStr ''CDN''), (''locationDestination'', JStr ''CDN''),
         (''dbPrimaryKey'', JObj [(''Checksum'', JStr ''c1'')]), (''fileKey'', JStr ''a'')]"
      and s = "JStr ''CDN''" and d = "JStr ''CDN''" and k = "JStr ''c1''" and fk = "''a''"
      and w = "\<lparr>cat = [(JStr ''c1'', [(''Checksum'', JStr ''c1''), (''Audit'', JArr [])])], files = [], dirs = [], bucket = []\<rparr>"
      and item = "[(''Checksum'', JStr ''c1''), (''Audit'', JArr [])]" and au = "[]"
      and prev = "[(''result'', JStr ''success''), (''asset'', JStr ''/Assets/working/b/dummy.file'')]"
      and now = "''2017-01-01T00:00:00+0000''" and wid = "''wf2''" and tok = "''t2''"]
  by (simp add: py_dict_update_def)

theorem delete_archive_unreported_witness:
  "worker_step_st (delete_handle ''2017-01-01T00:00:00+0000'' ''wf3'') \<lparr>cat = [], files = [], dirs = [], bucket = []\<rparr>
     \<lparr>atoken = Some ''t3'', ainput = Some (JObj [(''locationSource'', JStr ''archive''), (''locationDestination'', JStr ''CDN''),
        (''dbPrimaryKey'', JObj [(''Checksum'', JStr ''c1'')]), (''fileKey'', JStr ''a'')])\<rparr> =
   (\<lparr>cat = [], files = [], dirs = [], bucket = []\<rparr>, Unreported ''t3'')"
  using delete_archive_unreported [where INPUT = "JObj [(''locationSource'', JStr ''archive''), (''locationDestination'', JStr ''CDN''),
        (''dbPrimaryKey'', JObj [(''Checksum'', JStr ''c1'')]), (''fileKey'', JStr ''a'')]"
      and s = "JStr ''archive''" and d = "JStr ''CDN''" and key = "JObj [(''Checksum'', JStr ''c1'')]" and fk = "''a''"
      and w = "\<lparr>cat = [], files = [], dirs = [], bucket = []\<rparr>"
      and now = "''2017-01-01T00:00:00+0000''" and wid = "''wf3''" and tok = "''t3''"]
  by simp

end
