(* ===== verification/Extract.thy ===== *)
theory Extract
  imports World "HOL-Library.Multiset"
begin

text \<open>
  The metadata extraction workers \<open>src/SFNcode/extractExifMetadata.py\<close>
  (images) and \<open>src/SFNcode/extractMediainfoMetadata.py\<close> (video and audio).
  Each \<open>processFile(asset, METADATA, assetClass)\<close> computes the checksum of
  the asset, reads the tool's report, sorts its fields into a \<open>General\<close>
  section and a per-kind section (\<open>parseMediaToDict\<close>), builds the document
  \<open>DOC\<close> that \<open>registerAsset\<close> stores in the catalog, and copies the user's
  metadata over it.  The services the workers call enter through
  \<open>extract_env\<close>: the checksum of \<open>parseHelper.computeChecksum\<close>, the JSON
  report of \<open>exiftool -j\<close> (or the \<open>CalledProcessError\<close> message), the tracks
  of \<open>MediaInfo.parse\<close> with their \<open>to_data()\<close> dicts, the reverse geocoder
  \<open>parseHelper.reverseLookup\<close>, \<open>parseHelper.parseGPS\<close>,
  \<open>parseHelper.parseDate\<close>, and the clock.  The workers are Python 2
  (\<open>string.split\<close>), whose dicts iterate in an unspecified order; the model
  iterates the source's dict literals in the order they are written and the
  lemmas show where the order cannot matter.
\<close>

record extract_env =
  checksum :: "string \<Rightarrow> string py"
  exiftool :: "string \<Rightarrow> string + jval"
  mediainfo :: "string \<Rightarrow> (string \<times> jdict) list py"
  reverse_lookup :: "jval \<Rightarrow> jval \<Rightarrow> jval py"
  parse_gps :: "jval \<Rightarrow> (jval \<times> jval \<times> jval) py"
  parse_date :: "jval \<Rightarrow> jval py"
  gmtime :: string

section \<open>EXIF: \<open>parseMediaToDict(info)\<close>\<close>

text \<open>\<open>initMapping()\<close>: the fields that move to the \<open>General\<close> section, and
  their names there.\<close>

definition exif_mapping :: "(string \<times> string) list" where
  "exif_mapping =
     [(''GPSLatitude'', ''Latitude''), (''GPSAltitude'', ''Altitude''), (''GPSLongitude'', ''Longitude''),
      (''Make'', ''make''), (''Model'', ''model''), (''Software'', ''software''),
      (''GPSDateTime'', ''recorded_date''), (''FileSize'', ''file_size'')]"

text \<open>\<open>I = json.loads(info)[0]\<close>, used as a dict from then on.\<close>

fun exif_first :: "jval \<Rightarrow> jdict py" where
  "exif_first (JArr []) = Inl IndexError"
| "exif_first (JArr (JObj d # _)) = Inr d"
| "exif_first (JObj _) = Inl (KeyError ''0'')"
| "exif_first (JStr []) = Inl IndexError"
| "exif_first _ = Inl TypeError"

text \<open>\<open>I['GPSAltitude'] = string.split(I['GPSAltitude'], " ")[0]\<close> under
  \<open>except KeyError\<close>: the number before the unit; a value that is not a string
  has no \<open>split\<close>.\<close>

definition exif_altitude :: "jdict \<Rightarrow> jdict py" where
  "exif_altitude I =
     (case map_of I ''GPSAltitude'' of
        None \<Rightarrow> Inr I
      | Some (JStr s) \<Rightarrow> Inr (AList.update ''GPSAltitude'' (JStr (hd (py_split CHR '' '' s))) I)
      | Some _ \<Rightarrow> Inl AttributeError)"

text \<open>\<open>I[k] = v.replace('"', '')\<close> for every string value; the other values
  raise \<open>AttributeError\<close>, which the loop skips.\<close>

definition exif_unquote_val :: "jval \<Rightarrow> jval" where
  "exif_unquote_val v = (case v of JStr s \<Rightarrow> JStr (filter (\<lambda>c. c \<noteq> dquote) s) | _ \<Rightarrow> v)"

definition exif_unquote :: "jdict \<Rightarrow> jdict" where
  "exif_unquote I = map (\<lambda>(k, v). (k, exif_unquote_val v)) I"

text \<open>\<open>for (k, v) in MAPPING.items(): G[v] = I[k]; I.pop(k)\<close>, a missing
  \<open>I[k]\<close> skipping the field.\<close>

fun exif_move :: "(string \<times> string) list \<Rightarrow> jdict \<times> jdict \<Rightarrow> jdict \<times> jdict" where
  "exif_move [] GI = GI"
| "exif_move ((k, v) # ms) (G, I) =
     (case map_of I k of
        None \<Rightarrow> exif_move ms (G, I)
      | Some x \<Rightarrow> exif_move ms (AList.update v x G, AList.delete k I))"

text \<open>\<open>G['Address'] = parseHelper.reverseLookup(G['Latitude'],
  G['Longitude'])[0]['formatted_address']\<close> under \<open>except KeyError\<close>.\<close>

definition exif_address :: "extract_env \<Rightarrow> jdict \<Rightarrow> jdict py" where
  "exif_address env G =
     py_catch_key
       (py_bind (py_getitem (JObj G) ''Latitude'') (\<lambda>la.
        py_bind (py_getitem (JObj G) ''Longitude'') (\<lambda>lo.
        py_bind (reverse_lookup env la lo) (\<lambda>res.
        py_bind (py_getidx res 0) (\<lambda>r0.
        py_bind (py_getitem r0 ''formatted_address'') (\<lambda>a.
          Inr (AList.update ''Address'' a G)))))))
       G"

text \<open>Without a GPS date the original date is the recorded date.\<close>

definition exif_recorded :: "jdict \<Rightarrow> jdict \<Rightarrow> jdict" where
  "exif_recorded G I =
     (if map_of G ''recorded_date'' = None
      then (case map_of I ''DateTimeOriginal'' of None \<Rightarrow> G | Some d \<Rightarrow> AList.update ''recorded_date'' d G)
      else G)"

definition exif_parse :: "extract_env \<Rightarrow> jval \<Rightarrow> (jdict \<times> jdict) py" where
  "exif_parse env info =
     py_bind (exif_first info) (\<lambda>I0.
     py_bind (exif_altitude I0) (\<lambda>I1.
       let (G, I) = exif_move exif_mapping ([], exif_unquote (AList.delete ''ThumbnailImage'' I1))
       in py_bind (exif_address env G) (\<lambda>G'. Inr (exif_recorded G' I, I))))"

section \<open>Building the document\<close>

text \<open>\<open>LOC = {'lat': DOC['General']['Latitude'], 'lon':
  DOC['General']['Longitude']}; DOC['General']['deviceLocation'] = LOC\<close> under
  \<open>except KeyError\<close>.  \<open>DOC['General']\<close> is the section object itself, so the
  location is added to the section stored in the document.\<close>

definition doc_location :: "jdict \<Rightarrow> jdict py" where
  "doc_location DOC =
     py_catch_key
       (py_bind (py_getitem (JObj DOC) ''General'') (\<lambda>g.
        py_bind (py_getitem g ''Latitude'') (\<lambda>la.
        py_bind (py_getitem g ''Longitude'') (\<lambda>lo.
        py_bind (py_setitem g ''deviceLocation'' (JObj [(''lat'', la), (''lon'', lo)])) (\<lambda>g'.
          Inr (AList.update ''General'' g' DOC))))))
       DOC"

text \<open>The document the EXIF worker starts from.\<close>

definition exif_doc :: "string \<Rightarrow> string \<Rightarrow> jval \<Rightarrow> string \<Rightarrow> string \<Rightarrow> jdict \<Rightarrow> jdict \<Rightarrow> jdict" where
  "exif_doc fileName fileExt assetClass sha1 now G I =
     [(''Filename'', JStr fileName), (''Extension'', JStr fileExt), (''Asset_Class'', assetClass),
      (''Checksum'', JStr sha1), (''Imported_Time'', JStr now), (''General'', JObj G),
      (''Image'', JObj I), (''File_Location'', JStr ''working'')]"

text \<open>\<open>processFile\<close> of the EXIF worker: the location is added before the
  user's metadata is copied over the document.\<close>

definition exif_process :: "extract_env \<Rightarrow> string \<Rightarrow> jval \<Rightarrow> jval \<Rightarrow> jdict py" where
  "exif_process env asset METADATA assetClass =
     py_bind (checksum env asset) (\<lambda>sha1.
       let (filePath, fileName, fileExt) = split_filename asset
       in case exiftool env asset of
            Inl msg \<Rightarrow> Inl (CalledProcessError msg)
          | Inr output \<Rightarrow>
              py_bind (exif_parse env output) (\<lambda>(G, I).
                py_bind (doc_location (exif_doc fileName fileExt assetClass sha1 (gmtime env) G I)) (\<lambda>DOC.
                py_bind (py_items METADATA) (\<lambda>ms. Inr (py_dict_update DOC ms)))))"

text \<open>The handler of both workers: read the three inputs in the order of the
  call, process, and report \<open>DOC\<close> with the class and the asset.  No
  exception is caught, so none is reported as a task failure.\<close>

definition extract_handle ::
  "(string \<Rightarrow> jval \<Rightarrow> jval \<Rightarrow> jdict py) \<Rightarrow> jval \<Rightarrow> handled py" where
  "extract_handle process INPUT =
     py_bind (py_getitem INPUT ''asset'') (\<lambda>a.
     py_bind (py_getitem INPUT ''metadata'') (\<lambda>m.
     py_bind (py_getitem INPUT ''assetClass'') (\<lambda>ac.
     py_bind (asset_path a) (\<lambda>asset.
     py_bind (process asset m ac) (\<lambda>DOC.
       Inr (Done (JObj [(''DOC'', JObj DOC), (''assetClass'', ac), (''asset'', a)])))))))"

definition exif_main :: "extract_env \<Rightarrow> activity_task list \<Rightarrow> worker_outcome list" where
  "exif_main env tasks = worker_run (extract_handle (exif_process env)) tasks"

section \<open>MediaInfo: \<open>parseMediaToDict(asset)\<close>\<close>

definition mi_mapping :: "(string \<times> string) list" where
  "mi_mapping =
     [(''comapplequicktimemake'', ''make''), (''comapplequicktimemodel'', ''model''),
      (''comapplequicktimecreationdate'', ''recorded_date''), (''comapplequicktimesoftware'', ''software''),
      (''comapplequicktimelocationiso6709'', ''xyz'')]"

definition mi_dates :: "string list" where
  "mi_dates = [''encoded_date'', ''tagged_date'', ''file_last_modification_date'']"

definition mi_gps :: "string list" where
  "mi_gps = [''xyz'']"

text \<open>\<open>key = MAPPING[key]\<close> under \<open>except KeyError\<close>.\<close>

definition mi_key :: "string \<Rightarrow> string" where
  "mi_key key = (case map_of mi_mapping key of Some k \<Rightarrow> k | None \<Rightarrow> key)"

text \<open>A GPS field: latitude, longitude and a non-empty altitude are kept only
  when \<open>G\<close> has none yet; the reverse lookup runs every time, and its first
  result's address is read only when \<open>G\<close> has no address yet.  No exception is
  caught here.\<close>

definition mi_gps_field :: "extract_env \<Rightarrow> jval \<Rightarrow> jdict \<Rightarrow> jdict py" where
  "mi_gps_field env value G =
     py_bind (parse_gps env value) (\<lambda>(latitude, longitude, altitude).
       let G1 = (if map_of G ''Latitude'' = None then AList.update ''Latitude'' latitude G else G);
           G2 = (if map_of G1 ''Longitude'' = None then AList.update ''Longitude'' longitude G1 else G1);
           G3 = (if altitude \<noteq> JStr [] \<and> map_of G2 ''Altitude'' = None
                 then AList.update ''Altitude'' altitude G2 else G2)
       in py_bind (reverse_lookup env latitude longitude) (\<lambda>address.
            if map_of G3 ''Address'' = None
            then py_bind (py_getidx address 0) (\<lambda>r0.
                   py_bind (py_getitem r0 ''formatted_address'') (\<lambda>fa. Inr (AList.update ''Address'' fa G3)))
            else Inr G3))"

type_synonym tracks3 = "jdict \<times> jdict \<times> jdict"

text \<open>One \<open>(key, value)\<close> of a track's data: \<open>other*\<close> keys are skipped, GPS
  goes to \<open>G\<close>, dates are normalised, and the value is stored in the section
  of the track's type; a track of another type is dropped.\<close>

definition mi_field :: "extract_env \<Rightarrow> string \<Rightarrow> tracks3 \<Rightarrow> string \<times> jval \<Rightarrow> tracks3 py" where
  "mi_field env trackType GVA kv =
     (let (G, V, A) = GVA; (key0, value0) = kv
      in if take 5 key0 = ''other'' then Inr GVA
         else
           let key = mi_key key0
           in if key \<in> set mi_gps then py_bind (mi_gps_field env value0 G) (\<lambda>G'. Inr (G', V, A))
              else py_bind (if key \<in> set mi_dates then parse_date env value0 else Inr value0) (\<lambda>value.
                Inr (if trackType = ''General'' then (AList.update key value G, V, A)
                     else if trackType = ''Video'' then (G, AList.update key value V, A)
                     else if trackType = ''Audio'' then (G, V, AList.update key value A)
                     else GVA)))"

definition mi_track :: "extract_env \<Rightarrow> tracks3 \<Rightarrow> string \<times> jdict \<Rightarrow> tracks3 py" where
  "mi_track env GVA track = py_foldl (mi_field env (fst track)) GVA (snd track)"

definition mi_parse :: "extract_env \<Rightarrow> string \<Rightarrow> tracks3 py" where
  "mi_parse env asset = py_bind (mediainfo env asset) (py_foldl (mi_track env) ([], [], []))"

text \<open>The document the MediaInfo worker starts from.\<close>

definition mi_doc ::
  "string \<Rightarrow> string \<Rightarrow> string \<Rightarrow> string \<Rightarrow> jdict \<Rightarrow> jdict \<Rightarrow> jdict \<Rightarrow> jval \<Rightarrow> jdict" where
  "mi_doc fileName fileExt sha1 now G V A assetClass =
     [(''Filename'', JStr fileName), (''Extension'', JStr fileExt), (''Checksum'', JStr sha1),
      (''Imported_Time'', JStr now), (''General'', JObj G), (''Video'', JObj V),
      (''Audio'', JObj A), (''Asset_Class'', assetClass), (''File_Location'', JStr ''working'')]"

text \<open>\<open>processFile\<close> of the MediaInfo worker: the user's metadata is copied
  first and the location is added afterwards, to whatever \<open>DOC['General']\<close>
  then is.\<close>

definition mi_process :: "extract_env \<Rightarrow> string \<Rightarrow> jval \<Rightarrow> jval \<Rightarrow> jdict py" where
  "mi_process env asset METADATA assetClass =
     py_bind (checksum env asset) (\<lambda>sha1.
       let (filePath, fileName, fileExt) = split_filename asset
       in py_bind (mi_parse env asset) (\<lambda>(G, V, A).
            py_bind (py_items METADATA) (\<lambda>ms.
              doc_location (py_dict_update (mi_doc fileName fileExt sha1 (gmtime env) G V A assetClass) ms))))"

definition mi_main :: "extract_env \<Rightarrow> activity_task list \<Rightarrow> worker_outcome list" where
  "mi_main env tasks = worker_run (extract_handle (mi_process env)) tasks"

section \<open>Lemmas\<close>

text \<open>The loop over the mapping, in closed form: each field found in \<open>I\<close>
  is stored under its new name, and every mapped field leaves \<open>I\<close>.\<close>

definition exif_gather :: "jdict \<Rightarrow> (string \<times> string) list \<Rightarrow> jdict \<Rightarrow> jdict" where
  "exif_gather I ms G = fold (\<lambda>(k, v) G. case map_of I k of None \<Rightarrow> G | Some x \<Rightarrow> AList.update v x G) ms G"

lemma exif_move_eq:
  "distinct (map fst ms) \<Longrightarrow>
   exif_move ms (G, I) = (exif_gather I ms G, filter (\<lambda>(k, _). k \<notin> set (map fst ms)) I)"
proof (induction ms arbitrary: G I)
  case Nil
  then show ?case by (simp add: exif_gather_def)
next
  case (Cons kv ms)
  obtain k v where kv: "kv = (k, v)" by (cases kv)
  with Cons.prems have k: "k \<notin> set (map fst ms)" and d: "distinct (map fst ms)" by auto
  show ?case
  proof (cases "map_of I k")
    case None
    then have "filter (\<lambda>(k', _). k' \<notin> set (map fst ms)) I = filter (\<lambda>(k', _). k' \<notin> set (map fst (kv # ms))) I"
      by (auto simp: kv intro!: filter_cong dest: weak_map_of_SomeI)
    with None show ?thesis by (simp add: kv Cons.IH [OF d] exif_gather_def)
  next
    case (Some x)
    have "exif_gather (AList.delete k I) ms G' = exif_gather I ms G'" for G'
    proof -
      have "\<forall>p \<in> set ms. fst p \<noteq> k" using k by auto
      then show ?thesis
        unfolding exif_gather_def by (intro fold_cong) (auto simp: delete_conv' split: prod.split)
    qed
    moreover have "filter (\<lambda>(k', _). k' \<notin> set (map fst ms)) (AList.delete k I)
        = filter (\<lambda>(k', _). k' \<notin> set (map fst (kv # ms))) I"
      by (auto simp: kv AList.delete_eq intro: filter_cong)
    ultimately show ?thesis using Some by (simp add: kv Cons.IH [OF d] exif_gather_def)
  qed
qed

lemma map_of_exif_gather:
  "distinct (map snd ms) \<Longrightarrow>
   map_of (exif_gather I ms G) = map_of G ++ (\<lambda>v. Option.bind (map_of (map prod.swap ms) v) (map_of I))"
proof (induction ms arbitrary: G)
  case Nil
  then show ?case by (simp add: exif_gather_def)
next
  case (Cons kv ms)
  obtain k v where kv: "kv = (k, v)" by (cases kv)
  with Cons.prems have v: "v \<notin> set (map snd ms)" and d: "distinct (map snd ms)" by auto
  have none: "map_of (map prod.swap ms) v = None"
    using v by (force simp: map_of_eq_None_iff)
  have step: "exif_gather I (kv # ms) G =
      exif_gather I ms (case map_of I k of None \<Rightarrow> G | Some x \<Rightarrow> AList.update v x G)"
    by (simp add: exif_gather_def kv)
  show ?case
    unfolding step Cons.IH [OF d]
    by (rule ext) (auto simp: kv none map_add_def update_conv' split: option.split)
qed

lemma distinct_exif_mapping: "distinct (map fst exif_mapping)" "distinct (map snd exif_mapping)"
  by (simp_all add: exif_mapping_def)

lemma doc_location_keys:
  assumes "doc_location DOC = Inr DOC'"
  shows "map fst DOC' = map fst DOC" "\<And>k. k \<noteq> ''General'' \<Longrightarrow> map_of DOC' k = map_of DOC k"
proof -
  have "DOC' = DOC \<or> (\<exists>g g'. map_of DOC ''General'' = Some g \<and> DOC' = AList.update ''General'' g' DOC)"
    using assms unfolding doc_location_def py_catch_key_def
    by (auto split: sum.splits py_error.splits option.splits simp: py_bind_Inr_iff)
  then show "map fst DOC' = map fst DOC" "\<And>k. k \<noteq> ''General'' \<Longrightarrow> map_of DOC' k = map_of DOC k"
    by (auto simp: update_keys update_conv' simp flip: dom_map_of_conv_image_fst)
qed

lemma doc_location_obj:
  "map_of DOC ''General'' = Some (JObj g) \<Longrightarrow> \<exists>DOC'. doc_location DOC = Inr DOC'"
  by (simp add: doc_location_def py_catch_key_def split: option.split)

lemma map_of_exif_unquote:
  "map_of (exif_unquote I) k = map_option exif_unquote_val (map_of I k)"
  by (induction I) (auto simp: exif_unquote_def)

lemma exif_parse_eq:
  "exif_parse env info =
     py_bind (exif_first info) (\<lambda>I0.
     py_bind (exif_altitude I0) (\<lambda>I1.
       let I2 = exif_unquote (AList.delete ''ThumbnailImage'' I1);
           I = filter (\<lambda>(k, _). k \<notin> set (map fst exif_mapping)) I2
       in py_bind (exif_address env (exif_gather I2 exif_mapping [])) (\<lambda>G'. Inr (exif_recorded G' I, I))))"
  by (simp add: exif_parse_def exif_move_eq distinct_exif_mapping Let_def)

text \<open>Where each field of the \<open>General\<close> section comes from.\<close>

lemma map_of_exif_general:
  "map_of (exif_gather I exif_mapping []) v =
     Option.bind (map_of (map prod.swap exif_mapping) v) (map_of I)"
  by (simp add: map_of_exif_gather distinct_exif_mapping)

lemma mi_field_plain:
  "take 5 k \<noteq> ''other'' \<Longrightarrow> mi_key k = k \<Longrightarrow> k \<notin> set mi_gps \<Longrightarrow> k \<notin> set mi_dates \<Longrightarrow>
   mi_field env ''Video'' (G, V, A) (k, v) = Inr (G, AList.update k v V, A)"
  by (simp add: mi_field_def)

lemma mi_track_video:
  "\<forall>k \<in> set (map fst d). take 5 k \<noteq> ''other'' \<and> mi_key k = k \<and> k \<notin> set mi_gps \<and> k \<notin> set mi_dates \<Longrightarrow>
   mi_track env (G, V, A) (''Video'', d) = Inr (G, py_dict_update V d, A)"
proof (induction d arbitrary: V)
  case Nil
  then show ?case by (simp add: mi_track_def py_dict_update_def)
next
  case (Cons kv d)
  obtain k v where kv: "kv = (k, v)" by (cases kv)
  with Cons.prems have "mi_field env ''Video'' (G, V, A) kv = Inr (G, AList.update k v V, A)"
    by (simp add: mi_field_plain)
  moreover have "mi_track env (G, AList.update k v V, A) (''Video'', d) = Inr (G, py_dict_update (AList.update k v V) d, A)"
    using Cons by simp
  ultimately show ?case by (simp add: mi_track_def kv py_dict_update_def)
qed

text \<open>C34.  The user's metadata is copied over the document the EXIF worker
  builds, the computed fields included: when every service answers, the worker
  produces a document that holds every user field, and its \<open>Checksum\<close> (the
  catalog key \<open>registerAsset\<close> stores it under) is the user's \<open>Checksum\<close> when
  there is one, and the file's checksum only otherwise.\<close>

theorem exif_user_checksum:
  assumes "checksum env asset = Inr digest" "exiftool env asset = Inr out" "exif_parse env out = Inr (G, I)"
    and "distinct (map fst ms)"
  shows "\<exists>DOC. exif_process env asset (JObj ms) ac = Inr DOC \<and> map_of ms \<subseteq>\<^sub>m map_of DOC
    \<and> map_of DOC ''Checksum'' = Some (case map_of ms ''Checksum'' of Some v \<Rightarrow> v | None \<Rightarrow> JStr digest)"
proof -
  obtain fp fn ext where sp: "split_filename asset = (fp, fn, ext)" by (cases "split_filename asset") auto
  define DOC0 where "DOC0 = exif_doc fn ext ac digest (gmtime env) G I"
  obtain DOC1 where loc: "doc_location DOC0 = Inr DOC1"
    using doc_location_obj [of DOC0 G] by (auto simp: DOC0_def exif_doc_def)
  have cs: "map_of DOC1 ''Checksum'' = Some (JStr digest)"
    using doc_location_keys(2) [OF loc, of "''Checksum''"] by (simp add: DOC0_def exif_doc_def)
  have "exif_process env asset (JObj ms) ac = Inr (py_dict_update DOC1 ms)"
    using assms(1-3) loc by (simp add: exif_process_def sp DOC0_def [symmetric])
  moreover have m: "map_of (py_dict_update DOC1 ms) = map_of DOC1 ++ map_of ms"
    using assms(4) by (rule map_of_py_dict_update_distinct)
  then have "map_of ms \<subseteq>\<^sub>m map_of (py_dict_update DOC1 ms)" by simp
  moreover have "map_of (py_dict_update DOC1 ms) ''Checksum''
      = Some (case map_of ms ''Checksum'' of Some v \<Rightarrow> v | None \<Rightarrow> JStr digest)"
    using m cs by (simp add: map_add_def split: option.split)
  ultimately show ?thesis by blast
qed

theorem exif_user_checksum_witness:
  "\<exists>DOC. exif_process
      \<lparr>checksum = \<lambda>a. Inr ''5f1c'', exiftool = \<lambda>a. Inr (JArr [JObj [(''Make'', JStr ''Canon'')]]),
       mediainfo = \<lambda>a. Inr [], reverse_lookup = \<lambda>x y. Inr (JArr []), parse_gps = \<lambda>v. Inr (v, v, v),
       parse_date = \<lambda>v. Inr v, gmtime = ''2017-01-01T00:00:00+0000''\<rparr>
      ''/u/a.jpg'' (JObj [(''Checksum'', JStr ''forged'')]) (JStr ''Image'') = Inr DOC
    \<and> map_of [(''Checksum'', JStr ''forged'')] \<subseteq>\<^sub>m map_of DOC
    \<and> map_of DOC ''Checksum'' = Some (JStr ''forged'')"
  using exif_user_checksum [where env = "\<lparr>checksum = \<lambda>a. Inr ''5f1c'',
       exiftool = \<lambda>a. Inr (JArr [JObj [(''Make'', JStr ''Canon'')]]),
       mediainfo = \<lambda>a. Inr [], reverse_lookup = \<lambda>x y. Inr (JArr []), parse_gps = \<lambda>v. Inr (v, v, v),
       parse_date = \<lambda>v. Inr v, gmtime = ''2017-01-01T00:00:00+0000''\<rparr>"
    and asset = "''/u/a.jpg''" and digest = "''5f1c''" and out = "JArr [JObj [(''Make'', JStr ''Canon'')]]"
    and G = "[(''make'', JStr ''Canon'')]" and I = "[]" and ms = "[(''Checksum'', JStr ''forged'')]"
    and ac = "JStr ''Image''"]
  by (simp add: exif_parse_def exif_mapping_def exif_altitude_def exif_unquote_def exif_unquote_val_def dquote_def exif_address_def
      exif_recorded_def py_catch_key_def exif_doc_def)

text \<open>C36.  An image with GPS coordinates for which the reverse geocoder finds
  no address kills the EXIF worker: \<open>reverseLookup(...)[0]\<close> raises
  \<open>IndexError\<close>, which the \<open>except KeyError\<close> around it does not catch, and
  the worker catches nothing, so the task is never reported.\<close>

theorem exif_empty_lookup_crashes:
  assumes "checksum env a = Inr digest" "exiftool env a = Inr (JArr (JObj I # rest))"
    and "map_of I ''GPSAltitude'' = Some (JStr alt)"
    and "map_of I ''GPSLatitude'' = Some la" "map_of I ''GPSLongitude'' = Some lo"
    and "reverse_lookup env (exif_unquote_val la) (exif_unquote_val lo) = Inr (JArr [])"
  shows "worker_step (extract_handle (exif_process env))
      \<lparr>atoken = Some tok, ainput = Some (JObj [(''asset'', JStr a), (''metadata'', M), (''assetClass'', ac)])\<rparr>
    = WorkerCrash IndexError"
proof -
  define I1 where "I1 = AList.update ''GPSAltitude'' (JStr (hd (py_split CHR '' '' alt))) I"
  define I2 where "I2 = exif_unquote (AList.delete ''ThumbnailImage'' I1)"
  have alt: "exif_altitude I = Inr I1" by (simp add: exif_altitude_def assms(3) I1_def)
  have la: "map_of (exif_gather I2 exif_mapping []) ''Latitude'' = Some (exif_unquote_val la)"
    unfolding map_of_exif_general
    by (simp add: exif_mapping_def I2_def I1_def map_of_exif_unquote delete_conv' update_conv' assms(4))
  have lo: "map_of (exif_gather I2 exif_mapping []) ''Longitude'' = Some (exif_unquote_val lo)"
    unfolding map_of_exif_general
    by (simp add: exif_mapping_def I2_def I1_def map_of_exif_unquote delete_conv' update_conv' assms(5))
  have "exif_address env (exif_gather I2 exif_mapping []) = Inl IndexError"
    using la lo assms(6) by (simp add: exif_address_def py_index_def)
  then have "exif_parse env (JArr (JObj I # rest)) = Inl IndexError"
    by (simp add: exif_parse_eq alt I2_def [symmetric] Let_def)
  then show ?thesis
    using assms(1,2)
    by (simp add: worker_step_def task_input_def extract_handle_def exif_process_def asset_path_def case_prod_unfold)
qed

theorem exif_empty_lookup_crashes_witness:
  "worker_step (extract_handle (exif_process
      \<lparr>checksum = \<lambda>a. Inr ''5f1c'',
       exiftool = \<lambda>a. Inr (JArr [JObj [(''GPSLatitude'', JNum 52), (''GPSLongitude'', JNum 13),
         (''GPSAltitude'', JStr ''34 m Above Sea Level'')]]),
       mediainfo = \<lambda>a. Inr [], reverse_lookup = \<lambda>x y. Inr (JArr []), parse_gps = \<lambda>v. Inr (v, v, v),
       parse_date = \<lambda>v. Inr v, gmtime = ''2017-01-01T00:00:00+0000''\<rparr>))
      \<lparr>atoken = Some ''tok'', ainput = Some (JObj [(''asset'', JStr ''/u/a.jpg''), (''metadata'', JObj []),
         (''assetClass'', JStr ''Image'')])\<rparr>
    = WorkerCrash IndexError"
  by (rule exif_empty_lookup_crashes [where I = "[(''GPSLatitude'', JNum 52), (''GPSLongitude'', JNum 13),
         (''GPSAltitude'', JStr ''34 m Above Sea Level'')]" and rest = "[]" and digest = "''5f1c''"
      and alt = "''34 m Above Sea Level''" and la = "JNum 52" and lo = "JNum 13"])
    (simp_all add: exif_unquote_val_def)

lemma exif_process_Inr:
  "exif_process env a M ac = Inr D \<Longrightarrow>
   \<exists>fn ext cs G I DOC1 ms. doc_location (exif_doc fn ext ac cs (gmtime env) G I) = Inr DOC1 \<and> D = py_dict_update DOC1 ms"
proof (cases "exiftool env a")
  case (Inr out)
  assume "exif_process env a M ac = Inr D"
  with Inr obtain cs G I DOC1 ms where
    "doc_location (exif_doc (fst (snd (split_filename a))) (snd (snd (split_filename a))) ac cs (gmtime env) G I)
       = Inr DOC1" "D = py_dict_update DOC1 ms"
    by (auto simp: exif_process_def py_bind_Inr_iff case_prod_unfold Let_def)
  then show ?thesis by blast
qed (simp add: exif_process_def py_bind_Inr_iff case_prod_unfold Let_def)

lemma mi_process_Inr:
  "mi_process env a M ac = Inr D \<Longrightarrow>
   \<exists>fn ext cs G V A ms. doc_location (py_dict_update (mi_doc fn ext cs (gmtime env) G V A ac) ms) = Inr D"
  by (auto simp: mi_process_def py_bind_Inr_iff case_prod_unfold Let_def; blast)

text \<open>C37.  Both extraction workers produce a well-formed document: a JSON
  object without repeated keys that holds every field \<open>registerAsset\<close> and the
  catalog rely on (name, extension, class, checksum, import time, the
  \<open>General\<close> section, the per-kind sections and the location), whatever
  metadata the user supplied.\<close>

theorem extract_doc_wellformed:
  "(exif_process env a M ac = Inr DE \<longrightarrow> distinct (map fst DE)
      \<and> set [''Filename'', ''Extension'', ''Asset_Class'', ''Checksum'', ''Imported_Time'', ''General'', ''Image'',
             ''File_Location''] \<subseteq> fst ` set DE)
   \<and> (mi_process env a M ac = Inr DM \<longrightarrow> distinct (map fst DM)
      \<and> set [''Filename'', ''Extension'', ''Checksum'', ''Imported_Time'', ''General'', ''Video'', ''Audio'',
             ''Asset_Class'', ''File_Location''] \<subseteq> fst ` set DM)"
proof (intro conjI impI)
  assume "exif_process env a M ac = Inr DE"
  then obtain fn ext cs G I DOC1 ms where
    loc: "doc_location (exif_doc fn ext ac cs (gmtime env) G I) = Inr DOC1" and D1: "DE = py_dict_update DOC1 ms"
    by (blast dest: exif_process_Inr)
  define DOC0 where "DOC0 = exif_doc fn ext ac cs (gmtime env) G I"
  have d: "distinct (map fst DOC0)"
    and ks: "set [''Filename'', ''Extension'', ''Asset_Class'', ''Checksum'', ''Imported_Time'', ''General'', ''Image'',
      ''File_Location''] \<subseteq> fst ` set DOC0"
    by (simp_all add: DOC0_def exif_doc_def)
  note loc = loc [folded DOC0_def]
  have k1: "map fst DOC1 = map fst DOC0" by (rule doc_location_keys(1) [OF loc])
  then have "fst ` set DOC1 = fst ` set DOC0" by (metis list.set_map)
  then show "distinct (map fst DE)"
      "set [''Filename'', ''Extension'', ''Asset_Class'', ''Checksum'', ''Imported_Time'', ''General'', ''Image'',
      ''File_Location''] \<subseteq> fst ` set DE"
    using d ks k1 by (auto simp: D1 keys_py_dict_update intro: distinct_py_dict_update)
next
  assume "mi_process env a M ac = Inr DM"
  then obtain fn ext cs G V A ms where
    loc: "doc_location (py_dict_update (mi_doc fn ext cs (gmtime env) G V A ac) ms) = Inr DM"
    by (blast dest: mi_process_Inr)
  define DOC0 where "DOC0 = mi_doc fn ext cs (gmtime env) G V A ac"
  have d: "distinct (map fst DOC0)"
    and ks: "set [''Filename'', ''Extension'', ''Checksum'', ''Imported_Time'', ''General'', ''Video'', ''Audio'',
      ''Asset_Class'', ''File_Location''] \<subseteq> fst ` set DOC0"
    by (simp_all add: DOC0_def mi_doc_def)
  note loc = loc [folded DOC0_def]
  have k2: "map fst DM = map fst (py_dict_update DOC0 ms)" by (rule doc_location_keys(1) [OF loc])
  then have "fst ` set DM = fst ` set (py_dict_update DOC0 ms)" by (metis list.set_map)
  then show "distinct (map fst DM)"
      "set [''Filename'', ''Extension'', ''Checksum'', ''Imported_Time'', ''General'', ''Video'', ''Audio'',
      ''Asset_Class'', ''File_Location''] \<subseteq> fst ` set DM"
    using d ks k2 by (auto simp: keys_py_dict_update intro: distinct_py_dict_update)
qed

theorem extract_doc_wellformed_witness:
  "(exif_process \<lparr>checksum = \<lambda>a. Inr ''5f1c'', exiftool = \<lambda>a. Inr (JArr [JObj [(''Make'', JStr ''Canon'')]]),
       mediainfo = \<lambda>a. Inr [(''General'', [(''format'', JStr ''MPEG-4'')])], reverse_lookup = \<lambda>x y. Inr (JArr []),
       parse_gps = \<lambda>v. Inr (v, v, v), parse_date = \<lambda>v. Inr v, gmtime = ''t0''\<rparr>
      ''/u/a.jpg'' (JObj []) (JStr ''Image'') = Inr (exif_doc ''a'' ''.jpg'' (JStr ''Image'') ''5f1c'' ''t0'' [(''make'', JStr ''Canon'')] [])
    \<and> distinct (map fst (exif_doc ''a'' ''.jpg'' (JStr ''Image'') ''5f1c'' ''t0'' [(''make'', JStr ''Canon'')] []))
    \<and> set [''Filename'', ''Extension'', ''Asset_Class'', ''Checksum'', ''Imported_Time'', ''General'', ''Image'',
             ''File_Location''] \<subseteq> fst ` set (exif_doc ''a'' ''.jpg'' (JStr ''Image'') ''5f1c'' ''t0'' [(''make'', JStr ''Canon'')] []))
   \<and> (mi_process \<lparr>checksum = \<lambda>a. Inr ''5f1c'', exiftool = \<lambda>a. Inr (JArr [JObj [(''Make'', JStr ''Canon'')]]),
       mediainfo = \<lambda>a. Inr [(''General'', [(''format'', JStr ''MPEG-4'')])], reverse_lookup = \<lambda>x y. Inr (JArr []),
       parse_gps = \<lambda>v. Inr (v, v, v), parse_date = \<lambda>v. Inr v, gmtime = ''t0''\<rparr>
      ''/u/a.jpg'' (JObj []) (JStr ''Image'') = Inr (mi_doc ''a'' ''.jpg'' ''5f1c'' ''t0'' [(''format'', JStr ''MPEG-4'')] [] [] (JStr ''Image''))
    \<and> distinct (map fst (mi_doc ''a'' ''.jpg'' ''5f1c'' ''t0'' [(''format'', JStr ''MPEG-4'')] [] [] (JStr ''Image'')))
    \<and> set [''Filename'', ''Extension'', ''Checksum'', ''Imported_Time'', ''General'', ''Video'', ''Audio'',
             ''Asset_Class'', ''File_Location''] \<subseteq> fst ` set (mi_doc ''a'' ''.jpg'' ''5f1c'' ''t0'' [(''format'', JStr ''MPEG-4'')] [] [] (JStr ''Image'')))"
proof -
  have e: "exif_process \<lparr>checksum = \<lambda>a. Inr ''5f1c'', exiftool = \<lambda>a. Inr (JArr [JObj [(''Make'', JStr ''Canon'')]]),
       mediainfo = \<lambda>a. Inr [(''General'', [(''format'', JStr ''MPEG-4'')])], reverse_lookup = \<lambda>x y. Inr (JArr []),
       parse_gps = \<lambda>v. Inr (v, v, v), parse_date = \<lambda>v. Inr v, gmtime = ''t0''\<rparr>
      ''/u/a.jpg'' (JObj []) (JStr ''Image'') = Inr (exif_doc ''a'' ''.jpg'' (JStr ''Image'') ''5f1c'' ''t0'' [(''make'', JStr ''Canon'')] [])"
    by (simp add: exif_process_def exif_parse_def exif_mapping_def exif_altitude_def exif_unquote_def
        exif_unquote_val_def dquote_def exif_address_def exif_recorded_def py_catch_key_def exif_doc_def
        doc_location_def split_filename_def basename_def split_ext_def path_head_def Let_def py_dict_update_def)
  have m: "mi_process \<lparr>checksum = \<lambda>a. Inr ''5f1c'', exiftool = \<lambda>a. Inr (JArr [JObj [(''Make'', JStr ''Canon'')]]),
       mediainfo = \<lambda>a. Inr [(''General'', [(''format'', JStr ''MPEG-4'')])], reverse_lookup = \<lambda>x y. Inr (JArr []),
       parse_gps = \<lambda>v. Inr (v, v, v), parse_date = \<lambda>v. Inr v, gmtime = ''t0''\<rparr>
      ''/u/a.jpg'' (JObj []) (JStr ''Image'') = Inr (mi_doc ''a'' ''.jpg'' ''5f1c'' ''t0'' [(''format'', JStr ''MPEG-4'')] [] [] (JStr ''Image''))"
    by (simp add: mi_process_def mi_parse_def mi_track_def mi_field_def mi_key_def mi_mapping_def mi_gps_def
        mi_dates_def mi_doc_def doc_location_def py_catch_key_def
        split_filename_def basename_def split_ext_def path_head_def Let_def py_dict_update_def)
  show ?thesis
    using extract_doc_wellformed [where env = "\<lparr>checksum = \<lambda>a. Inr ''5f1c'',
       exiftool = \<lambda>a. Inr (JArr [JObj [(''Make'', JStr ''Canon'')]]),
       mediainfo = \<lambda>a. Inr [(''General'', [(''format'', JStr ''MPEG-4'')])], reverse_lookup = \<lambda>x y. Inr (JArr []),
       parse_gps = \<lambda>v. Inr (v, v, v), parse_date = \<lambda>v. Inr v, gmtime = ''t0''\<rparr>"
      and a = "''/u/a.jpg''" and M = "JObj []" and ac = "JStr ''Image''"
      and DE = "exif_doc ''a'' ''.jpg'' (JStr ''Image'') ''5f1c'' ''t0'' [(''make'', JStr ''Canon'')] []"
      and DM = "mi_doc ''a'' ''.jpg'' ''5f1c'' ''t0'' [(''format'', JStr ''MPEG-4'')] [] [] (JStr ''Image'')"]
    using e m by simp
qed

lemma mi_tracks_video:
  "\<forall>t \<in> set ts. fst t = ''Video'' \<and>
     (\<forall>k \<in> set (map fst (snd t)). take 5 k \<noteq> ''other'' \<and> mi_key k = k \<and> k \<notin> set mi_gps \<and> k \<notin> set mi_dates) \<Longrightarrow>
   py_foldl (mi_track env) (G, V, A) ts = Inr (G, foldl py_dict_update V (map snd ts), A)"
proof (induction ts arbitrary: V)
  case (Cons t ts)
  then have "mi_track env (G, V, A) t = Inr (G, py_dict_update V (snd t), A)"
    using mi_track_video [of "snd t" env G V A] by (cases t) simp
  with Cons show ?case by simp
qed simp

text \<open>As the comment in \<open>parseMediaToDict\<close> says, when a file has
  several video tracks the \<open>Video\<close> section is their fields merged track by
  track, a later track's value replacing an earlier one's: only the last
  track's value of each field survives.\<close>

theorem mi_last_video_track_wins:
  assumes "mediainfo env a = Inr ts"
    and "\<forall>t \<in> set ts. fst t = ''Video'' \<and>
      (\<forall>k \<in> set (map fst (snd t)). take 5 k \<noteq> ''other'' \<and> mi_key k = k \<and> k \<notin> set mi_gps \<and> k \<notin> set mi_dates)"
  shows "mi_parse env a = Inr ([], foldl py_dict_update [] (map snd ts), [])"
  using assms by (simp add: mi_parse_def mi_tracks_video)

theorem mi_last_video_track_wins_witness:
  "mi_parse \<lparr>checksum = \<lambda>a. Inr ''5f1c'', exiftool = \<lambda>a. Inr (JArr []),
       mediainfo = \<lambda>a. Inr [(''Video'', [(''codec'', JStr ''avc1''), (''width'', JNum 1920)]),
                             (''Video'', [(''codec'', JStr ''hevc'')])],
       reverse_lookup = \<lambda>x y. Inr (JArr []), parse_gps = \<lambda>v. Inr (v, v, v), parse_date = \<lambda>v. Inr v,
       gmtime = ''t0''\<rparr> ''/u/v.mov''
   = Inr ([], [(''codec'', JStr ''hevc''), (''width'', JNum 1920)], [])"
  using mi_last_video_track_wins [where env = "\<lparr>checksum = \<lambda>a. Inr ''5f1c'', exiftool = \<lambda>a. Inr (JArr []),
       mediainfo = \<lambda>a. Inr [(''Video'', [(''codec'', JStr ''avc1''), (''width'', JNum 1920)]),
                             (''Video'', [(''codec'', JStr ''hevc'')])],
       reverse_lookup = \<lambda>x y. Inr (JArr []), parse_gps = \<lambda>v. Inr (v, v, v), parse_date = \<lambda>v. Inr v,
       gmtime = ''t0''\<rparr>" and a = "''/u/v.mov''"
    and ts = "[(''Video'', [(''codec'', JStr ''avc1''), (''width'', JNum 1920)]), (''Video'', [(''codec'', JStr ''hevc'')])]"]
  by (simp add: mi_key_def mi_mapping_def mi_gps_def mi_dates_def py_dict_update_def)

text \<open>C35.  The order in which Python 2 iterates \<open>MAPPING.items()\<close> is not
  specified; it cannot matter: for every order of the mapping the \<open>General\<close>
  section holds the same fields and the remaining \<open>Image\<close> fields are the
  same list.\<close>

theorem exif_mapping_order_irrelevant:
  assumes "mset ms = mset exif_mapping"
  shows "map_of (fst (exif_move ms (G, I))) = map_of (fst (exif_move exif_mapping (G, I)))
    \<and> snd (exif_move ms (G, I)) = snd (exif_move exif_mapping (G, I))"
proof -
  have set_eq: "set ms = set exif_mapping" using assms by (rule mset_eq_setD)
  have "mset (map fst ms) = mset (map fst exif_mapping)" "mset (map snd ms) = mset (map snd exif_mapping)"
    using assms by simp_all
  then have d: "distinct (map fst ms)" "distinct (map snd ms)"
    using distinct_exif_mapping mset_eq_imp_distinct_iff by metis+
  have "map_of (map prod.swap ms) = map_of (map prod.swap exif_mapping)"
    using d distinct_exif_mapping set_eq by (subst map_of_inject_set) (simp_all add: comp_def)
  then show ?thesis
    using d distinct_exif_mapping set_eq by (simp add: exif_move_eq map_of_exif_gather)
qed

theorem exif_mapping_order_irrelevant_witness:
  "map_of (fst (exif_move (rev exif_mapping) ([], [(''Make'', JStr ''Canon''), (''GPSLatitude'', JNum 52)])))
     = map_of (fst (exif_move exif_mapping ([], [(''Make'', JStr ''Canon''), (''GPSLatitude'', JNum 52)])))
   \<and> snd (exif_move (rev exif_mapping) ([], [(''Make'', JStr ''Canon''), (''GPSLatitude'', JNum 52)]))
     = snd (exif_move exif_mapping ([], [(''Make'', JStr ''Canon''), (''GPSLatitude'', JNum 52)]))"
  by (rule exif_mapping_order_irrelevant) simp

end
