(* ===== verification/Scenarios.thy ===== *)
theory Scenarios
  imports Storage Lifecycle Extract
begin

text \<open>
  Runs that compose several components the way an execution does.  The
  lifecycle decider of \<open>src/SFNcode/fileManager.py\<close> hands each worker the
  result of the one before (theory \<open>Lifecycle\<close>): a move that involves the
  archive runs \<open>moveFiles\<close>, then \<open>cleanUpLandingPad\<close>, then \<open>deleteFiles\<close>.
  \<open>lifecycle_archive_chain\<close> is that sequence of handlers on the world of
  theory \<open>World\<close>; it is \<open>None\<close> when one of them does not complete.
  The ingestion decider likewise hands the document of an extraction worker to
  \<open>registerAsset\<close> (theory \<open>Ingestion\<close>, \<open>after_extract\<close>); the lemma
  \<open>exif_register_user_key\<close> follows a document through both.
\<close>

definition lifecycle_archive_chain ::
  "string \<Rightarrow> string \<Rightarrow> world \<Rightarrow> jdict option \<Rightarrow> jval \<Rightarrow> world option" where
  "lifecycle_archive_chain now wid w OUTPUT inp =
     (case move_handle now wid (w, OUTPUT) inp of
        ((w1, _), Inr (Done r1)) \<Rightarrow>
          (case cleanup_handle w1 r1 of
             (w2, Inr (Done r2)) \<Rightarrow>
               (case delete_handle now wid w2 r2 of
                  (w3, Inr (Done _)) \<Rightarrow> Some w3
                | _ \<Rightarrow> None)
           | _ \<Rightarrow> None)
      | _ \<Rightarrow> None)"

section \<open>Lemmas\<close>

lemma basename_after_slash: "CHR ''/'' \<notin> set y \<Longrightarrow> basename (x @ CHR ''/'' # y) = y"
proof -
  assume y: "CHR ''/'' \<notin> set y"
  have "takeWhile (\<lambda>c. c \<noteq> CHR ''/'') (rev y @ CHR ''/'' # rev x) = rev y"
    using y by (subst takeWhile_append2) auto
  then show ?thesis by (simp add: basename_def)
qed

lemma dir_name_slash:
  "x \<noteq> [] \<Longrightarrow> last x \<noteq> CHR ''/'' \<Longrightarrow> dir_name (x @ ''/'') = x"
  by (cases x rule: rev_cases) (simp_all add: dir_name_def)

lemma working_dir:
  assumes "CHR ''/'' \<notin> set fk" "fk \<noteq> []"
  shows "path_join working_storage (fk @ ''/'') = ''/Assets/working/'' @ fk @ ''/''"
    and "dir_name (''/Assets/working/'' @ fk @ ''/'') = ''/Assets/working/'' @ fk"
proof -
  from assms have "hd (fk @ ''/'') \<noteq> CHR ''/''" by (cases fk) auto
  then show "path_join working_storage (fk @ ''/'') = ''/Assets/working/'' @ fk @ ''/''"
    by (simp add: path_join_def working_storage_def)
  from assms have "last (''/Assets/working/'' @ fk) \<noteq> CHR ''/''" by (auto dest: last_in_set)
  then show "dir_name (''/Assets/working/'' @ fk @ ''/'') = ''/Assets/working/'' @ fk"
    using dir_name_slash [of "''/Assets/working/'' @ fk"] by simp
qed

lemma dummy_split:
  assumes "CHR ''/'' \<notin> set fk" "fk \<noteq> []"
  shows "split_filename (''/Assets/working/'' @ fk @ ''/'' @ ''dummy.file'') = (''/Assets/working/'' @ fk, ''dummy'', ''.file'')"
proof -
  have b: "basename (''/Assets/working/'' @ fk @ ''/'' @ ''dummy.file'') = ''dummy.file''"
    using basename_after_slash [of "''dummy.file''" "''/Assets/working/'' @ fk"] by simp
  have "split_ext (''/Assets/working/'' @ fk @ ''/'' @ ''dummy.file'') = ''.file''"
    by (simp only: split_ext_def b) (simp add: Let_def)
  moreover have "path_head (''/Assets/working/'' @ fk @ ''/'' @ ''dummy.file'') = ''/Assets/working/'' @ fk"
  proof -
    have "take (length (''/Assets/working/'' @ fk @ ''/'' @ ''dummy.file'') - length ''dummy.file'')
        (''/Assets/working/'' @ fk @ ''/'' @ ''dummy.file'') = (''/Assets/working/'' @ fk) @ ''/''" by simp
    then show ?thesis
      using working_dir(2) [OF assms] by (simp only: path_head_def b dir_name_def [symmetric]) (simp add: Let_def)
  qed
  ultimately show ?thesis using b by (simp add: split_filename_def Let_def)
qed

lemma move_archive_step:
  assumes "map_of kvs ''locationSource'' = Some (JStr ''CDN'')" "map_of kvs ''locationDestination'' = Some (JStr ''archive'')"
    and "map_of kvs ''dbPrimaryKey'' = Some (JObj [(''Checksum'', k)])" "map_of kvs ''fileKey'' = Some (JStr fk)"
    and "CHR ''/'' \<notin> set fk" "fk \<noteq> []"
    and "map_of (cat w) k = Some item" "map_of item ''Audit'' = Some (JArr au)"
  shows "\<exists>w1 item'. move_handle now wid (w, OUTPUT) (JObj kvs) =
      ((w1, Some (py_dict_update [(''result'', JStr ''success''), (''asset'', JStr (''/Assets/working/'' @ fk @ ''/'' @ ''dummy.file''))] kvs)),
       Inr (Done (JObj (py_dict_update [(''result'', JStr ''success''), (''asset'', JStr (''/Assets/working/'' @ fk @ ''/'' @ ''dummy.file''))] kvs))))
    \<and> bucket w1 = bucket w \<and> ''/Assets/working/'' @ fk \<in> set (dirs w1)
    \<and> map_of (cat w1) k = Some item' \<and> map_of item' ''File_Location'' = Some (JStr ''archive'')
    \<and> (\<exists>au'. map_of item' ''Audit'' = Some (JArr au'))"
proof -
  define w0 where "w0 = snd (create_dir working_storage (fk @ ''/'') w)"
  define w2 where "w2 = foldl (\<lambda>w' k. s3_download k (working_storage @ k) w') w0 (s3_keys w0 (fk @ ''/''))"
  have cd: "create_dir working_storage (fk @ ''/'') w = (''/Assets/working/'' @ fk @ ''/'', w0)"
    using working_dir(1) [OF assms(5,6)] by (simp add: w0_def prod_eq_iff)
  have mo: "move_objects (JStr ''CDN'') (JStr ''archive'') (fk @ ''/'') w =
      (w2, Some [(''result'', JStr ''success''), (''asset'', JStr (''/Assets/working/'' @ fk @ ''/'' @ ''dummy.file''))])"
    by (simp add: move_objects_def cd w2_def)
  have w2: "bucket w2 = bucket w" "cat w2 = cat w" "''/Assets/working/'' @ fk \<in> set (dirs w2)"
    using foldl_download_keeps [of "\<lambda>k. working_storage @ k" w0] dirs_create_dir [of working_storage "fk @ ''/''" w]
      working_dir [OF assms(5,6)]
    by (simp_all add: w2_def w0_def)
  show ?thesis
    using assms w2
    by (simp add: move_handle_def jstr_def mo world_update_entry_key update_conv')
qed

lemma cleanup_step:
  assumes "py_getitem (JObj r) ''asset'' = Inr (JStr a)" "split_filename a = (fp, fn, ext)" "fp \<in> set (dirs w)"
  shows "cleanup_handle w (JObj r) =
    (w\<lparr>files := filter (\<lambda>(p, _). \<not> below fp p) (files w), dirs := filter (\<lambda>p. \<not> below fp p) (dirs w)\<rparr>,
     Inr (Done (JObj (py_dict_update [(''result'', JStr ''success'')] r))))"
  using assms by (simp add: cleanup_handle_def asset_path_def rmtree_def dir_exists_def)

lemma delete_s3_step:
  assumes "py_getitem r ''locationSource'' = Inr (JStr ''CDN'')" "py_getitem r ''locationDestination'' = Inr d"
    and "py_getitem r ''dbPrimaryKey'' = Inr (JObj [(''Checksum'', k)])" "py_getitem r ''fileKey'' = Inr (JStr fk)"
    and "map_of (cat w) k = Some item" "map_of item ''Audit'' = Some (JArr au)"
  shows "\<exists>w'. delete_handle now wid w r = (w', Inr (Done (JObj [(''result'', JStr ''success'')])))
    \<and> s3_keys w' (fk @ ''/'') = [] \<and> files w' = files w
    \<and> (\<exists>item'. map_of (cat w') k = Some item' \<and> map_of item' ''File_Location'' = Some d)"
proof -
  define w1 where "w1 = foldl (\<lambda>w' k. s3_delete k w') w (s3_keys w (fk @ ''/''))"
  have w1: "s3_keys w1 (fk @ ''/'') = []" "cat w1 = cat w" "files w1 = files w"
    using delete_prefix_gone [of w "fk @ ''/''"] foldl_delete_keeps [of w "s3_keys w (fk @ ''/'')"]
    by (simp_all add: w1_def)
  show ?thesis
    using assms w1
    by (simp add: delete_handle_def jstr_def Let_def w1_def [symmetric] world_update_entry_key update_conv')
qed

text \<open>Extraction composed with registration: when the user's metadata names a
  \<open>Checksum\<close>, the document the EXIF worker produces is registered under that
  value, not under the file's checksum.\<close>

lemma exif_register_user_key:
  assumes "exif_process env a (JObj ms) ac = Inr DOC" "distinct (map fst ms)"
    and "map_of ms ''Checksum'' = Some X" "map_of c X = None"
  shows "fst (register_handle c (JObj [(''DOC'', JObj DOC), (''asset'', av), (''assetClass'', ac')]))
    = AList.update X DOC c"
proof -
  obtain DOC1 ms' where "DOC = py_dict_update DOC1 ms'" and "py_items (JObj ms) = Inr ms'"
    using assms(1)
    by (cases "exiftool env a") (auto simp: exif_process_def py_bind_Inr_iff case_prod_unfold Let_def)
  then have "DOC = py_dict_update DOC1 ms" by simp
  then have "map_of DOC ''Checksum'' = Some X"
    using assms(2,3) by (simp add: map_of_py_dict_update_distinct)
  with assms(4) show ?thesis
    by (simp add: register_handle_def put_if_absent_def)
qed

text \<open>C33: a move of an asset from the CDN to the archive, run by the lifecycle
  decider as \<open>moveFiles\<close>, \<open>cleanUpLandingPad\<close> and \<open>deleteFiles\<close>, completes,
  and afterwards the catalog records the asset in the archive while no copy of
  it is left: its objects are gone from the bucket and the working copy that
  \<open>moveFiles\<close> downloaded is removed from the disk.\<close>

theorem archive_move_destroys_copies:
  assumes "distinct (map fst kvs)" "map_of kvs ''asset'' = None"
    and "map_of kvs ''locationSource'' = Some (JStr ''CDN'')" "map_of kvs ''locationDestination'' = Some (JStr ''archive'')"
    and "map_of kvs ''dbPrimaryKey'' = Some (JObj [(''Checksum'', k)])" "map_of kvs ''fileKey'' = Some (JStr fk)"
    and "CHR ''/'' \<notin> set fk" "fk \<noteq> []"
    and "map_of (cat w) k = Some item" "map_of item ''Audit'' = Some (JArr au)"
  shows "\<exists>w3. lifecycle_archive_chain now wid w OUTPUT (JObj kvs) = Some w3
    \<and> s3_keys w3 (fk @ ''/'') = []
    \<and> filter (\<lambda>(p, _). below (''/Assets/working/'' @ fk) p) (files w3) = []
    \<and> (\<exists>item'. map_of (cat w3) k = Some item' \<and> map_of item' ''File_Location'' = Some (JStr ''archive''))"
proof -
  define a where "a = ''/Assets/working/'' @ fk @ ''/'' @ ''dummy.file''"
  define r1 where "r1 = py_dict_update [(''result'', JStr ''success''), (''asset'', JStr a)] kvs"
  obtain w1 item1 au1 where mv: "move_handle now wid (w, OUTPUT) (JObj kvs) = ((w1, Some r1), Inr (Done (JObj r1)))"
    and w1: "''/Assets/working/'' @ fk \<in> set (dirs w1)" "map_of (cat w1) k = Some item1"
      "map_of item1 ''Audit'' = Some (JArr au1)"
    using move_archive_step [OF assms(3-10), of now wid OUTPUT] unfolding r1_def a_def by blast
  have ga: "py_getitem (JObj r1) ''asset'' = Inr (JStr a)"
    using assms(1,2) by (simp add: r1_def map_of_py_dict_update map_add_def map_of_rev_distinct)
  define r2 where "r2 = py_dict_update [(''result'', JStr ''success'')] r1"
  define w2 where "w2 = w1\<lparr>files := filter (\<lambda>(p, _). \<not> below (''/Assets/working/'' @ fk) p) (files w1),
    dirs := filter (\<lambda>p. \<not> below (''/Assets/working/'' @ fk) p) (dirs w1)\<rparr>"
  have cl: "cleanup_handle w1 (JObj r1) = (w2, Inr (Done (JObj r2)))"
    unfolding w2_def r2_def by (rule cleanup_step [OF ga dummy_split [OF assms(7,8), folded a_def] w1(1)])
  have d1: "distinct (map fst r1)"
    unfolding r1_def by (rule distinct_py_dict_update) simp
  have g: "py_getitem (JObj r2) x = Inr v" if "map_of kvs x = Some v" for x v
  proof -
    have "map_of r1 x = Some v"
      using that assms(1) by (simp add: r1_def map_of_py_dict_update map_add_def map_of_rev_distinct)
    then show ?thesis unfolding r2_def py_getitem_dict_update [OF d1] by simp
  qed
  obtain w3 where del: "delete_handle now wid w2 (JObj r2) = (w3, Inr (Done (JObj [(''result'', JStr ''success'')])))"
    and w3: "s3_keys w3 (fk @ ''/'') = []" "files w3 = files w2"
      "\<exists>item'. map_of (cat w3) k = Some item' \<and> map_of item' ''File_Location'' = Some (JStr ''archive'')"
    using delete_s3_step [OF g [OF assms(3)] g [OF assms(4)] g [OF assms(5)] g [OF assms(6)], of w2 item1 au1 now wid] w1(2,3)
    by (auto simp: w2_def)
  have "lifecycle_archive_chain now wid w OUTPUT (JObj kvs) = Some w3"
    by (simp add: lifecycle_archive_chain_def mv cl del)
  moreover have "filter (\<lambda>(p, _). below (''/Assets/working/'' @ fk) p) (files w3) = []"
    by (simp add: w3(2) w2_def filter_empty_conv case_prod_unfold)
  ultimately show ?thesis using w3(1,3) by blast
qed

theorem archive_move_destroys_copies_witness:
  "distinct (map fst [(''locationSource'', JStr ''CDN''), (''locationDestination'', JStr ''archive''),
      (''dbPrimaryKey'', JObj [(''Checksum'', JStr ''c1'')]), (''fileKey'', JStr ''f1'')])
   \<and> (\<exists>w3. lifecycle_archive_chain ''t0'' ''w0''
      \<lparr>cat = [(JStr ''c1'', [(''Checksum'', JStr ''c1''), (''Audit'', JArr [])])], files = [], dirs = [],
       bucket = [(''f1/a.jpg'', (''x'', ''STANDARD''))]\<rparr> None
      (JObj [(''locationSource'', JStr ''CDN''), (''locationDestination'', JStr ''archive''),
      (''dbPrimaryKey'', JObj [(''Checksum'', JStr ''c1'')]), (''fileKey'', JStr ''f1'')]) = Some w3
    \<and> s3_keys w3 (''f1'' @ ''/'') = []
    \<and> filter (\<lambda>(p, _). below (''/Assets/working/'' @ ''f1'') p) (files w3) = []
    \<and> (\<exists>item'. map_of (cat w3) (JStr ''c1'') = Some item' \<and> map_of item' ''File_Location'' = Some (JStr ''archive'')))"
  using archive_move_destroys_copies [where kvs = "[(''locationSource'', JStr ''CDN''), (''locationDestination'', JStr ''archive''),
      (''dbPrimaryKey'', JObj [(''Checksum'', JStr ''c1'')]), (''fileKey'', JStr ''f1'')]"
    and k = "JStr ''c1''" and fk = "''f1''" and item = "[(''Checksum'', JStr ''c1''), (''Audit'', JArr [])]" and au = "[]"
    and w = "\<lparr>cat = [(JStr ''c1'', [(''Checksum'', JStr ''c1''), (''Audit'', JArr [])])], files = [], dirs = [],
       bucket = [(''f1/a.jpg'', (''x'', ''STANDARD''))]\<rparr>" and now = "''t0''" and wid = "''w0''" and OUTPUT = None]
  by simp

end
