(* ===== verification/Harness.thy ===== *)
theory Harness
  imports Ingestion Lifecycle Derive
begin

text \<open>
  The test harness \<open>src/workflowcode/testHarness.py\<close>.  \<open>runTest\<close> stages a
  sample upload (an image or, with argument \<open>V\<close>, a video): it copies the
  sample directory from \<open>/Assets/test\<close> to the landing pad \<open>/Assets/upload\<close>,
  deletes the sample's catalog entry so that registration starts afresh, and
  starts an ingestion execution whose input names the copied file and carries
  user metadata with an audit record.  \<open>delTest\<close> starts a lifecycle execution
  that deletes a fixed asset from the CDN.  The harness is a script against the
  live services; what is modelled is what it hands the deciders and what it
  changes in the world before.  \<open>transcodeTest\<close>, \<open>dbTest\<close> and \<open>dbTest2\<close> are
  experiments that \<open>main\<close> does not call; they are modelled with their effect on
  the world and their exceptions.
\<close>

definition harness_testV :: string where
  "harness_testV = ''/trim.6A7FE5FA-5321-4BF1-87D7-D26937142263_76ed9582-7da6-44ef-a0af-e22596297573/'' @
     ''trim.6A7FE5FA-5321-4BF1-87D7-D26937142263_76ed9582-7da6-44ef-a0af-e22596297573.MOV''"

definition harness_testI :: string where
  "harness_testI = ''/image_509b2a45-de95-4757-9a4e-58d1e28b362a/image_509b2a45-de95-4757-9a4e-58d1e28b362a.jpeg''"

text \<open>The sample and its checksum for the harness's first argument.\<close>

definition harness_sample :: "string \<Rightarrow> string \<times> string" where
  "harness_sample mode =
     (if mode = ''V'' then (harness_testV, ''6e508f0ed03da2b98ceb091827b569877037d1ef'')
      else (harness_testI, ''afbf98c0070e5f048c21d7d17e24cd05401971f7''))"

text \<open>\<open>shutil.copytree(src, dst)\<close>: the tree below \<open>src\<close> reappears below
  \<open>dst\<close>; a missing source or an existing destination raises \<open>OSError\<close>.\<close>

definition copytree :: "string \<Rightarrow> string \<Rightarrow> world \<Rightarrow> world py" where
  "copytree src dst w =
     (if \<not> dir_exists w src then Inl (OSError src)
      else if dir_exists w dst then Inl (OSError dst)
      else Inr (w\<lparr>files := files w @ map (\<lambda>(p, c). (dst @ drop (length src) p, c))
                                        (filter (\<lambda>(p, _). below src p) (files w)),
                 dirs := dirs w @ dst # map (\<lambda>d. dst @ drop (length src) d) (filter (\<lambda>d. below src d \<and> d \<noteq> src) (dirs w))\<rparr>))"

text \<open>\<open>databaseHelper.deleteEntry(key)\<close>: the item under the key is removed.\<close>

definition delete_entry :: "jval \<Rightarrow> world \<Rightarrow> world" where
  "delete_entry k w = w\<lparr>cat := AList.delete k (cat w)\<rparr>"

text \<open>The module-level \<open>AUDIT\<close> and \<open>MA\<close> as \<open>runTest\<close> fills them.\<close>

definition harness_audit :: "string \<Rightarrow> jval" where
  "harness_audit now =
     JObj [(''User'', JStr ''System''), (''Timestamp'', JStr now), (''Action'', JStr ''File uploaded''),
           (''Notes'', JStr ''test harness'')]"

definition harness_metadata :: "string \<Rightarrow> jval" where
  "harness_metadata now = JObj [(''Description'', JStr ''test harness run''), (''Audit'', JArr [harness_audit now])]"

text \<open>\<open>runTest(args)\<close>: the world after the staging, the workflow id and the
  input of the execution it starts.\<close>

definition run_test :: "string \<Rightarrow> string list \<Rightarrow> world \<Rightarrow> (world \<times> string \<times> jval) py" where
  "run_test now args w =
     py_bind (py_index args 1) (\<lambda>mode.
       let (fileIn, sha1) = harness_sample mode;
           dir = path_head fileIn
       in py_bind (copytree (''/Assets/test'' @ dir) (''/Assets/upload'' @ dir) w) (\<lambda>w1.
            let w2 = delete_entry (JStr sha1) w1;
                INPUT = JObj [(''fileName'', JStr (''/Assets/upload'' @ fileIn)), (''metadata'', harness_metadata now)]
            in py_bind (py_index args 2) (\<lambda>wid. Inr (w2, ''test-'' @ wid, INPUT))))"

text \<open>\<open>delTest(args)\<close>: the branch on \<open>args[1]\<close> is overridden by the fixed
  checksum and file key assigned after it.\<close>

definition del_test :: "string list \<Rightarrow> (string \<times> jval) py" where
  "del_test args =
     py_bind (py_index args 1) (\<lambda>mode.
       let sha1 = ''fc7a224388045ba3ffb1d6e647c331d747ca46c8'';
           fileKey = ''trim.74CFE8B3-6DE3-406B-8A45-37B3BB9F9E69_850995df-b3eb-47b6-bb35-d6f9b453ce3e'';
           INPUT = JObj [(''dbPrimaryKey'', JObj [(''Checksum'', JStr sha1)]), (''fileKey'', JStr fileKey),
                         (''assetClass'', JStr ''Video''), (''locationSource'', JStr ''CDN''),
                         (''locationDestination'', JStr ''delete'')]
       in py_bind (py_index args 2) (\<lambda>wid. Inr (''test-'' @ wid, INPUT)))"

text \<open>\<open>main(args)\<close>: only \<open>runTest\<close> is called; the experiments below are
  commented out there.\<close>

definition harness_main :: "string \<Rightarrow> string list \<Rightarrow> world \<Rightarrow> (world \<times> string \<times> jval) py" where
  "harness_main now args w = run_test now args w"

section \<open>The experiments\<close>

text \<open>\<open>transcodeTest()\<close>: the video thumbnail logic of
  \<open>createThumbnailFromVideo.py\<close> run on the video sample in \<open>/Assets/test\<close>,
  with \<open>-s 640x360\<close> instead of a scale filter and storyboard cues that name the
  thumbnails by a relative path.  The catalog update is commented out, so the
  values it would write are returned instead.\<close>

definition tt_cmd :: "string \<Rightarrow> string \<Rightarrow> string \<Rightarrow> string list" where
  "tt_cmd asset subDir outfile =
     [''ffmpeg'', ''-y'', ''-i'', asset, ''-s'', ''640x360'', ''-vf'', ''fps='' @ py_str_nat 1, subDir @ ''/'' @ outfile]"

definition tt_cue :: "string \<Rightarrow> nat \<Rightarrow> string" where
  "tt_cue fileName i =
     (let fps = 1; startSecond = i * (1 div fps); endSecond = (i + 1) * (1 div fps)
      in ''\<newline>\<newline>'' @ vtt_span startSecond @ '' --> '' @ vtt_span endSecond @ ''\<newline>'' @
         ''thumbnails/'' @ fileName @ ''_thumbnail_'' @ py_str_nat (i + 1) @ ''.jpg'')"

definition transcode_test :: "tool \<Rightarrow> world \<Rightarrow> (world \<times> string \<times> string) py" where
  "transcode_test tool w =
     (let asset = ''/Assets/test'' @ harness_testV;
          newDir = ''thumbnails'';
          (filePath, fileName, fileExt) = split_filename asset;
          (subDir, w1) = create_dir filePath newDir w;
          outfile = fileName @ ''_thumbnail_%d.jpg'';
          vtt = fileName @ ''.vtt''
      in case run_tool tool (tt_cmd asset subDir outfile) w1 of
           Inl err \<Rightarrow> Inl (CalledProcessError err)
         | Inr (output, w2) \<Rightarrow>
             (let counter = thumb_count w2 subDir;
                  w3 = write_file (subDir @ ''/'' @ vtt) (''WEBVTT'' @ concat (map (tt_cue fileName) [0..<counter])) w2;
                  thumbnail = newDir @ ''/'' @ fileName @ ''_thumbnail_'' @ py_str_nat (key_frame counter) @ ''.jpg''
              in Inr (w3, thumbnail, newDir @ ''/'' @ vtt)))"

text \<open>\<open>table.update_item(Key = key, UpdateExpression = 'set a.b = :t',
  ReturnValues = 'UPDATED_OLD')\<close>: a nested path can be set only inside an
  existing map attribute, otherwise the service raises a \<open>ValidationException\<close>;
  the answer's \<open>Attributes\<close> hold the old value at the path, if there was one
  (an empty document otherwise).  An absent item is created from its key.\<close>

definition set_nested :: "jval \<Rightarrow> string \<Rightarrow> string \<Rightarrow> jval \<Rightarrow> catalog \<Rightarrow> (catalog \<times> jval) py" where
  "set_nested key a b v c =
     py_bind (catalog_key key) (\<lambda>k.
       let item = (case map_of c k of Some i \<Rightarrow> i | None \<Rightarrow> [(''Checksum'', k)])
       in case map_of item a of
            Some (JObj m) \<Rightarrow>
              Inr (AList.update k (AList.update a (JObj (AList.update b v m)) item) c,
                   case map_of m b of Some old \<Rightarrow> JObj [(a, JObj [(b, old)])] | None \<Rightarrow> JObj [])
          | _ \<Rightarrow> Inl (ClientError ''ValidationException''))"

text \<open>\<open>dbTest()\<close>: sets \<open>thumbnails.thumbnail\<close> of the image sample's entry.
  Its \<open>except\<close> clause evaluates \<open>{':t': M}\<close> on a \<open>ValidationException\<close>,
  and \<open>M\<close> is defined nowhere; any other client error is swallowed, and the
  following \<open>print response\<close> reads a variable that was never assigned.\<close>

definition db_test :: "world \<Rightarrow> (world \<times> jval) py" where
  "db_test w =
     (let key = JObj [(''Checksum'', JStr ''afbf98c0070e5f048c21d7d17e24cd05401971f7'')];
          t = JStr ''thumbnails/image_509b2a45-de95-4757-9a4e-58d1e28b362a_thumbnail.jpg''
      in case set_nested key ''thumbnails'' ''thumbnail'' t (cat w) of
           Inr (c, response) \<Rightarrow> Inr (w\<lparr>cat := c\<rparr>, response)
         | Inl (ClientError code) \<Rightarrow>
             if code = ''ValidationException'' then Inl (NameError ''M'') else Inl (UnboundLocalError ''response'')
         | Inl e \<Rightarrow> Inl e)"

text \<open>\<open>dbTest2()\<close>: \<open>set #f = :t\<close> with \<open>#f\<close> the attribute name
  \<open>File Location\<close> (with a space) and \<open>:t\<close> the tier \<open>CDN\<close>; the answer is
  discarded.\<close>

definition db_test2 :: "world \<Rightarrow> world py" where
  "db_test2 w =
     world_update_entry (JObj [(''Checksum'', JStr ''76b5f1bc9100b32447e6116b321c14e51cd59fe3'')])
       [(''File Location'', SetTo (JStr ''CDN''))] w"

section \<open>Lemmas\<close>

lemma run_test_Inr:
  assumes "run_test now args w = Inr (w', wid, INPUT)"
  shows "\<exists>mode. INPUT = JObj [(''fileName'', JStr (''/Assets/upload'' @ fst (harness_sample mode))),
                             (''metadata'', harness_metadata now)]
    \<and> map_of (cat w') (JStr (snd (harness_sample mode))) = None"
  using assms
  by (auto simp: run_test_def py_bind_Inr_iff case_prod_unfold Let_def copytree_def delete_entry_def
      delete_conv' split: if_splits)

text \<open>The execution \<open>runTest\<close> starts is classified first: its start makes the
  ingestion decider schedule \<open>identifyAssetClass\<close> on the copied file, with
  the harness's metadata.\<close>

lemma run_test_starts_ingestion:
  assumes "run_test now args w = Inr (w', wid, INPUT)" "list_all decision_event ds"
  shows "\<exists>f. ingest_step st u \<lparr>taskToken = Some tok, events = Some (pre @ WorkflowExecutionStarted (Some INPUT) # ds)\<rparr> =
    (st\<lparr>taskName := Some ''identifyAssetClass''\<rparr>,
     Respond tok (ScheduleActivityTask (''activityid-'' @ u) ''identifyAssetClass'' ''1''
       (JObj [(''asset'', JStr (''/Assets/upload'' @ f)), (''metadata'', harness_metadata now)]) ''identifyAssetClass''))"
proof -
  obtain mode where I: "INPUT = JObj [(''fileName'', JStr (''/Assets/upload'' @ fst (harness_sample mode))),
      (''metadata'', harness_metadata now)]"
    using run_test_Inr [OF assms(1)] by blast
  have "\<not> decision_event (WorkflowExecutionStarted (Some INPUT))"
    by (simp add: decision_event_def py_startswith_def)
  then show ?thesis
    using assms(2)
    by (simp add: I ingest_step_def ingest_decide_def last_workflow_event_suffix ingest_on_started_def
        executeNextTask_def ingest_names)
qed

text \<open>The execution \<open>delTest\<close> starts goes straight to \<open>deleteFiles\<close>.\<close>

lemma del_test_starts_delete:
  assumes "del_test args = Inr (wid, INPUT)" "list_all decision_event ds"
  shows "fm_step u \<lparr>taskToken = Some tok, events = Some (pre @ WorkflowExecutionStarted (Some INPUT) # ds)\<rparr> =
    Respond tok (ScheduleActivityTask (''activityid-'' @ u) ''deleteFiles'' ''1'' INPUT ''deleteFiles'')"
proof -
  have I: "INPUT = JObj [(''dbPrimaryKey'', JObj [(''Checksum'', JStr ''fc7a224388045ba3ffb1d6e647c331d747ca46c8'')]),
      (''fileKey'', JStr ''trim.74CFE8B3-6DE3-406B-8A45-37B3BB9F9E69_850995df-b3eb-47b6-bb35-d6f9b453ce3e''),
      (''assetClass'', JStr ''Video''), (''locationSource'', JStr ''CDN''), (''locationDestination'', JStr ''delete'')]"
    using assms(1) by (auto simp: del_test_def py_bind_Inr_iff Let_def)
  show ?thesis
    using assms(2)
    by (simp add: I fm_step_events fm_decide_started fm_on_started_def fm_executeNextTask_def fm_names Let_def)
qed

text \<open>\<open>transcodeTest\<close> changes neither the catalog nor the bucket (its catalog
  update is commented out), and the only exception it raises is that of a
  failing \<open>ffmpeg\<close>.\<close>

lemma transcode_test_keeps_catalog:
  "transcode_test tool w = Inr (w', t, s) \<Longrightarrow> cat w' = cat w \<and> bucket w' = bucket w"
  by (auto simp: transcode_test_def Let_def write_file_def case_prod_unfold dest!: run_tool_cat
      split: sum.splits)

lemma transcode_test_raises:
  "transcode_test tool w = Inl e \<Longrightarrow> \<exists>err. e = CalledProcessError err"
  by (auto simp: transcode_test_def Let_def case_prod_unfold split: sum.splits)

text \<open>Its storyboard cues are those of the video thumbnail worker with the
  thumbnail's CloudFront URL replaced by a path relative to the asset's
  directory.\<close>

lemma tt_cue_vs_worker:
  "\<exists>A B. tt_cue fn i = A @ B \<and> vtt_cue fn i = A @ vtt_base_url @ ''/'' @ fn @ ''/'' @ B"
  by (rule exI [of _ "''\<newline>\<newline>'' @ vtt_span i @ '' --> '' @ vtt_span (i + 1) @ ''\<newline>''"])
     (simp add: tt_cue_def vtt_cue_def thumb_fps_def Let_def)

text \<open>\<open>dbTest\<close> dies with \<open>NameError\<close> on \<open>M\<close> exactly when the sample's
  entry has no map attribute \<open>thumbnails\<close> (in particular when it is absent,
  and for every entry the workers write, whose \<open>thumbnail\<close> is a top-level
  attribute).\<close>

lemma db_test_name_error:
  "db_test w = Inl (NameError ''M'') \<longleftrightarrow>
     (case map_of (cat w) (JStr ''afbf98c0070e5f048c21d7d17e24cd05401971f7'') of
        None \<Rightarrow> True
      | Some item \<Rightarrow> (\<forall>m. map_of item ''thumbnails'' \<noteq> Some (JObj m)))"
  by (auto simp: db_test_def set_nested_def catalog_key_def Let_def
      split: option.splits jval.splits sum.splits prod.splits)

text \<open>\<open>dbTest2\<close> marks the entry as on the CDN under the attribute
  \<open>File Location\<close>, which no worker reads: the attribute the workers write and
  read, \<open>File_Location\<close>, keeps its value.\<close>

lemma db_test2_location:
  "\<exists>w' item. db_test2 w = Inr w'
     \<and> map_of (cat w') (JStr ''76b5f1bc9100b32447e6116b321c14e51cd59fe3'') = Some item
     \<and> map_of item ''File Location'' = Some (JStr ''CDN'')
     \<and> map_of item ''File_Location'' =
         (case map_of (cat w) (JStr ''76b5f1bc9100b32447e6116b321c14e51cd59fe3'') of
            None \<Rightarrow> None | Some old \<Rightarrow> map_of old ''File_Location'')"
  by (simp add: db_test2_def world_update_entry_key update_conv' split: option.split)

end
