(* ===== verification/Broker.thy ===== *)
theory Broker
  imports Ingestion Lifecycle
begin

text \<open>
  The broker (SWF) as the deciders and workers of the repository see it,
  modelled from the specification (sections 2 to 6), since its code is not
  part of the repository.  One execution is a record: its history, whether a
  decision task is outstanding, the activity tasks scheduled and not yet
  reported (each named by the id of its \<open>ActivityTaskScheduled\<close> event, which
  is what a completion event refers to and what the task token stands for),
  and the result once the execution is closed.  A step is one of: the decider
  answers the outstanding decision task (the answer is a function \<open>dec\<close> of
  the history, instantiated below by the two deciders of the repository), or
  a worker reports one outstanding activity task as completed or failed with
  any output (the workers of the other theories are particular reporters).
  Event ids count from 1, as \<open>events[scheduledEventId - 1]\<close> in the deciders
  assumes.  \<open>ActivityTaskStarted\<close> and the timeout events are not modelled.
\<close>

record execution =
  hist :: "event list"
  decision_open :: bool
  open_acts :: "int list"
  closed :: "string option"

text \<open>\<open>start_workflow_execution(input = p)\<close>: the start event and the first
  decision task.\<close>

definition broker_start :: "jval \<Rightarrow> execution" where
  "broker_start p =
     \<lparr>hist = [WorkflowExecutionStarted (Some p), OtherEvent ''DecisionTaskScheduled''],
      decision_open = True, open_acts = [], closed = None\<rparr>"

text \<open>A worker's \<open>respond_activity_task_completed\<close> or \<open>_failed\<close> for the task of
  id \<open>sid\<close>: the report event is appended, the task retired, and a decision task
  scheduled.\<close>

definition broker_report :: "execution \<Rightarrow> int \<Rightarrow> event \<Rightarrow> execution" where
  "broker_report x sid e =
     x\<lparr>hist := hist x @ [e, OtherEvent ''DecisionTaskScheduled''],
       open_acts := remove1 sid (open_acts x), decision_open := True\<rparr>"

inductive broker_step :: "(event list \<Rightarrow> outcome) \<Rightarrow> execution \<Rightarrow> execution \<Rightarrow> bool" for dec where
  schedule: "decision_open x \<Longrightarrow> closed x = None \<Longrightarrow>
    dec (hist x) = Respond tok (ScheduleActivityTask aid n v inp l) \<Longrightarrow>
    broker_step dec x (x\<lparr>hist := hist x @ [OtherEvent ''DecisionTaskCompleted'', ActivityTaskScheduled n (Some inp)],
                         decision_open := False, open_acts := open_acts x @ [int (length (hist x)) + 2]\<rparr>)"
| complete: "decision_open x \<Longrightarrow> closed x = None \<Longrightarrow>
    dec (hist x) = Respond tok (CompleteWorkflowExecution r) \<Longrightarrow>
    broker_step dec x (x\<lparr>hist := hist x @ [OtherEvent ''DecisionTaskCompleted'', OtherEvent ''WorkflowExecutionCompleted''],
                         decision_open := False, closed := Some r\<rparr>)"
| report_done: "sid \<in> set (open_acts x) \<Longrightarrow>
    broker_step dec x (broker_report x sid (ActivityTaskCompleted sid (Some out)))"
| report_fail: "sid \<in> set (open_acts x) \<Longrightarrow>
    broker_step dec x (broker_report x sid (ActivityTaskFailed sid (Some reason) (Some detail)))"

inductive reachable_exec :: "(event list \<Rightarrow> outcome) \<Rightarrow> jval \<Rightarrow> execution \<Rightarrow> bool" for dec p where
  start: "reachable_exec dec p (broker_start p)"
| step: "reachable_exec dec p x \<Longrightarrow> broker_step dec x y \<Longrightarrow> reachable_exec dec p y"

text \<open>The deciders of the repository as the broker runs them: each decision
  task is answered by a decider process with its initial locals (the
  answer the broker receives; a task left unanswered or a crash is no answer).\<close>

definition ingest_dec :: "string \<Rightarrow> string \<Rightarrow> event list \<Rightarrow> outcome" where
  "ingest_dec u tok evs = snd (ingest_step ingest_init u \<lparr>taskToken = Some tok, events = Some evs\<rparr>)"

definition fm_dec :: "string \<Rightarrow> string \<Rightarrow> event list \<Rightarrow> outcome" where
  "fm_dec u tok evs = fm_step u \<lparr>taskToken = Some tok, events = Some evs\<rparr>"

section \<open>The protocol invariant\<close>

text \<open>The task id a report event retires.\<close>

fun report_id :: "event \<Rightarrow> int option" where
  "report_id (ActivityTaskCompleted sid _) = Some sid"
| "report_id (ActivityTaskFailed sid _ _) = Some sid"
| "report_id _ = None"

definition reported_ids :: "event list \<Rightarrow> int list" where
  "reported_ids evs = List.map_filter report_id evs"

text \<open>Id \<open>sid\<close> is that of an \<open>ActivityTaskScheduled\<close> event of the history.\<close>

definition scheduled_at :: "event list \<Rightarrow> int \<Rightarrow> bool" where
  "scheduled_at evs sid =
     (0 < sid \<and> nat sid \<le> length evs \<and> (\<exists>n i. evs ! nat (sid - 1) = ActivityTaskScheduled n i))"

text \<open>One unit of work is outstanding while the execution runs (the decision
  task or one activity task), none after it closed; every outstanding or
  reported id is that of a scheduled activity; no id is reported twice, and an
  outstanding one not at all.\<close>

definition exec_inv :: "execution \<Rightarrow> bool" where
  "exec_inv x =
     ((case closed x of
         None \<Rightarrow> (decision_open x \<and> open_acts x = []) \<or> (\<not> decision_open x \<and> length (open_acts x) = 1)
       | Some _ \<Rightarrow> \<not> decision_open x \<and> open_acts x = [])
      \<and> list_all (scheduled_at (hist x)) (open_acts x)
      \<and> list_all (scheduled_at (hist x)) (reported_ids (hist x))
      \<and> distinct (reported_ids (hist x))
      \<and> list_all (\<lambda>sid. sid \<notin> set (reported_ids (hist x))) (open_acts x))"

section \<open>Lemmas\<close>

lemma reported_ids_append [simp]: "reported_ids (evs @ ys) = reported_ids evs @ reported_ids ys"
  by (simp add: reported_ids_def map_filter_def)

lemma reported_ids_simps [simp]:
  "reported_ids [] = []"
  "reported_ids (e # evs) = (case report_id e of Some sid \<Rightarrow> sid # reported_ids evs | None \<Rightarrow> reported_ids evs)"
  by (simp_all add: reported_ids_def map_filter_def split: option.split)

lemma scheduled_at_append:
  "scheduled_at evs sid \<Longrightarrow> scheduled_at (evs @ ys) sid"
  by (auto simp: scheduled_at_def nth_append)

lemma scheduled_at_le: "scheduled_at evs sid \<Longrightarrow> sid \<le> int (length evs)"
  by (simp add: scheduled_at_def nat_le_iff)

lemma scheduled_at_new:
  "scheduled_at (evs @ [e0, ActivityTaskScheduled n i]) (int (length evs) + 2)"
proof -
  have "nat (int (length evs) + 2 - 1) = Suc (length evs)" by simp
  then show ?thesis by (simp add: scheduled_at_def nth_append)
qed

lemma exec_inv_start: "exec_inv (broker_start p)"
  by (simp add: exec_inv_def broker_start_def)

text \<open>Both kinds of report retire the task they name and hand the execution
  back to the decider.\<close>

lemma exec_inv_report:
  assumes "exec_inv x" "sid \<in> set (open_acts x)" "report_id e = Some sid"
  shows "exec_inv (broker_report x sid e)"
proof -
  from assms(1,2) have run: "closed x = None" and one: "open_acts x = [sid]"
    by (auto simp: exec_inv_def length_Suc_conv split: option.splits)
  from assms(1) one have s: "scheduled_at (hist x) sid" and fresh: "sid \<notin> set (reported_ids (hist x))"
    and old: "list_all (scheduled_at (hist x)) (reported_ids (hist x))" "distinct (reported_ids (hist x))"
    by (simp_all add: exec_inv_def)
  have "list_all (scheduled_at (hist x @ [e, OtherEvent ''DecisionTaskScheduled''])) (reported_ids (hist x) @ [sid])"
    using old(1) s by (auto simp: list_all_iff intro: scheduled_at_append)
  with run one fresh old(2) assms(3) show ?thesis
    by (simp add: exec_inv_def broker_report_def)
qed

lemma broker_step_inv: "broker_step dec x y \<Longrightarrow> exec_inv x \<Longrightarrow> exec_inv y"
proof (induction rule: broker_step.induct)
  case (schedule x tok aid n v inp l)
  then have none: "open_acts x = []" by (simp add: exec_inv_def)
  have "\<forall>sid \<in> set (reported_ids (hist x)). sid \<le> int (length (hist x))"
    using schedule.prems by (auto simp: exec_inv_def list_all_iff intro: scheduled_at_le)
  then have "int (length (hist x)) + 2 \<notin> set (reported_ids (hist x))" by force
  with schedule none show ?case
    by (auto simp: exec_inv_def list_all_iff scheduled_at_new intro: scheduled_at_append)
next
  case (complete x tok r)
  then show ?case by (auto simp: exec_inv_def list_all_iff intro: scheduled_at_append)
next
  case (report_done sid x out)
  show ?case by (rule exec_inv_report [OF report_done.prems report_done.hyps]) simp
next
  case (report_fail sid x reason detail)
  show ?case by (rule exec_inv_report [OF report_fail.prems report_fail.hyps]) simp
qed

lemma reachable_exec_inv: "reachable_exec dec p x \<Longrightarrow> exec_inv x"
proof (induction rule: reachable_exec.induct)
  case start
  show ?case by (rule exec_inv_start)
next
  case (step x y)
  then show ?case by (blast intro: broker_step_inv)
qed

lemma exec_inv_one_open: "exec_inv x \<Longrightarrow> sid \<in> set (open_acts x) \<Longrightarrow> open_acts x = [sid] \<and> closed x = None"
  by (auto simp: exec_inv_def length_Suc_conv split: option.splits)

text \<open>The broker hands a reported completion to the lifecycle decider with the
  name of the activity it scheduled under that id.\<close>

lemma fm_dec_report_done:
  assumes "scheduled_at (hist x) sid" "hist x ! nat (sid - 1) = ActivityTaskScheduled n i"
  shows "fm_dec u tok (hist (broker_report x sid (ActivityTaskCompleted sid (Some r)))) =
    (case fm_on_completed u tok n r of Inl e \<Rightarrow> Crash e | Inr out \<Rightarrow> out)"
proof -
  have "list_all decision_event [OtherEvent ''DecisionTaskScheduled'']"
    by (simp add: decision_event_def py_startswith_def)
  with assms show ?thesis
    by (simp add: fm_dec_def fm_step_events broker_report_def scheduled_at_def fm_decide_completed)
qed

lemma fm_dec_start:
  "fm_dec u tok (hist (broker_start p)) =
     (case fm_on_started u tok (WorkflowExecutionStarted (Some p)) of Inl e \<Rightarrow> Crash e | Inr out \<Rightarrow> out)"
proof -
  have "list_all decision_event [OtherEvent ''DecisionTaskScheduled'']"
    by (simp add: decision_event_def py_startswith_def)
  then show ?thesis
    using fm_decide_started [of "[OtherEvent ''DecisionTaskScheduled'']" u tok "[]" p]
    by (simp add: fm_dec_def fm_step_events broker_start_def)
qed

text \<open>A lifecycle execution whose destination is \<open>delete\<close> runs to its end: the
  decider schedules \<open>deleteFiles\<close> (the activity of id 4), and once a worker
  reports it completed, with any output, the decider closes the execution with
  \<open>success\<close>.\<close>

lemma fm_delete_run:
  assumes "py_getitem p ''locationDestination'' = Inr (JStr ''delete'')"
  shows "reachable_exec (fm_dec u tok) p (broker_start p\<lparr>hist := hist (broker_start p) @
            [OtherEvent ''DecisionTaskCompleted'', ActivityTaskScheduled ''deleteFiles'' (Some p)],
            decision_open := False, open_acts := [4]\<rparr>)" (is "reachable_exec ?d p ?x1")
    and "\<exists>x. reachable_exec (fm_dec u tok) p x \<and> closed x = Some ''success''"
proof -
  have "?d (hist (broker_start p)) =
      Respond tok (ScheduleActivityTask (''activityid-'' @ u) ''deleteFiles'' ''1'' p ''deleteFiles'')"
    using assms by (simp add: fm_dec_start fm_on_started_def fm_executeNextTask_def fm_names Let_def)
  then have "broker_step ?d (broker_start p) ?x1"
    using broker_step.schedule [of "broker_start p" ?d tok _ "''deleteFiles''" _ p]
    by (simp add: broker_start_def)
  then show x1: "reachable_exec ?d p ?x1"
    by (blast intro: reachable_exec.intros)
  define x2 where "x2 = broker_report ?x1 4 (ActivityTaskCompleted 4 (Some (JObj [])))"
  have "broker_step ?d ?x1 x2"
    unfolding x2_def by (rule broker_step.report_done) simp
  with x1 have r2: "reachable_exec ?d p x2" by (blast intro: reachable_exec.intros)
  have s: "scheduled_at (hist ?x1) 4" "hist ?x1 ! nat (4 - 1) = ActivityTaskScheduled ''deleteFiles'' (Some p)"
    by (simp_all add: scheduled_at_def broker_start_def)
  have "?d (hist x2) = (case fm_on_completed u tok ''deleteFiles'' (JObj []) of Inl e \<Rightarrow> Crash e | Inr out \<Rightarrow> out)"
    unfolding x2_def by (rule fm_dec_report_done [OF s])
  also have "\<dots> = Respond tok (CompleteWorkflowExecution ''success'')"
    by (simp only: fm_on_completed_delete sum.case)
  finally have d: "?d (hist x2) = Respond tok (CompleteWorkflowExecution ''success'')" .
  have o: "decision_open x2" and c: "closed x2 = None"
    by (simp_all add: x2_def broker_report_def broker_start_def)
  define x3 where "x3 = x2\<lparr>hist := hist x2 @ [OtherEvent ''DecisionTaskCompleted'', OtherEvent ''WorkflowExecutionCompleted''],
                         decision_open := False, closed := Some ''success''\<rparr>"
  have "reachable_exec ?d p x3"
    unfolding x3_def by (rule reachable_exec.step [OF r2 broker_step.complete [where dec = "fm_dec u tok" and x = x2, OF o c d]])
  moreover have "closed x3 = Some ''success''" by (simp add: x3_def)
  ultimately show "\<exists>x. reachable_exec ?d p x \<and> closed x = Some ''success''" by blast
qed

lemma delete_input_getitem: "py_getitem (JObj [(''locationDestination'', JStr ''delete'')]) ''locationDestination'' = Inr (JStr ''delete'')"
  by (simp add: py_simps)

section \<open>Properties\<close>



text \<open>C38.  Under the broker, once a worker reports its activity task as failed,
  the execution of either pipeline stalls for good: it is still open, no
  activity task is outstanding, and no further step is possible, since the
  decider takes the decision task and answers nothing (the specification has
  the execution closed with the failure).\<close>

theorem failed_task_stalls:
  assumes "dec = ingest_dec u tok \<or> dec = fm_dec u tok" "reachable_exec dec p x" "sid \<in> set (open_acts x)"
  shows "reachable_exec dec p (broker_report x sid (ActivityTaskFailed sid (Some reason) (Some detail)))
    \<and> closed (broker_report x sid (ActivityTaskFailed sid (Some reason) (Some detail))) = None
    \<and> open_acts (broker_report x sid (ActivityTaskFailed sid (Some reason) (Some detail))) = []
    \<and> (\<forall>z. \<not> broker_step dec (broker_report x sid (ActivityTaskFailed sid (Some reason) (Some detail))) z)"
    (is "reachable_exec dec p ?y \<and> _ \<and> _ \<and> _")
proof -
  have one: "open_acts x = [sid] \<and> closed x = None"
    by (rule exec_inv_one_open [OF reachable_exec_inv [OF assms(2)] assms(3)])
  have r: "reachable_exec dec p ?y"
    by (rule reachable_exec.step [OF assms(2) broker_step.report_fail [where dec = dec, OF assms(3)]])
  have "list_all decision_event [OtherEvent ''DecisionTaskScheduled'']"
    by (simp add: decision_event_def py_startswith_def)
  then have nd: "dec (hist ?y) = NoDecision"
    using assms(1) by (auto simp: broker_report_def ingest_dec_def fm_dec_def ingest_step_def ingest_decide_def
        fm_step_events fm_decide_def last_workflow_event_suffix decision_event_def py_startswith_def)
  have "\<not> broker_step dec ?y z" for z
  proof
    assume "broker_step dec ?y z"
    then show False
      by cases (use nd one in \<open>simp_all add: broker_report_def\<close>)
  qed
  with r one show ?thesis by (simp add: broker_report_def)
qed

theorem failed_task_stalls_witness:
  "\<exists>x. reachable_exec (fm_dec ''u'' ''tk'') (JObj [(''locationDestination'', JStr ''delete'')]) x
     \<and> 4 \<in> set (open_acts x)
     \<and> reachable_exec (fm_dec ''u'' ''tk'') (JObj [(''locationDestination'', JStr ''delete'')])
          (broker_report x 4 (ActivityTaskFailed 4 (Some ''TRC-0001'') (Some ''failed'')))
     \<and> closed (broker_report x 4 (ActivityTaskFailed 4 (Some ''TRC-0001'') (Some ''failed''))) = None
     \<and> open_acts (broker_report x 4 (ActivityTaskFailed 4 (Some ''TRC-0001'') (Some ''failed''))) = []
     \<and> (\<forall>z. \<not> broker_step (fm_dec ''u'' ''tk'') (broker_report x 4 (ActivityTaskFailed 4 (Some ''TRC-0001'') (Some ''failed''))) z)"
proof -
  note r = fm_delete_run(1) [OF delete_input_getitem, of "''u''" "''tk''"]
  have s: "(4::int) \<in> set (open_acts (broker_start (JObj [(''locationDestination'', JStr ''delete'')])
      \<lparr>hist := hist (broker_start (JObj [(''locationDestination'', JStr ''delete'')])) @
         [OtherEvent ''DecisionTaskCompleted'', ActivityTaskScheduled ''deleteFiles'' (Some (JObj [(''locationDestination'', JStr ''delete'')]))],
       decision_open := False, open_acts := [4]\<rparr>))" by simp
  show ?thesis
    using r s failed_task_stalls [OF disjI2 [OF refl] r s, of "''TRC-0001''" "''failed''"] by blast
qed

end
