(* ===== verification/Deployment.thy ===== *)
theory Deployment
  imports Pipeline Paths
begin

text \<open>
  Which worker serves which task.  The deciders schedule each activity on the
  SWF task list named like the activity (\<open>taskList = taskName\<close>) in the domain
  \<open>ITD\<close>, and an SWF activity worker polls the task list named like its own
  module (\<open>taskName = os.path.basename(__file__)[:-3]\<close>).  The Step Functions
  workers of \<open>src/SFNcode\<close> poll an activity ARN instead, which no SWF decision
  reaches.  \<open>repo_workers\<close> lists every activity worker module of the
  repository with the poll call it makes; the lemmas compare the stages of the
  pipeline tables with the task lists that some worker polls.
\<close>

datatype poller =
    SwfPoll string string  \<comment> \<open>\<open>swf.poll_for_activity_task(domain, taskList)\<close>\<close>
  | SfnPoll string         \<comment> \<open>\<open>sfn.get_activity_task(activityArn)\<close>\<close>

text \<open>\<open>os.path.basename(__file__)[:-3]\<close>: the module name without \<open>.py\<close>.\<close>

definition poll_list :: "string \<Rightarrow> string" where
  "poll_list file = (let b = basename file in take (length b - 3) b)"

definition swf_worker :: "string \<Rightarrow> string \<times> poller" where
  "swf_worker file = (file, SwfPoll ''ITD'' (poll_list file))"

definition sfn_arn :: "string \<Rightarrow> string" where
  "sfn_arn activity = ''arn:aws:states:us-east-1:497940546915:activity:'' @ activity"

definition repo_workers :: "(string \<times> poller) list" where
  "repo_workers =
     [swf_worker ''src/workflowcode/cleanUpLandingPad.py'',
      swf_worker ''src/workflowcode/createThumbnailFromImage.py'',
      swf_worker ''src/workflowcode/createThumbnailFromVideo.py'',
      swf_worker ''src/workflowcode/distributeToS3.py'',
      swf_worker ''src/workflowcode/identifyAssetClass.py'',
      swf_worker ''src/workflowcode/registerAsset.py'',
      swf_worker ''src/workflowcode/transcodeVideoDefault.py'',
      swf_worker ''src/SFNcode/deleteFiles.py'',
      swf_worker ''src/SFNcode/moveFiles.py'',
      (''src/SFNcode/cleanUpLandingPad.py'', SfnPoll (sfn_arn ''cleanUpLandingPad'')),
      (''src/SFNcode/createThumbnailFromImage.py'', SfnPoll (sfn_arn ''createThumbnailFromImage'')),
      (''src/SFNcode/distributeToS3.py'', SfnPoll (sfn_arn ''distributeToS3'')),
      (''src/SFNcode/extractExifMetadata.py'', SfnPoll (sfn_arn ''extractExifMetadata'')),
      (''src/SFNcode/extractMediainfoMetadata.py'', SfnPoll (sfn_arn ''extractMediaInfoMetadata'')),
      (''src/SFNcode/identifyAssetClass.py'', SfnPoll (sfn_arn ''identifyAssetClass'')),
      (''src/SFNcode/registerAsset.py'', SfnPoll (sfn_arn ''registerAsset'')),
      (''src/SFNcode/transcodeVideoDefault.py'', SfnPoll (sfn_arn ''transcodeVideo''))]"

text \<open>Some worker of the repository polls task list \<open>l\<close> of domain \<open>domain\<close>.\<close>

definition swf_served :: "string \<Rightarrow> string \<Rightarrow> bool" where
  "swf_served domain l = list_ex (\<lambda>(f, p). p = SwfPoll domain l) repo_workers"

section \<open>Lemmas\<close>

lemma repo_pollers:
  "map snd repo_workers =
     map (SwfPoll ''ITD'') [''cleanUpLandingPad'', ''createThumbnailFromImage'', ''createThumbnailFromVideo'',
       ''distributeToS3'', ''identifyAssetClass'', ''registerAsset'', ''transcodeVideoDefault'', ''deleteFiles'',
       ''moveFiles''] @
     map (SfnPoll \<circ> sfn_arn) [''cleanUpLandingPad'', ''createThumbnailFromImage'', ''distributeToS3'',
       ''extractExifMetadata'', ''extractMediaInfoMetadata'', ''identifyAssetClass'', ''registerAsset'',
       ''transcodeVideo'']"
  by (simp add: repo_workers_def swf_worker_def poll_list_def basename_def)

text \<open>The task lists the SWF workers poll, all in the domain \<open>ITD\<close>.\<close>

lemma swf_served_iff:
  "swf_served domain l \<longleftrightarrow> domain = ''ITD'' \<and> l \<in> {''cleanUpLandingPad'', ''createThumbnailFromImage'',
     ''createThumbnailFromVideo'', ''distributeToS3'', ''identifyAssetClass'', ''registerAsset'',
     ''transcodeVideoDefault'', ''deleteFiles'', ''moveFiles''}"
proof -
  have "swf_served domain l \<longleftrightarrow> list_ex (\<lambda>p. p = SwfPoll domain l) (map snd repo_workers)"
    by (force simp: swf_served_def list_ex_iff case_prod_unfold)
  also have "\<dots> \<longleftrightarrow> domain = ''ITD'' \<and> l \<in> {''cleanUpLandingPad'', ''createThumbnailFromImage'',
     ''createThumbnailFromVideo'', ''distributeToS3'', ''identifyAssetClass'', ''registerAsset'',
     ''transcodeVideoDefault'', ''deleteFiles'', ''moveFiles''}"
    unfolding repo_pollers by auto
  finally show ?thesis .
qed

text \<open>Every stage of every lifecycle run is served by a worker of the repository.\<close>

lemma lifecycle_stages_served:
  "map_option (list_all (swf_served ''ITD'')) (pipeline_path lifecycle_table 3 (lifecycle_entry (snd k)) k) = Some True"
  by (simp add: lifecycle_runs swf_served_iff)

section \<open>Properties\<close>


end
