(* ===== verification/Spec2Isabelle.thy ===== *)
theory Spec2Isabelle
  imports Ingestion Lifecycle Classifier Derive Storage Scenarios Extract Harness Broker Deployment
begin

text \<open>
  A verification library for the media management system of this repository
  (\<open>src/workflowcode\<close>: the SWF ingestion pipeline; \<open>src/SFNcode\<close>: the Step
  Functions workers and the lifecycle pipeline).  The system consists of
  deciders, which turn an execution's event history into the next scheduled
  activity, and activity workers, which poll for a task of their type, act on
  the catalog (DynamoDB table \<open>Assets\<close>), the local disk and the S3 bucket, and
  report completion or failure.  Everything is a shallow embedding: Python
  values are \<open>jval\<close> documents, exceptions are the \<open>Inl\<close> values of \<open>'a py\<close>,
  loops are recursion over lists or a \<open>partial_function\<close>, and the services
  the code calls are parameters.

  \<^bold>\<open>Theories and what they model.\<close>
  \<^item> \<open>Prelude\<close>: Python semantics the code relies on: exceptions
    (\<open>py_error\<close>, \<open>py_bind\<close>), JSON documents and dict access
    (\<open>py_getitem\<close>, \<open>py_dict_update\<close>, \<open>py_setitem\<close>, \<open>py_items\<close>,
    \<open>py_catch_key\<close> for \<open>except KeyError\<close>, \<open>py_foldl\<close> for a raising
    \<open>for\<close> loop), indexing, \<open>lower\<close>, \<open>readlines\<close>, \<open>split\<close>, \<open>str\<close>/\<open>'%02d'\<close>,
    \<open>int\<close> and \<open>json.dumps\<close>; shared lemmas are collected in \<open>py_simps\<close>.
  \<^item> \<open>Paths\<close>: \<open>os.path\<close> and \<open>parseHelper.splitFilename\<close> (not under \<open>src\<close>,
    modelled from their documented behaviour).
  \<^item> \<open>Pipeline\<close>: the abstract specification, a pipeline definition as a
    table from completed stage and branch key to the next stage, with the
    ingestion and lifecycle tables.
  \<^item> \<open>History\<close>: the broker's event history and decisions as the deciders read
    and write them.
  \<^item> \<open>Ingestion\<close>: \<open>src/workflowcode/decider.py\<close>, the decider's locals
    (\<open>ingest_locals\<close>) and one decision step per branch of its \<open>if\<close> chain;
    \<open>Lifecycle\<close>: \<open>src/SFNcode/fileManager.py\<close>.
  \<^item> \<open>Worker\<close>: the activity worker protocol shared by every worker's \<open>main\<close>:
    one pass (\<open>worker_step\<close>, \<open>worker_step_st\<close> for handlers that change the
    world), the loop over a finite poll sequence (\<open>worker_run\<close>,
    \<open>worker_run_st\<close>) and the \<open>while True\<close> loop over an unbounded one
    (\<open>worker_loop\<close>, a \<open>partial_function (option)\<close> whose \<open>None\<close> is a worker
    that never stops).
  \<^item> \<open>Classifier\<close>: \<open>identifyAssetClass.py\<close> (both copies): loading the
    extension tables and classifying a path.
  \<^item> \<open>Catalog\<close>: the \<open>Assets\<close> table as an association list from checksum to
    item, \<open>update_item\<close> actions, and \<open>registerAsset.py\<close> (put, conditional
    revive, failure).
  \<^item> \<open>World\<close>: the state the workers act on, a record of the catalog, the files
    and directories of the worker hosts and the bucket, with the file system
    calls the workers make; external tools are a parameter \<open>tool\<close>.
  \<^item> \<open>Derive\<close>: \<open>createThumbnailFromImage.py\<close>, \<open>createThumbnailFromVideo.py\<close>
    (frame count by \<open>fnmatch\<close>, WebVTT storyboard, key frame) and
    \<open>transcodeVideoDefault.py\<close>.
  \<^item> \<open>Storage\<close>: \<open>distributeToS3.py\<close>, \<open>cleanUpLandingPad.py\<close>, \<open>moveFiles.py\<close>
    (whose \<open>OUTPUT\<close> survives from one task to the next, so its state is the
    world and that variable) and \<open>deleteFiles.py\<close>.
  \<^item> \<open>Extract\<close>: \<open>extractExifMetadata.py\<close> and \<open>extractMediainfoMetadata.py\<close>:
    \<open>parseMediaToDict\<close>, \<open>processFile\<close> and the handler; checksum, exiftool,
    MediaInfo, geocoder, GPS and date parsers and the clock are the record
    \<open>extract_env\<close>.
  \<^item> \<open>Scenarios\<close>: runs that compose workers in the order the deciders
    schedule them: the archive move \<open>lifecycle_archive_chain\<close>, and
    extraction followed by registration (\<open>exif_register_user_key\<close>).
  \<^item> \<open>Broker\<close>: the broker's side of an execution, from the specification
    (its code is not in the repository): an \<open>execution\<close> record (history, the
    outstanding decision task, the outstanding activity tasks, the result), an
    \<open>inductive\<close> step relation \<open>broker_step\<close> (a decider answers, a worker
    reports completion or failure through \<open>broker_report\<close>) and its
    reachable states \<open>reachable_exec\<close>, run with the two deciders of the
    repository as they answer a decision task (\<open>ingest_dec\<close>, \<open>fm_dec\<close>).
  \<^item> \<open>Deployment\<close>: which worker module polls which task: the SWF workers
    poll the task list named like their module (\<open>poll_list\<close>, the
    \<open>os.path.basename(__file__)[:-3]\<close> of every worker), the Step Functions
    workers an activity ARN (\<open>repo_workers\<close> lists all seventeen).
  \<^item> \<open>Harness\<close>: \<open>src/workflowcode/testHarness.py\<close>: the staging of a sample
    upload and the executions \<open>runTest\<close> and \<open>delTest\<close> start, with lemmas
    that the deciders take them to \<open>identifyAssetClass\<close> and \<open>deleteFiles\<close>;
    the experiments \<open>transcodeTest\<close>, \<open>dbTest\<close> and \<open>dbTest2\<close>, with lemmas
    that the first leaves the catalog alone, the second dies with \<open>NameError\<close>
    on every entry without a \<open>thumbnails\<close> map, and the third writes a
    location attribute no worker reads.

  \<^bold>\<open>What the lemmas show\<close> (claims C1 to C40, each stated after a text block
  that names it).
  \<^item> Refinement of the pipeline tables by the deciders (C1, C8), their
    start, carry-forward, completion and error behaviour (C2 to C7, C9, C10),
    including that a failed activity gets no decision and that the lifecycle
    archive test is a substring test.
  \<^item> Classification (C11 to C14): case-insensitivity, table precedence, the
    last-line defect of the table loader, and the uppercase table entries it
    never consults.
  \<^item> The broker (C15, C38): the protocol invariant, proved by rule induction
    over \<open>broker_step\<close>, that an execution run by either decider has exactly one
    unit of work outstanding and reports each task once; and the composition
    of the deciders' silence on failures with the broker: a failed task stalls
    the execution for good (\<open>failed_task_stalls\<close>), while a delete run of
    the lifecycle pipeline reaches \<open>success\<close> (\<open>fm_delete_run\<close>).
  \<^item> Catalog (C16 to C19): the invariant that every item is stored under its own
    checksum, preserved by every run of the registration worker, and the new,
    duplicate and revive paths.
  \<^item> Derivation (C20 to C22, C24, C25, C40): the frame glob, the storyboard
    timestamp round trip and its width bound, the catalog updates and the
    failure paths (the transcode worker's \<open>NameError\<close>).
  \<^item> Deployment (C23): along every ingestion run the extraction stage, and
    for audio the audio transcode, is scheduled on a task list no worker of the
    repository polls; every lifecycle stage is served
    (\<open>lifecycle_stages_served\<close>).
  \<^item> Storage (C26 to C32) and the end-to-end archive move (C33), which loses
    every copy of the asset.
  \<^item> Extraction (C34 to C37): user metadata overriding the checksum, the
    irrelevance of the dict order of the mapping (an equivalence over all
    permutations), the \<open>IndexError\<close> of an empty geocoder answer and the
    well-formedness of the documents; last-track-wins for media tracks is the
    lemma \<open>mi_last_video_track_wins\<close>.
  \<^item> The worker loop (C39): it ends exactly at the first poll whose handler
    raises.

  \<^bold>\<open>Bounds and parameters.\<close>  Every loop of the code runs over a finite list
  (events, tracks, files, keys) and is structural recursion; the one unbounded
  loop, \<open>while True\<close>, is a \<open>partial_function\<close> whose termination is
  characterised exactly (C39).  Only the abstract runs of a pipeline table
  (\<open>pipeline_path\<close>) take fuel, since an arbitrary table may cycle; more fuel
  never changes a result (\<open>pipeline_path_mono\<close>), and eight stages suffice
  for every run of the ingestion table and three for the lifecycle table
  (\<open>ingest_runs\<close>, \<open>lifecycle_runs\<close>).  Numbers are unbounded
  naturals or integers as in Python; the only width that matters is the
  two-digit \<open>'%02d'\<close> field, bounded in C40.  Python 2 dicts iterate in an
  unspecified order; the model follows the order of the source's literals and
  C35 shows where that order is irrelevant.

  \<^bold>\<open>Not modelled.\<close>
  \<^item> In \<open>testHarness.py\<close>, the SWF \<open>start_workflow_execution\<close> call itself
    (its result is the workflow id and input the model returns) and the
    printing of answers.
  \<^item> The broker (SWF, Step Functions) is modelled for one execution at a
    time, without the \<open>ActivityTaskStarted\<close> and timeout events, task lists
    or several executions sharing workers; DynamoDB, S3 and Glacier are
    modelled only through the operations the code calls, on the \<open>World\<close>
    record; network failures and concurrent workers are not.
  \<^item> The helper libraries outside \<open>src\<close> (\<open>parseHelper\<close>, \<open>databaseHelper\<close>)
    are modelled from their documented behaviour where the code depends on
    their result (\<open>splitFilename\<close>, \<open>createDir\<close>, \<open>updateEntry\<close>) and are
    parameters otherwise; logging is omitted.
  \<^item> The media tools themselves (exiftool, MediaInfo, convert, ffmpeg) are
    parameters: a model gives their output or their error.
\<close>

end
